theory Spec2Isabelle
  imports Complex_Main
begin

section \<open>JavaScript values\<close>

text \<open>
  The server (\<^verbatim>\<open>server.js\<close>) is an Express application over SQLite. Request bodies are
  parsed JSON, so every body field is an arbitrary JavaScript value. A number is an IEEE
  double; the handlers only compare numbers, so a finite double is represented by the rational
  it denotes, next to \<^verbatim>\<open>NaN\<close> and the two infinities. A string is a list of
  8-bit characters.
\<close>

datatype jsnum = NaN | NegInf | Fin rat | PosInf

datatype jsval =
    JUndefined
  | JNull
  | JBool bool
  | JNum jsnum
  | JStr string
  | JArr "jsval list"
  | JObj "(string \<times> jsval) list"

type_synonym jsobject = "(string \<times> jsval) list"

text \<open>\<^verbatim>\<open>x <= 0\<close> and \<^verbatim>\<open>x > y\<close> on numbers: every comparison with NaN is false.\<close>

fun js_le_zero :: "jsnum \<Rightarrow> bool" where
  "js_le_zero NaN = False"
| "js_le_zero NegInf = True"
| "js_le_zero (Fin r) = (r \<le> 0)"
| "js_le_zero PosInf = False"

fun js_gt :: "jsnum \<Rightarrow> jsnum \<Rightarrow> bool" where
  "js_gt NaN _ = False"
| "js_gt _ NaN = False"
| "js_gt NegInf _ = False"
| "js_gt (Fin a) NegInf = True"
| "js_gt (Fin a) (Fin b) = (b < a)"
| "js_gt (Fin a) PosInf = False"
| "js_gt PosInf PosInf = False"
| "js_gt PosInf _ = True"

definition isNaN :: "jsnum \<Rightarrow> bool" where
  "isNaN n = (n = NaN)"

text \<open>Truthiness, as \<^verbatim>\<open>!x\<close>, \<^verbatim>\<open>x || y\<close> and \<^verbatim>\<open>x ? a : b\<close> read it.\<close>

fun truthy :: "jsval \<Rightarrow> bool" where
  "truthy JUndefined = False"
| "truthy JNull = False"
| "truthy (JBool b) = b"
| "truthy (JNum n) = (n \<noteq> NaN \<and> n \<noteq> Fin 0)"
| "truthy (JStr s) = (s \<noteq> [])"
| "truthy (JArr xs) = True"
| "truthy (JObj kvs) = True"

definition js_or :: "jsval \<Rightarrow> jsval \<Rightarrow> jsval" where
  "js_or a b = (if truthy a then a else b)"

text \<open>\<^verbatim>\<open>obj.k\<close> on a parsed JSON object: a missing key reads as \<^verbatim>\<open>undefined\<close>.\<close>

definition obj_get :: "jsobject \<Rightarrow> string \<Rightarrow> jsval" where
  "obj_get obj k = (case map_of obj k of Some v \<Rightarrow> v | None \<Rightarrow> JUndefined)"

text \<open>
  \<^verbatim>\<open>v.k\<close> on an arbitrary value, for the data keys the handlers read: it throws a
  TypeError when \<open>v\<close> is \<^verbatim>\<open>null\<close> or \<^verbatim>\<open>undefined\<close> (\<open>nullish\<close>), and is
  \<^verbatim>\<open>undefined\<close> on every other value that is not an object.
\<close>

definition nullish :: "jsval \<Rightarrow> bool" where
  "nullish v = (v = JNull \<or> v = JUndefined)"

definition js_member :: "jsval \<Rightarrow> string \<Rightarrow> jsval" where
  "js_member v k = (case v of JObj kvs \<Rightarrow> obj_get kvs k | _ \<Rightarrow> JUndefined)"

definition jnat :: "nat \<Rightarrow> jsval" where
  "jnat n = JNum (Fin (of_nat n))"

text \<open>Decimal rendering of a count or an index inside a template string.\<close>

definition digit_char :: "nat \<Rightarrow> char" where
  "digit_char d = char_of (48 + d)"

fun show_nat :: "nat \<Rightarrow> string" where
  "show_nat n = (if n < 10 then [digit_char n] else show_nat (n div 10) @ [digit_char (n mod 10)])"

declare show_nat.simps [simp del]

section \<open>The runtime the handlers call\<close>

text \<open>
  The handlers call builtins of the JavaScript runtime and of the libraries the
  specification treats as external collaborators (the JWT library, the SQLite engine and its
  driver). They are parameters of the model: every theorem below holds whatever these functions
  return.

  \<^item> \<open>toString_throws\<close>: the conversion of an array or an object to a primitive throws a
    TypeError, as it does for an object whose \<^verbatim>\<open>toString\<close> is not a function (a parsed JSON object
    with a key \<^verbatim>\<open>toString\<close>). \<^verbatim>\<open>parseInt\<close>, \<^verbatim>\<open>parseFloat\<close>, \<^verbatim>\<open>Date.parse\<close>,
    \<^verbatim>\<open>RegExp.prototype.test\<close>, a comparison and a template string convert their operand
    first, and throw when the conversion does.
  \<^item> \<open>parseInt\<close>, \<open>parseFloat\<close>, \<open>Date_parse\<close>: what the builtins of the same names
    return when they do not throw.
  \<^item> \<open>toUpperCase\<close>: \<^verbatim>\<open>String.prototype.toUpperCase\<close>.
  \<^item> \<open>toString\<close>: string conversion of a value that is not a string, when it does not throw.
  \<^item> \<open>toNumber\<close>: numeric conversion of a string, an array or an object in a comparison,
    when it does not throw.
  \<^item> \<open>jwt_verify\<close>: \<^verbatim>\<open>jwt.verify(token, JWT_SECRET)\<close>; it fails with a named error or
    yields the payload. Every token the server signs carries \<^verbatim>\<open>id: <users row id>\<close>, so
    the payload is represented by that id.
  \<^item> \<open>sql_numeric\<close>: the number SQLite reads from a text that is a numeric literal
    (\<open>None\<close> when the text is not one), when it compares a text parameter with an INTEGER
    column and when it stores a text in a column of INTEGER, REAL or NUMERIC affinity.
  \<^item> \<open>sql_text\<close>: the text SQLite stores for a number in a column of TEXT affinity.
  \<^item> \<open>bind_object\<close>: the text the SQLite driver binds for a parameter that is an array or
    an object; \<open>None\<close> when the driver throws instead.
  \<^item> \<open>current_timestamp\<close>: the value of \<^verbatim>\<open>CURRENT_TIMESTAMP\<close> when the \<open>k\<close>-th
    statement of the request runs.
\<close>

datatype jwt_result = JwtError string | JwtPayload nat

record js_env =
  toString_throws :: "jsval \<Rightarrow> bool"
  parseInt :: "jsval \<Rightarrow> jsnum"
  parseFloat :: "jsval \<Rightarrow> jsnum"
  Date_parse :: "jsval \<Rightarrow> jsnum"
  toUpperCase :: "string \<Rightarrow> string"
  toString :: "jsval \<Rightarrow> string"
  toNumber :: "jsval \<Rightarrow> jsnum"
  jwt_verify :: "string \<Rightarrow> jwt_result"
  sql_numeric :: "string \<Rightarrow> rat option"
  sql_text :: "jsnum \<Rightarrow> string"
  bind_object :: "jsval \<Rightarrow> string option"
  current_timestamp :: "nat \<Rightarrow> string"

text \<open>
  The conversion of a value to a primitive throws: a number, a string, a boolean,
  \<^verbatim>\<open>null\<close> and \<^verbatim>\<open>undefined\<close> are primitives, and their conversion never throws.
\<close>

definition conversion_throws :: "js_env \<Rightarrow> jsval \<Rightarrow> bool" where
  "conversion_throws env v =
     (case v of
        JArr xs \<Rightarrow> toString_throws env v
      | JObj kvs \<Rightarrow> toString_throws env v
      | _ \<Rightarrow> False)"

text \<open>\<^verbatim>\<open>`${v}`\<close>: a value interpolated into a template string, when the conversion does not throw.\<close>

definition js_to_string :: "js_env \<Rightarrow> jsval \<Rightarrow> string" where
  "js_to_string env v =
     (case v of
        JStr s \<Rightarrow> s
      | JUndefined \<Rightarrow> ''undefined''
      | JNull \<Rightarrow> ''null''
      | JBool b \<Rightarrow> (if b then ''true'' else ''false'')
      | _ \<Rightarrow> toString env v)"

text \<open>
  \<^verbatim>\<open>v >= 0\<close> on an arbitrary value, when the conversion does not throw, and
  \<^verbatim>\<open>v.length\<close> on a truthy one.
\<close>

definition js_to_number :: "js_env \<Rightarrow> jsval \<Rightarrow> jsnum" where
  "js_to_number env v =
     (case v of
        JNum n \<Rightarrow> n
      | JUndefined \<Rightarrow> NaN
      | JNull \<Rightarrow> Fin 0
      | JBool b \<Rightarrow> Fin (if b then 1 else 0)
      | _ \<Rightarrow> toNumber env v)"

definition js_ge_zero :: "js_env \<Rightarrow> jsval \<Rightarrow> bool" where
  "js_ge_zero env v =
     (case js_to_number env v of
        NaN \<Rightarrow> False
      | NegInf \<Rightarrow> False
      | Fin r \<Rightarrow> 0 \<le> r
      | PosInf \<Rightarrow> True)"

definition js_length :: "jsval \<Rightarrow> jsval" where
  "js_length v =
     (case v of
        JArr xs \<Rightarrow> jnat (length xs)
      | JStr s \<Rightarrow> jnat (length s)
      | JObj kvs \<Rightarrow> obj_get kvs ''length''
      | _ \<Rightarrow> JUndefined)"

section \<open>Requests and responses\<close>

text \<open>
  An uploaded spreadsheet is represented by what the spreadsheet library yields for it: it
  throws, or \<^verbatim>\<open>sheet_to_json(worksheet, { header: 1 })\<close> returns the rows of the first sheet,
  each an array of cells.
\<close>

datatype upload = Unreadable | Sheet "jsval list list"

record request =
  authorization :: "string option"
  param_id :: string
  body :: jsobject
  upload_file :: "upload option"

text \<open>
  \<^verbatim>\<open>res.status(n).json(v)\<close> is \<open>Response n v\<close> and \<^verbatim>\<open>res.json(v)\<close> is \<open>Response 200 v\<close>.
  \<open>NoResponse\<close> is a request that is never answered because a callback threw.
\<close>

datatype response = Response nat jsval | NoResponse

definition json_error :: "nat \<Rightarrow> string \<Rightarrow> response" where
  "json_error code msg = Response code (JObj [(''error'', JStr msg)])"

definition json_message :: "string \<Rightarrow> response" where
  "json_message msg = Response 200 (JObj [(''message'', JStr msg)])"

text \<open>\<^verbatim>\<open>res.json({...})\<close> of an object literal: a key whose value is \<^verbatim>\<open>undefined\<close> is not sent.\<close>

definition res_json :: "jsobject \<Rightarrow> response" where
  "res_json obj = Response 200 (JObj (filter (\<lambda>kv. snd kv \<noteq> JUndefined) obj))"

subsection \<open>The bearer token\<close>

text \<open>\<^verbatim>\<open>s.split(' ')\<close>.\<close>

fun split_space :: "string \<Rightarrow> string list" where
  "split_space [] = [[]]"
| "split_space (c # cs) =
     (if c = CHR '' '' then [] # split_space cs
      else (case split_space cs of
              [] \<Rightarrow> [[c]]
            | w # ws \<Rightarrow> (c # w) # ws))"

text \<open>
  \<^verbatim>\<open>const token = authHeader && authHeader.split(' ')[1];\<close> The result is
  \<^verbatim>\<open>undefined\<close> (\<open>None\<close>) or a string.
\<close>

definition bearer_token :: "request \<Rightarrow> string option" where
  "bearer_token req =
     (case authorization req of
        None \<Rightarrow> None
      | Some h \<Rightarrow>
          if h = [] then Some []
          else (case split_space h of
                  a # t # rest \<Rightarrow> Some t
                | _ \<Rightarrow> None))"

text \<open>
  \<^verbatim>\<open>authenticateToken\<close>, the middleware: it answers itself (\<open>Inl\<close>) or calls
  \<^verbatim>\<open>next()\<close> with the payload in \<^verbatim>\<open>req.user\<close> (\<open>Inr\<close>).
\<close>

definition authenticateToken :: "js_env \<Rightarrow> request \<Rightarrow> response + nat" where
  "authenticateToken env req =
     (case bearer_token req of
        None \<Rightarrow> Inl (json_error 401 ''Access token required'')
      | Some token \<Rightarrow>
          if token = [] then Inl (json_error 401 ''Access token required'')
          else (case jwt_verify env token of
                  JwtError name \<Rightarrow>
                    if name = ''TokenExpiredError''
                    then Inl (Response 401 (JObj [(''error'', JStr ''Token expired''),
                                                  (''code'', JStr ''TOKEN_EXPIRED'')]))
                    else Inl (json_error 403 ''Invalid token'')
                | JwtPayload user \<Rightarrow> Inr user))"

text \<open>
  \<^verbatim>\<open>getCurrentUserId\<close>: the id of the payload; \<open>None\<close> when it throws (no token, or
  \<^verbatim>\<open>jwt.verify\<close> throws).
\<close>

definition getCurrentUserId :: "js_env \<Rightarrow> request \<Rightarrow> nat option" where
  "getCurrentUserId env req =
     (case bearer_token req of
        None \<Rightarrow> None
      | Some token \<Rightarrow>
          if token = [] then None
          else (case jwt_verify env token of
                  JwtError name \<Rightarrow> None
                | JwtPayload user \<Rightarrow> Some user))"

section \<open>The store\<close>

text \<open>
  A table is the list of its rows, in insertion order, and the AUTOINCREMENT counter SQLite
  keeps for it. A row is its \<^verbatim>\<open>id\<close> (INTEGER PRIMARY KEY AUTOINCREMENT) and its other
  columns by name; a column that is not listed is NULL. A stored value is NULL, a number or a
  text.
\<close>

record row =
  rowid :: nat
  cols :: jsobject

record table =
  rows :: "row list"
  seq :: nat

record store =
  properties :: table
  tenants :: table
  maintenance_requests :: table
  financial_records :: table
  rent_tracking :: table
  cheques :: table

definition col :: "row \<Rightarrow> string \<Rightarrow> jsval" where
  "col r c =
     (if c = ''id'' then jnat (rowid r)
      else (case map_of (cols r) c of Some v \<Rightarrow> v | None \<Rightarrow> JNull))"

subsection \<open>The tables\<close>

text \<open>
  The \<^verbatim>\<open>CREATE TABLE\<close> statements of \<^verbatim>\<open>initDatabase\<close>: for each table its columns after
  \<^verbatim>\<open>id\<close>, in the order of the statement and with the affinity SQLite derives from the
  declared type (\<^verbatim>\<open>DATE\<close>, \<^verbatim>\<open>DATETIME\<close> and \<^verbatim>\<open>BOOLEAN\<close> have NUMERIC affinity), its
  NOT NULL columns and its DEFAULT clauses.
\<close>

datatype affinity = INTEGER | REAL | NUMERIC | TEXT

datatype sql_default = DefaultValue jsval | CurrentTimestamp

record table_def =
  tname :: string
  columns :: "(string \<times> affinity) list"
  notnull :: "string list"
  defaults :: "(string \<times> sql_default) list"

definition properties_table :: table_def where
  "properties_table =
     \<lparr>tname = ''properties'',
      columns = [(''user_id'', INTEGER), (''name'', TEXT), (''address'', TEXT), (''type'', TEXT),
                 (''bedrooms'', INTEGER), (''bathrooms'', INTEGER), (''square_feet'', REAL),
                 (''rent_amount'', REAL), (''currency'', TEXT), (''status'', TEXT),
                 (''electricity_number'', TEXT), (''water_number'', TEXT), (''created_at'', NUMERIC)],
      notnull = [''user_id'', ''name'', ''address'', ''type''],
      defaults = [(''currency'', DefaultValue (JStr ''USD'')), (''status'', DefaultValue (JStr ''vacant'')),
                  (''created_at'', CurrentTimestamp)]\<rparr>"

definition tenants_table :: table_def where
  "tenants_table =
     \<lparr>tname = ''tenants'',
      columns = [(''user_id'', INTEGER), (''first_name'', TEXT), (''last_name'', TEXT), (''email'', TEXT),
                 (''phone'', TEXT), (''nationality'', TEXT), (''property_id'', INTEGER),
                 (''lease_start'', NUMERIC), (''lease_end'', NUMERIC), (''rent_amount'', REAL),
                 (''currency'', TEXT), (''status'', TEXT), (''free_month_type'', TEXT),
                 (''free_month_date'', TEXT), (''created_at'', NUMERIC)],
      notnull = [''user_id'', ''first_name'', ''last_name'', ''email''],
      defaults = [(''currency'', DefaultValue (JStr ''USD'')), (''status'', DefaultValue (JStr ''active'')),
                  (''created_at'', CurrentTimestamp)]\<rparr>"

definition maintenance_requests_table :: table_def where
  "maintenance_requests_table =
     \<lparr>tname = ''maintenance_requests'',
      columns = [(''user_id'', INTEGER), (''property_id'', INTEGER), (''tenant_id'', INTEGER),
                 (''title'', TEXT), (''description'', TEXT), (''priority'', TEXT), (''status'', TEXT),
                 (''created_at'', NUMERIC), (''completed_at'', NUMERIC)],
      notnull = [''user_id'', ''title''],
      defaults = [(''priority'', DefaultValue (JStr ''medium'')), (''status'', DefaultValue (JStr ''pending'')),
                  (''created_at'', CurrentTimestamp)]\<rparr>"

definition financial_records_table :: table_def where
  "financial_records_table =
     \<lparr>tname = ''financial_records'',
      columns = [(''user_id'', INTEGER), (''property_id'', INTEGER), (''tenant_id'', INTEGER),
                 (''type'', TEXT), (''amount'', REAL), (''currency'', TEXT), (''description'', TEXT),
                 (''date'', NUMERIC), (''created_at'', NUMERIC)],
      notnull = [''user_id'', ''type'', ''amount'', ''date''],
      defaults = [(''currency'', DefaultValue (JStr ''USD'')), (''created_at'', CurrentTimestamp)]\<rparr>"

definition rent_tracking_table :: table_def where
  "rent_tracking_table =
     \<lparr>tname = ''rent_tracking'',
      columns = [(''user_id'', INTEGER), (''property_id'', INTEGER), (''tenant_id'', INTEGER),
                 (''rent_month'', TEXT), (''due_date'', NUMERIC), (''total_amount'', REAL),
                 (''currency'', TEXT), (''payment_method'', TEXT), (''payment_amount'', REAL),
                 (''payment_date'', NUMERIC), (''cash_received_by'', TEXT),
                 (''cash_receipt_number'', TEXT), (''cheque_number'', TEXT), (''cheque_bank'', TEXT),
                 (''cheque_date'', NUMERIC), (''cheque_status'', TEXT), (''online_reference'', TEXT),
                 (''online_bank'', TEXT), (''partial_reason'', TEXT), (''partial_balance'', REAL),
                 (''partial_notes'', TEXT), (''notes'', TEXT), (''created_at'', NUMERIC)],
      notnull = [''user_id'', ''property_id'', ''tenant_id'', ''rent_month'', ''due_date'',
                 ''total_amount'', ''payment_method'', ''payment_amount'', ''payment_date''],
      defaults = [(''currency'', DefaultValue (JStr ''USD'')),
                  (''cheque_status'', DefaultValue (JStr ''pending'')),
                  (''partial_balance'', DefaultValue (JNum (Fin 0))),
                  (''created_at'', CurrentTimestamp)]\<rparr>"

definition cheques_table :: table_def where
  "cheques_table =
     \<lparr>tname = ''cheques'',
      columns = [(''tenant_id'', INTEGER), (''cheque_number'', TEXT), (''bank_name'', TEXT),
                 (''date'', NUMERIC), (''amount'', REAL), (''is_security'', NUMERIC),
                 (''created_at'', NUMERIC)],
      notnull = [''tenant_id''],
      defaults = [(''is_security'', DefaultValue (JNum (Fin 0))), (''created_at'', CurrentTimestamp)]\<rparr>"

text \<open>
  A row of \<^verbatim>\<open>SELECT *\<close> as \<^verbatim>\<open>db.get\<close> and \<^verbatim>\<open>db.all\<close> hand it to their callback:
  \<^verbatim>\<open>id\<close> and every column of the table, a NULL as \<^verbatim>\<open>null\<close>.
\<close>

definition row_fields :: "table_def \<Rightarrow> row \<Rightarrow> jsobject" where
  "row_fields td r = (''id'', jnat (rowid r)) # map (\<lambda>(c, a). (c, col r c)) (columns td)"

definition row_json :: "table_def \<Rightarrow> row \<Rightarrow> jsval" where
  "row_json td r = JObj (row_fields td r)"

subsection \<open>Parameters\<close>

text \<open>
  The value the driver binds for a parameter that is not an array or an object:
  \<^verbatim>\<open>undefined\<close> and \<^verbatim>\<open>null\<close> are bound as NULL and a boolean as 0 or 1, and SQLite reads a
  NaN as NULL. A number or a string is bound as it is.
\<close>

definition sql_value :: "jsval \<Rightarrow> jsval" where
  "sql_value v =
     (case v of
        JUndefined \<Rightarrow> JNull
      | JNum n \<Rightarrow> (if n = NaN then JNull else JNum n)
      | JBool b \<Rightarrow> jnat (if b then 1 else 0)
      | _ \<Rightarrow> v)"

text \<open>
  The value the driver binds for any parameter, and the parameters of a statement by column:
  \<open>None\<close> when the driver throws, in which case \<^verbatim>\<open>db.run\<close> throws in the handler.
\<close>

definition sql_bind :: "js_env \<Rightarrow> jsval \<Rightarrow> jsval option" where
  "sql_bind env v =
     (case v of
        JArr xs \<Rightarrow> map_option JStr (bind_object env v)
      | JObj kvs \<Rightarrow> map_option JStr (bind_object env v)
      | _ \<Rightarrow> Some (sql_value v))"

fun bind_params :: "js_env \<Rightarrow> jsobject \<Rightarrow> jsobject option" where
  "bind_params env [] = Some []"
| "bind_params env ((c, v) # rest) =
     (case sql_bind env v of
        None \<Rightarrow> None
      | Some x \<Rightarrow> map_option (\<lambda>bound. (c, x) # bound) (bind_params env rest))"

text \<open>
  Column affinity. In a column of TEXT affinity a number is stored as text; in a column of
  INTEGER, REAL or NUMERIC affinity a text that is a numeric literal is stored as that number.
  Every other value is stored as it is bound.
\<close>

definition apply_affinity :: "js_env \<Rightarrow> affinity \<Rightarrow> jsval \<Rightarrow> jsval" where
  "apply_affinity env a v =
     (case v of
        JNum n \<Rightarrow> (if a = TEXT then JStr (sql_text env n) else JNum n)
      | JStr s \<Rightarrow>
          (if a = TEXT then JStr s
           else (case sql_numeric env s of Some x \<Rightarrow> JNum (Fin x) | None \<Rightarrow> JStr s))
      | _ \<Rightarrow> v)"

text \<open>
  A parameter against an INTEGER column (\<^verbatim>\<open>id\<close>, \<^verbatim>\<open>user_id\<close>, \<^verbatim>\<open>property_id\<close>,
  \<^verbatim>\<open>tenant_id\<close>): the affinity of the column is applied to the parameter, so a text that is
  a numeric literal is read as that number. \<^verbatim>\<open>col = ?\<close> is never true of a NULL.
\<close>

definition integer_affinity :: "js_env \<Rightarrow> jsval \<Rightarrow> jsval" where
  "integer_affinity env p = apply_affinity env INTEGER (sql_value p)"

definition sql_eq :: "js_env \<Rightarrow> jsval \<Rightarrow> jsval \<Rightarrow> bool" where
  "sql_eq env stored p = (integer_affinity env p \<noteq> JNull \<and> stored = integer_affinity env p)"

subsection \<open>Statements\<close>

text \<open>
  \<^verbatim>\<open>db.get\<close> yields the first matching row; \<^verbatim>\<open>db.run\<close> yields \<^verbatim>\<open>this.changes\<close> or
  \<^verbatim>\<open>this.lastID\<close> with the new table, or the error message of a NOT NULL constraint that
  the statement violates. The parameters of an INSERT or UPDATE are the bound values by column.
\<close>

definition sql_get :: "table \<Rightarrow> (row \<Rightarrow> bool) \<Rightarrow> row option" where
  "sql_get t w = find w (rows t)"

definition set_cols :: "jsobject \<Rightarrow> jsobject \<Rightarrow> jsobject" where
  "set_cols sets old = sets @ filter (\<lambda>kv. fst kv \<notin> fst ` set sets) old"

definition constraint_failed :: "string \<Rightarrow> string \<Rightarrow> string" where
  "constraint_failed t c = ''SQLITE_CONSTRAINT: NOT NULL constraint failed: '' @ t @ ''.'' @ c"

text \<open>The values an UPDATE stores in the columns it sets.\<close>

definition stored_values :: "js_env \<Rightarrow> table_def \<Rightarrow> jsobject \<Rightarrow> jsobject" where
  "stored_values env td params =
     map (\<lambda>(c, v). (c, case map_of (columns td) c of
                          Some a \<Rightarrow> apply_affinity env a v
                        | None \<Rightarrow> v)) params"

definition sql_update ::
  "js_env \<Rightarrow> table_def \<Rightarrow> table \<Rightarrow> jsobject \<Rightarrow> (row \<Rightarrow> bool) \<Rightarrow> string + nat \<times> table" where
  "sql_update env td t params w =
     (if filter w (rows t) = [] then Inr (0, t)
      else (case find (\<lambda>c. map_of (stored_values env td params) c = Some JNull) (notnull td) of
              Some c \<Rightarrow> Inl (constraint_failed (tname td) c)
            | None \<Rightarrow>
                Inr (length (filter w (rows t)),
                     t\<lparr>rows := map (\<lambda>r. if w r
                                        then r\<lparr>cols := set_cols (stored_values env td params) (cols r)\<rparr>
                                        else r) (rows t)\<rparr>)))"

definition sql_delete :: "table \<Rightarrow> (row \<Rightarrow> bool) \<Rightarrow> nat \<times> table" where
  "sql_delete t w = (length (filter w (rows t)), t\<lparr>rows := filter (\<lambda>r. \<not> w r) (rows t)\<rparr>)"

definition next_rowid :: "table \<Rightarrow> nat" where
  "next_rowid t = Suc (max (seq t) (fold max (map rowid (rows t)) 0))"

text \<open>
  The row an INSERT stores: every column of the table, with the parameter of the column if the
  statement lists it and the DEFAULT of the column, or NULL, if it does not. \<open>now\<close> is the
  value of \<^verbatim>\<open>CURRENT_TIMESTAMP\<close>.
\<close>

definition stored_row :: "js_env \<Rightarrow> table_def \<Rightarrow> string \<Rightarrow> jsobject \<Rightarrow> jsobject" where
  "stored_row env td now params =
     map (\<lambda>(c, a). (c, case map_of params c of
                          Some v \<Rightarrow> apply_affinity env a v
                        | None \<Rightarrow>
                            (case map_of (defaults td) c of
                               Some (DefaultValue d) \<Rightarrow> d
                             | Some CurrentTimestamp \<Rightarrow> JStr now
                             | None \<Rightarrow> JNull))) (columns td)"

definition sql_insert ::
  "js_env \<Rightarrow> table_def \<Rightarrow> string \<Rightarrow> table \<Rightarrow> jsobject \<Rightarrow> string + nat \<times> table" where
  "sql_insert env td now t params =
     (case find (\<lambda>c. map_of (stored_row env td now params) c = Some JNull) (notnull td) of
        Some c \<Rightarrow> Inl (constraint_failed (tname td) c)
      | None \<Rightarrow>
          (let i = next_rowid t
           in Inr (i, \<lparr>rows = rows t @ [\<lparr>rowid = i, cols = stored_row env td now params\<rparr>], seq = i\<rparr>)))"

text \<open>
  Besides a constraint, any statement can fail in the engine (a locked or full database). Which
  statements of a request fail, and with which message, is an input of the model: \<open>flt k\<close>
  is the error of the \<open>k\<close>-th statement the handler issues, if it fails.
\<close>

type_synonym faults = "nat \<Rightarrow> string option"

definition attempt :: "faults \<Rightarrow> nat \<Rightarrow> string + 'a \<Rightarrow> string + 'a" where
  "attempt flt k r = (case flt k of Some msg \<Rightarrow> Inl msg | None \<Rightarrow> r)"

definition no_faults :: faults where
  "no_faults = (\<lambda>k. None)"

text \<open>\<^verbatim>\<open>WHERE id = ? AND user_id = ?\<close> with \<^verbatim>\<open>[id, userId]\<close>.\<close>

definition owned_by :: "js_env \<Rightarrow> jsval \<Rightarrow> nat \<Rightarrow> row \<Rightarrow> bool" where
  "owned_by env ident userId r = (sql_eq env (col r ''id'') ident \<and> sql_eq env (col r ''user_id'') (jnat userId))"

section \<open>Properties\<close>

text \<open>\<^verbatim>\<open>app.get('/api/properties/:id', ...)\<close>\<close>

definition get_property :: "js_env \<Rightarrow> faults \<Rightarrow> request \<Rightarrow> store \<Rightarrow> response \<times> store" where
  "get_property env flt req db =
     (case getCurrentUserId env req of
        None \<Rightarrow> (json_error 401 ''Authentication required'', db)
      | Some userId \<Rightarrow>
          (case attempt flt 0 (Inr (sql_get (properties db) (owned_by env (JStr (param_id req)) userId))) of
             Inl msg \<Rightarrow> (json_error 500 msg, db)
           | Inr None \<Rightarrow> (json_error 404 ''Property not found'', db)
           | Inr (Some r) \<Rightarrow> (Response 200 (row_json properties_table r), db)))"

text \<open>The parameters of the property UPDATE, from \<^verbatim>\<open>name\<close> to \<^verbatim>\<open>water_number\<close>.\<close>

definition property_values :: "jsobject \<Rightarrow> jsobject" where
  "property_values b =
     [(''name'', obj_get b ''name''),
      (''address'', obj_get b ''address''),
      (''type'', obj_get b ''type''),
      (''bedrooms'', obj_get b ''bedrooms''),
      (''bathrooms'', obj_get b ''bathrooms''),
      (''square_feet'', obj_get b ''square_feet''),
      (''rent_amount'', obj_get b ''rent_amount''),
      (''currency'', js_or (obj_get b ''currency'') (JStr ''USD'')),
      (''status'', obj_get b ''status''),
      (''electricity_number'', js_or (obj_get b ''electricity_number'') JNull),
      (''water_number'', js_or (obj_get b ''water_number'') JNull)]"

text \<open>
  What \<^verbatim>\<open>PUT /api/properties/:id\<close> does with the body before its UPDATE runs: it has the
  bound parameters of the UPDATE (\<open>Inr\<close>), or the driver throws on a parameter, which is
  caught and answered with 401 (\<open>Inl\<close>).
\<close>

definition property_update_params :: "js_env \<Rightarrow> jsobject \<Rightarrow> response + jsobject" where
  "property_update_params env b =
     (case bind_params env (property_values b) of
        None \<Rightarrow> Inl (json_error 401 ''Authentication required'')
      | Some params \<Rightarrow> Inr params)"

text \<open>\<^verbatim>\<open>app.put('/api/properties/:id', ...)\<close>\<close>

definition put_property :: "js_env \<Rightarrow> faults \<Rightarrow> request \<Rightarrow> store \<Rightarrow> response \<times> store" where
  "put_property env flt req db =
     (case getCurrentUserId env req of
        None \<Rightarrow> (json_error 401 ''Authentication required'', db)
      | Some userId \<Rightarrow>
          (case property_update_params env (body req) of
             Inl rejection \<Rightarrow> (rejection, db)
           | Inr params \<Rightarrow>
               (case attempt flt 0 (sql_update env properties_table (properties db) params
                                      (owned_by env (JStr (param_id req)) userId)) of
                  Inl msg \<Rightarrow> (json_error 500 msg, db)
                | Inr (changes, t) \<Rightarrow>
                    if changes = 0
                    then (json_error 404 ''Property not found or access denied'', db\<lparr>properties := t\<rparr>)
                    else (json_message ''Property updated successfully'', db\<lparr>properties := t\<rparr>))))"

text \<open>\<^verbatim>\<open>app.post('/api/properties/:id/update-tenants-vacant', ...)\<close>\<close>

definition update_tenants_vacant :: "js_env \<Rightarrow> faults \<Rightarrow> request \<Rightarrow> store \<Rightarrow> response \<times> store" where
  "update_tenants_vacant env flt req db =
     (case getCurrentUserId env req of
        None \<Rightarrow> (json_error 401 ''Authentication required'', db)
      | Some userId \<Rightarrow>
          (case attempt flt 0 (sql_update env tenants_table (tenants db)
                                 [(''status'', JStr ''expired'')]
                                 (\<lambda>r. sql_eq env (col r ''property_id'') (JStr (param_id req))
                                      \<and> sql_eq env (col r ''user_id'') (jnat userId))) of
             Inl msg \<Rightarrow> (json_error 500 msg, db)
           | Inr (changes, t) \<Rightarrow>
               (json_message (''Updated '' @ show_nat changes @ '' tenants to expired status''),
                db\<lparr>tenants := t\<rparr>)))"

text \<open>\<^verbatim>\<open>app.delete('/api/properties/:id', ...)\<close>\<close>

definition delete_property :: "js_env \<Rightarrow> faults \<Rightarrow> request \<Rightarrow> store \<Rightarrow> response \<times> store" where
  "delete_property env flt req db =
     (case getCurrentUserId env req of
        None \<Rightarrow> (json_error 401 ''Authentication required'', db)
      | Some userId \<Rightarrow>
          (case attempt flt 0 (Inr (sql_delete (properties db) (owned_by env (JStr (param_id req)) userId))) of
             Inl msg \<Rightarrow> (json_error 500 msg, db)
           | Inr (changes, t) \<Rightarrow>
               if changes = 0
               then (json_error 404 ''Property not found or access denied'', db\<lparr>properties := t\<rparr>)
               else (json_message ''Property deleted successfully'', db\<lparr>properties := t\<rparr>)))"

section \<open>Tenants and cheques\<close>

text \<open>
  \<^verbatim>\<open>/^[^\s@]+@[^\s@]+\.[^\s@]+$/.test(email)\<close>: a non-empty local part, one \<^verbatim>\<open>@\<close>, and
  a domain with a dot that is neither its first nor its last character; no white space anywhere.
  Of the characters \<^verbatim>\<open>\s\<close> matches, those in the 8-bit range are listed.
\<close>

definition js_space :: "char \<Rightarrow> bool" where
  "js_space c = ((of_char c :: nat) \<in> {9, 10, 11, 12, 13, 32, 160})"

definition emailRegex_test :: "string \<Rightarrow> bool" where
  "emailRegex_test s =
     (let plain = (\<lambda>c. \<not> js_space c \<and> c \<noteq> CHR ''@'');
          local_part = takeWhile (\<lambda>c. c \<noteq> CHR ''@'') s;
          rest = dropWhile (\<lambda>c. c \<noteq> CHR ''@'') s
      in local_part \<noteq> [] \<and> list_all plain local_part \<and> rest \<noteq> [] \<and>
         list_all plain (tl rest) \<and> CHR ''.'' \<in> set (butlast (tl (tl rest))))"

text \<open>
  \<^verbatim>\<open>app.get('/api/tenants/:id', ...)\<close>: the row with the cheques of the tenant as
  \<^verbatim>\<open>row.cheques\<close>; when the second statement fails the failure is logged and the list
  is empty.
\<close>

definition get_tenant :: "js_env \<Rightarrow> faults \<Rightarrow> request \<Rightarrow> store \<Rightarrow> response \<times> store" where
  "get_tenant env flt req db =
     (case getCurrentUserId env req of
        None \<Rightarrow> (json_error 401 ''Authentication required'', db)
      | Some userId \<Rightarrow>
          (case attempt flt 0 (Inr (sql_get (tenants db) (owned_by env (JStr (param_id req)) userId))) of
             Inl msg \<Rightarrow> (json_error 500 msg, db)
           | Inr None \<Rightarrow> (json_error 404 ''Tenant not found'', db)
           | Inr (Some r) \<Rightarrow>
               (let chqs =
                      (case attempt flt 1
                              (Inr (sort_key rowid
                                      (filter (\<lambda>c. sql_eq env (col c ''tenant_id'') (JStr (param_id req)))
                                         (rows (cheques db))))) of
                         Inl msg \<Rightarrow> []
                       | Inr found \<Rightarrow> found)
                in (Response 200
                      (JObj (row_fields tenants_table r @
                             [(''cheques'', JArr (map (row_json cheques_table) chqs))])),
                    db))))"

text \<open>
  The parameters of one \<^verbatim>\<open>stmt.run([...])\<close> of the cheque INSERT. Reading a key of a
  cheque that is \<^verbatim>\<open>null\<close> throws (\<open>None\<close>), and so does a parameter on which the driver
  throws.
\<close>

definition cheque_values :: "jsval \<Rightarrow> jsval \<Rightarrow> jsobject option" where
  "cheque_values tenantId cheque =
     (if nullish cheque then None
      else Some [(''tenant_id'', tenantId),
                 (''cheque_number'', js_or (js_member cheque ''cheque_number'') JNull),
                 (''bank_name'', js_or (js_member cheque ''bank_name'') JNull),
                 (''date'', js_or (js_member cheque ''date'') JNull),
                 (''amount'', js_or (js_member cheque ''amount'') JNull),
                 (''is_security'', jnat (if truthy (js_member cheque ''is_security'') then 1 else 0))])"

definition cheque_params :: "js_env \<Rightarrow> jsval \<Rightarrow> jsval \<Rightarrow> jsobject option" where
  "cheque_params env tenantId cheque =
     (case cheque_values tenantId cheque of
        None \<Rightarrow> None
      | Some vals \<Rightarrow> bind_params env vals)"

text \<open>
  \<^verbatim>\<open>cheques.forEach((cheque, index) => stmt.run([...], function(err) {...}))\<close> inside
  \<^verbatim>\<open>updateCheques\<close>: an INSERT that fails is logged and the loop goes on. The result is
  \<open>None\<close> when building or binding the parameters throws.
\<close>

fun insert_cheques ::
  "js_env \<Rightarrow> faults \<Rightarrow> jsval \<Rightarrow> nat \<Rightarrow> jsval list \<Rightarrow> table \<Rightarrow> table option" where
  "insert_cheques env flt tenantId index [] t = Some t"
| "insert_cheques env flt tenantId index (cheque # rest) t =
     (case cheque_params env tenantId cheque of
        None \<Rightarrow> None
      | Some params \<Rightarrow>
          (case attempt flt (2 + index)
                  (sql_insert env cheques_table (current_timestamp env (2 + index)) t params) of
             Inl msg \<Rightarrow> insert_cheques env flt tenantId (Suc index) rest t
           | Inr (lastID, t') \<Rightarrow> insert_cheques env flt tenantId (Suc index) rest t'))"

text \<open>
  \<^verbatim>\<open>updateCheques(tenantId, cheques, callback)\<close>, where \<^verbatim>\<open>callback\<close> sends
  \<^verbatim>\<open>'Tenant updated successfully with cheques'\<close>. A failing DELETE is logged and the callback
  is called at once. A value with a length that is not an array has no \<^verbatim>\<open>forEach\<close>: the
  call throws inside the callback of the DELETE and the request is never answered.
\<close>

definition updateCheques ::
  "js_env \<Rightarrow> faults \<Rightarrow> jsval \<Rightarrow> jsval \<Rightarrow> store \<Rightarrow> response \<times> store" where
  "updateCheques env flt tenantId chqs db =
     (case attempt flt 1 (Inr (sql_delete (cheques db) (\<lambda>r. sql_eq env (col r ''tenant_id'') tenantId))) of
        Inl msg \<Rightarrow> (json_message ''Tenant updated successfully with cheques'', db)
      | Inr (changes, t) \<Rightarrow>
          if js_length chqs = JNum (Fin 0)
          then (json_message ''Tenant updated successfully with cheques'', db\<lparr>cheques := t\<rparr>)
          else (case chqs of
                  JArr cs \<Rightarrow>
                    (case insert_cheques env flt tenantId 0 cs t of
                       None \<Rightarrow> (NoResponse, db\<lparr>cheques := t\<rparr>)
                     | Some t' \<Rightarrow>
                         (json_message ''Tenant updated successfully with cheques'', db\<lparr>cheques := t'\<rparr>))
                | _ \<Rightarrow> (NoResponse, db\<lparr>cheques := t\<rparr>)))"

text \<open>The parameters of the tenant UPDATE, from \<^verbatim>\<open>first_name\<close> to \<^verbatim>\<open>free_month_date\<close>.\<close>

definition tenant_values :: "jsobject \<Rightarrow> jsval \<Rightarrow> jsval \<Rightarrow> jsobject" where
  "tenant_values b propertyIdValue rentAmountValue =
     [(''first_name'', obj_get b ''first_name''),
      (''last_name'', obj_get b ''last_name''),
      (''email'', obj_get b ''email''),
      (''phone'', js_or (obj_get b ''phone'') JNull),
      (''nationality'', js_or (obj_get b ''nationality'') JNull),
      (''property_id'', propertyIdValue),
      (''lease_start'', js_or (obj_get b ''lease_start'') JNull),
      (''lease_end'', js_or (obj_get b ''lease_end'') JNull),
      (''rent_amount'', rentAmountValue),
      (''currency'', js_or (obj_get b ''currency'') (JStr ''USD'')),
      (''free_month_type'', js_or (obj_get b ''free_month_type'') JNull),
      (''free_month_date'', js_or (obj_get b ''free_month_date'') JNull)]"

text \<open>
  What \<^verbatim>\<open>PUT /api/tenants/:id\<close> does with the body before its UPDATE runs, in the order of
  the source: it answers (\<open>Inl\<close>) or has the bound parameters of the UPDATE (\<open>Inr\<close>). An
  exception of \<^verbatim>\<open>parseInt\<close>, \<^verbatim>\<open>parseFloat\<close>, \<^verbatim>\<open>emailRegex.test\<close> or \<^verbatim>\<open>db.run\<close> is
  caught and answered with 401.
\<close>

definition tenant_update_params :: "js_env \<Rightarrow> jsobject \<Rightarrow> response + jsobject" where
  "tenant_update_params env b =
     (let first_name = obj_get b ''first_name'';
          last_name = obj_get b ''last_name'';
          email = obj_get b ''email'';
          property_id = obj_get b ''property_id'';
          rent_amount = obj_get b ''rent_amount''
      in if \<not> truthy first_name \<or> \<not> truthy last_name \<or> \<not> truthy email
         then Inl (json_error 400 ''First name, last name, and email are required'')
         else if truthy property_id \<and> conversion_throws env property_id
         then Inl (json_error 401 ''Authentication required'')
         else if truthy rent_amount \<and> conversion_throws env rent_amount
         then Inl (json_error 401 ''Authentication required'')
         else
           (let propertyIdValue = (if truthy property_id then JNum (parseInt env property_id) else JNull);
                rentAmountValue = (if truthy rent_amount then JNum (parseFloat env rent_amount) else JNull)
            in if conversion_throws env email
               then Inl (json_error 401 ''Authentication required'')
               else if \<not> emailRegex_test (js_to_string env email)
               then Inl (json_error 400 ''Invalid email format'')
               else (case bind_params env (tenant_values b propertyIdValue rentAmountValue) of
                       None \<Rightarrow> Inl (json_error 401 ''Authentication required'')
                     | Some params \<Rightarrow> Inr params)))"

text \<open>
  \<^verbatim>\<open>app.put('/api/tenants/:id', ...)\<close>. The test \<^verbatim>\<open>cheques && cheques.length >= 0\<close> runs
  in the callback of the UPDATE: when the conversion of the length throws, the request is never
  answered.
\<close>

definition put_tenant :: "js_env \<Rightarrow> faults \<Rightarrow> request \<Rightarrow> store \<Rightarrow> response \<times> store" where
  "put_tenant env flt req db =
     (case getCurrentUserId env req of
        None \<Rightarrow> (json_error 401 ''Authentication required'', db)
      | Some userId \<Rightarrow>
          (case tenant_update_params env (body req) of
             Inl rejection \<Rightarrow> (rejection, db)
           | Inr params \<Rightarrow>
               (case attempt flt 0
                       (sql_update env tenants_table (tenants db) params
                          (owned_by env (JStr (param_id req)) userId)) of
                  Inl msg \<Rightarrow> (json_error 500 msg, db)
                | Inr (changes, t) \<Rightarrow>
                    (let chqs = obj_get (body req) ''cheques''
                     in if changes = 0
                        then (json_error 404 ''Tenant not found or access denied'', db\<lparr>tenants := t\<rparr>)
                        else if \<not> truthy chqs
                        then (json_message ''Tenant updated successfully'', db\<lparr>tenants := t\<rparr>)
                        else if conversion_throws env (js_length chqs)
                        then (NoResponse, db\<lparr>tenants := t\<rparr>)
                        else if js_ge_zero env (js_length chqs)
                        then updateCheques env flt (JStr (param_id req)) chqs (db\<lparr>tenants := t\<rparr>)
                        else (json_message ''Tenant updated successfully'', db\<lparr>tenants := t\<rparr>)))))"

text \<open>\<^verbatim>\<open>app.delete('/api/tenants/:id', ...)\<close>\<close>

definition delete_tenant :: "js_env \<Rightarrow> faults \<Rightarrow> request \<Rightarrow> store \<Rightarrow> response \<times> store" where
  "delete_tenant env flt req db =
     (case getCurrentUserId env req of
        None \<Rightarrow> (json_error 401 ''Authentication required'', db)
      | Some userId \<Rightarrow>
          (case attempt flt 0 (Inr (sql_delete (tenants db) (owned_by env (JStr (param_id req)) userId))) of
             Inl msg \<Rightarrow> (json_error 500 msg, db)
           | Inr (changes, t) \<Rightarrow>
               if changes = 0
               then (json_error 404 ''Tenant not found or access denied'', db\<lparr>tenants := t\<rparr>)
               else (json_message ''Tenant deleted successfully'', db\<lparr>tenants := t\<rparr>)))"

section \<open>Maintenance requests\<close>

text \<open>
  What \<^verbatim>\<open>PUT /api/maintenance/:id\<close> does with the body before its UPDATE runs: it has the
  bound parameters of the UPDATE (\<open>Inr\<close>), or the driver throws on a parameter, which is
  caught and answered with 401 (\<open>Inl\<close>).
\<close>

definition maintenance_update_params :: "js_env \<Rightarrow> jsobject \<Rightarrow> response + jsobject" where
  "maintenance_update_params env b =
     (case bind_params env [(''status'', obj_get b ''status''),
                            (''completed_at'', obj_get b ''completed_at'')] of
        None \<Rightarrow> Inl (json_error 401 ''Authentication required'')
      | Some params \<Rightarrow> Inr params)"

text \<open>\<^verbatim>\<open>app.put('/api/maintenance/:id', ...)\<close>\<close>

definition put_maintenance :: "js_env \<Rightarrow> faults \<Rightarrow> request \<Rightarrow> store \<Rightarrow> response \<times> store" where
  "put_maintenance env flt req db =
     (case getCurrentUserId env req of
        None \<Rightarrow> (json_error 401 ''Authentication required'', db)
      | Some userId \<Rightarrow>
          (case maintenance_update_params env (body req) of
             Inl rejection \<Rightarrow> (rejection, db)
           | Inr params \<Rightarrow>
               (case attempt flt 0 (sql_update env maintenance_requests_table (maintenance_requests db) params
                                      (owned_by env (JStr (param_id req)) userId)) of
                  Inl msg \<Rightarrow> (json_error 500 msg, db)
                | Inr (changes, t) \<Rightarrow>
                    if changes = 0
                    then (json_error 404 ''Maintenance request not found or access denied'',
                          db\<lparr>maintenance_requests := t\<rparr>)
                    else (json_message ''Maintenance request updated successfully'',
                          db\<lparr>maintenance_requests := t\<rparr>))))"

text \<open>\<^verbatim>\<open>app.delete('/api/maintenance/:id', ...)\<close>\<close>

definition delete_maintenance :: "js_env \<Rightarrow> faults \<Rightarrow> request \<Rightarrow> store \<Rightarrow> response \<times> store" where
  "delete_maintenance env flt req db =
     (case getCurrentUserId env req of
        None \<Rightarrow> (json_error 401 ''Authentication required'', db)
      | Some userId \<Rightarrow>
          if userId = 0 then (json_error 401 ''Authentication required'', db)
          else if param_id req = [] \<or> isNaN (parseInt env (JStr (param_id req)))
          then (json_error 400 ''Valid maintenance ID is required'', db)
          else
            (case attempt flt 0 (Inr (sql_get (maintenance_requests db)
                                        (owned_by env (JStr (param_id req)) userId))) of
               Inl msg \<Rightarrow> (json_error 500 msg, db)
             | Inr None \<Rightarrow> (json_error 404 ''Maintenance request not found or access denied'', db)
             | Inr (Some r) \<Rightarrow>
                 if col r ''status'' \<noteq> JStr ''completed''
                 then (json_error 400 ''Only completed maintenance requests can be deleted'', db)
                 else
                   (case attempt flt 1 (Inr (sql_delete (maintenance_requests db)
                                               (owned_by env (JStr (param_id req)) userId))) of
                      Inl msg \<Rightarrow> (json_error 500 msg, db)
                    | Inr (changes, t) \<Rightarrow>
                        if changes = 0
                        then (json_error 404 ''Maintenance request not found or access denied'',
                              db\<lparr>maintenance_requests := t\<rparr>)
                        else (json_message ''Maintenance request deleted successfully'',
                              db\<lparr>maintenance_requests := t\<rparr>))))"

section \<open>Financial records\<close>

text \<open>
  What \<^verbatim>\<open>PUT /api/financial/:id\<close> does with the body before its UPDATE runs, in the order
  of the source: it answers (\<open>Inl\<close>) or has the bound parameters of the UPDATE (\<open>Inr\<close>). An
  exception of a conversion or of \<^verbatim>\<open>db.run\<close> is caught and answered with 401.
\<close>

definition financial_update_params :: "js_env \<Rightarrow> jsobject \<Rightarrow> response + jsobject" where
  "financial_update_params env b =
     (let property_id = obj_get b ''property_id'';
          tenant_id = obj_get b ''tenant_id'';
          type = obj_get b ''type'';
          amount = obj_get b ''amount'';
          date = obj_get b ''date''
      in if \<not> truthy type \<or> \<not> truthy amount \<or> \<not> truthy date
         then Inl (json_error 400 ''Type, amount, and date are required'')
         else if truthy property_id \<and> conversion_throws env property_id
         then Inl (json_error 401 ''Authentication required'')
         else if truthy tenant_id \<and> conversion_throws env tenant_id
         then Inl (json_error 401 ''Authentication required'')
         else if conversion_throws env amount
         then Inl (json_error 401 ''Authentication required'')
         else
           (let propertyIdValue = (if truthy property_id then JNum (parseInt env property_id) else JNull);
                tenantIdValue = (if truthy tenant_id then JNum (parseInt env tenant_id) else JNull);
                amountValue = parseFloat env amount
            in if isNaN amountValue \<or> js_le_zero amountValue
               then Inl (json_error 400 ''Amount must be a positive number'')
               else if conversion_throws env date
               then Inl (json_error 401 ''Authentication required'')
               else if \<not> truthy (JNum (Date_parse env date))
               then Inl (json_error 400 ''Invalid date format'')
               else (case bind_params env
                            [(''property_id'', propertyIdValue),
                             (''tenant_id'', tenantIdValue),
                             (''type'', type),
                             (''amount'', JNum amountValue),
                             (''currency'', js_or (obj_get b ''currency'') (JStr ''USD'')),
                             (''description'', js_or (obj_get b ''description'') JNull),
                             (''date'', date)] of
                       None \<Rightarrow> Inl (json_error 401 ''Authentication required'')
                     | Some params \<Rightarrow> Inr params)))"

text \<open>\<^verbatim>\<open>app.put('/api/financial/:id', ...)\<close>\<close>

definition put_financial :: "js_env \<Rightarrow> faults \<Rightarrow> request \<Rightarrow> store \<Rightarrow> response \<times> store" where
  "put_financial env flt req db =
     (case getCurrentUserId env req of
        None \<Rightarrow> (json_error 401 ''Authentication required'', db)
      | Some userId \<Rightarrow>
          (case financial_update_params env (body req) of
             Inl rejection \<Rightarrow> (rejection, db)
           | Inr params \<Rightarrow>
               (case attempt flt 0 (sql_update env financial_records_table (financial_records db) params
                                      (owned_by env (JStr (param_id req)) userId)) of
                  Inl msg \<Rightarrow> (json_error 500 msg, db)
                | Inr (changes, t) \<Rightarrow>
                    if changes = 0
                    then (json_error 404 ''Financial record not found or access denied'',
                          db\<lparr>financial_records := t\<rparr>)
                    else (json_message ''Financial record updated successfully'',
                          db\<lparr>financial_records := t\<rparr>))))"

text \<open>\<^verbatim>\<open>app.delete('/api/financial/:id', ...)\<close>\<close>

definition delete_financial :: "js_env \<Rightarrow> faults \<Rightarrow> request \<Rightarrow> store \<Rightarrow> response \<times> store" where
  "delete_financial env flt req db =
     (case getCurrentUserId env req of
        None \<Rightarrow> (json_error 401 ''Authentication required'', db)
      | Some userId \<Rightarrow>
          if param_id req = [] \<or> isNaN (parseInt env (JStr (param_id req)))
          then (json_error 400 ''Valid ID is required'', db)
          else
            (case attempt flt 0 (Inr (sql_delete (financial_records db)
                                        (owned_by env (JStr (param_id req)) userId))) of
               Inl msg \<Rightarrow> (json_error 500 msg, db)
             | Inr (changes, t) \<Rightarrow>
                 if changes = 0
                 then (json_error 404 ''Financial record not found or access denied'',
                       db\<lparr>financial_records := t\<rparr>)
                 else (json_message ''Financial record deleted successfully'',
                       db\<lparr>financial_records := t\<rparr>)))"

section \<open>Rent tracking and the financial ledger\<close>

text \<open>
  The parameters shared by the INSERT and the UPDATE of \<^verbatim>\<open>rent_tracking\<close>, from
  \<^verbatim>\<open>property_id\<close> to \<^verbatim>\<open>notes\<close>.
\<close>

definition rent_tracking_values ::
  "jsobject \<Rightarrow> jsnum \<Rightarrow> jsnum \<Rightarrow> jsnum \<Rightarrow> jsnum \<Rightarrow> jsnum \<Rightarrow> jsobject" where
  "rent_tracking_values b propertyIdValue tenantIdValue totalAmountValue paymentAmountValue
       partialBalanceValue =
     [(''property_id'', JNum propertyIdValue),
      (''tenant_id'', JNum tenantIdValue),
      (''rent_month'', obj_get b ''rent_month''),
      (''due_date'', obj_get b ''due_date''),
      (''total_amount'', JNum totalAmountValue),
      (''currency'', js_or (obj_get b ''currency'') (JStr ''USD'')),
      (''payment_method'', obj_get b ''payment_method''),
      (''payment_amount'', JNum paymentAmountValue),
      (''payment_date'', obj_get b ''payment_date''),
      (''cash_received_by'', js_or (obj_get b ''cash_received_by'') JNull),
      (''cash_receipt_number'', js_or (obj_get b ''cash_receipt_number'') JNull),
      (''cheque_number'', js_or (obj_get b ''cheque_number'') JNull),
      (''cheque_bank'', js_or (obj_get b ''cheque_bank'') JNull),
      (''cheque_date'', js_or (obj_get b ''cheque_date'') JNull),
      (''cheque_status'', js_or (obj_get b ''cheque_status'') (JStr ''pending'')),
      (''online_reference'', js_or (obj_get b ''online_reference'') JNull),
      (''online_bank'', js_or (obj_get b ''online_bank'') JNull),
      (''partial_reason'', js_or (obj_get b ''partial_reason'') JNull),
      (''partial_balance'', JNum partialBalanceValue),
      (''partial_notes'', js_or (obj_get b ''partial_notes'') JNull),
      (''notes'', js_or (obj_get b ''notes'') JNull)]"

text \<open>
  \<^verbatim>\<open>payment_method.charAt(0).toUpperCase() + payment_method.slice(1)\<close>, on the string of a
  truthy \<^verbatim>\<open>payment_method\<close>.
\<close>

definition capitalize :: "js_env \<Rightarrow> string \<Rightarrow> string" where
  "capitalize env s = toUpperCase env (take 1 s) @ drop 1 s"

text \<open>
  \<^verbatim>\<open>insertRentTracking()\<close>: the INSERT into \<^verbatim>\<open>rent_tracking\<close> and, in its callback, the
  INSERT into \<^verbatim>\<open>financial_records\<close>, whose callback answers with its own
  \<^verbatim>\<open>this.lastID\<close>. A failure of the second INSERT is logged and the answer is sent all the
  same; \<^verbatim>\<open>this.lastID\<close> is then \<^verbatim>\<open>undefined\<close>. The function runs in the callback of a
  \<^verbatim>\<open>db.get\<close>, outside \<^verbatim>\<open>try\<close>: when something throws, the request is never answered.
  That happens when the driver throws on a parameter, when \<^verbatim>\<open>payment_method\<close> is truthy
  and not a string, so that it has no \<^verbatim>\<open>charAt\<close>, and when the conversion of
  \<^verbatim>\<open>rent_month\<close> in the description throws.
\<close>

definition insertRentTracking ::
  "js_env \<Rightarrow> faults \<Rightarrow> nat \<Rightarrow> jsobject \<Rightarrow> jsnum \<Rightarrow> jsnum \<Rightarrow> jsnum \<Rightarrow> jsnum \<Rightarrow> jsnum \<Rightarrow> store
     \<Rightarrow> response \<times> store" where
  "insertRentTracking env flt userId b propertyIdValue tenantIdValue totalAmountValue
       paymentAmountValue partialBalanceValue db =
     (case bind_params env
             ((''user_id'', jnat userId) #
              rent_tracking_values b propertyIdValue tenantIdValue totalAmountValue
                paymentAmountValue partialBalanceValue) of
        None \<Rightarrow> (NoResponse, db)
      | Some params \<Rightarrow>
          (case attempt flt 2
                  (sql_insert env rent_tracking_table (current_timestamp env 2) (rent_tracking db)
                     params) of
             Inl msg \<Rightarrow> (json_error 500 msg, db)
           | Inr (lastID, t) \<Rightarrow>
               (case obj_get b ''payment_method'' of
                  JStr payment_method \<Rightarrow>
                    if conversion_throws env (obj_get b ''rent_month'')
                    then (NoResponse, db\<lparr>rent_tracking := t\<rparr>)
                    else
                      (let financialType =
                             (if payment_method = ''partial'' then ''partial_rent'' else ''rent'');
                           financialDescription =
                             capitalize env payment_method @ '' payment for '' @
                             js_to_string env (obj_get b ''rent_month'')
                       in (case bind_params env
                                    [(''user_id'', jnat userId),
                                     (''property_id'', JNum propertyIdValue),
                                     (''tenant_id'', JNum tenantIdValue),
                                     (''type'', JStr financialType),
                                     (''amount'', JNum paymentAmountValue),
                                     (''currency'', js_or (obj_get b ''currency'') (JStr ''USD'')),
                                     (''description'', JStr financialDescription),
                                     (''date'', obj_get b ''payment_date'')] of
                             None \<Rightarrow> (NoResponse, db\<lparr>rent_tracking := t\<rparr>)
                           | Some financialParams \<Rightarrow>
                               (case attempt flt 3
                                       (sql_insert env financial_records_table
                                          (current_timestamp env 3) (financial_records db)
                                          financialParams) of
                                  Inl financialErr \<Rightarrow>
                                    (res_json [(''id'', JUndefined),
                                               (''message'', JStr ''Rent payment tracked successfully'')],
                                     db\<lparr>rent_tracking := t\<rparr>)
                                | Inr (financialID, ft) \<Rightarrow>
                                    (res_json [(''id'', jnat financialID),
                                               (''message'', JStr ''Rent payment tracked successfully'')],
                                     db\<lparr>rent_tracking := t, financial_records := ft\<rparr>))))
                | _ \<Rightarrow> (NoResponse, db\<lparr>rent_tracking := t\<rparr>))))"

text \<open>
  The checks that \<^verbatim>\<open>POST /api/rent-tracking\<close> and \<^verbatim>\<open>PUT /api/rent-tracking/:id\<close> both
  run before they touch the store, in the order of the source: the required fields, the five
  conversions, and the checks of the amounts and the dates.
\<close>

definition missing_required_fields :: "jsobject \<Rightarrow> bool" where
  "missing_required_fields b =
     (\<not> truthy (obj_get b ''property_id'') \<or> \<not> truthy (obj_get b ''tenant_id'') \<or>
      \<not> truthy (obj_get b ''rent_month'') \<or> \<not> truthy (obj_get b ''due_date'') \<or>
      \<not> truthy (obj_get b ''total_amount'') \<or> \<not> truthy (obj_get b ''payment_method'') \<or>
      \<not> truthy (obj_get b ''payment_amount'') \<or> \<not> truthy (obj_get b ''payment_date''))"

text \<open>
  \<^verbatim>\<open>propertyIdValue\<close>, \<^verbatim>\<open>tenantIdValue\<close>, \<^verbatim>\<open>totalAmountValue\<close>,
  \<^verbatim>\<open>paymentAmountValue\<close> and \<^verbatim>\<open>partialBalanceValue\<close>; \<open>None\<close> when one of the
  conversions throws.
\<close>

definition rent_tracking_numbers ::
  "js_env \<Rightarrow> jsobject \<Rightarrow> (jsnum \<times> jsnum \<times> jsnum \<times> jsnum \<times> jsnum) option" where
  "rent_tracking_numbers env b =
     (if conversion_throws env (obj_get b ''property_id'') \<or>
         conversion_throws env (obj_get b ''tenant_id'') \<or>
         conversion_throws env (obj_get b ''total_amount'') \<or>
         conversion_throws env (obj_get b ''payment_amount'') \<or>
         (truthy (obj_get b ''partial_balance'') \<and> conversion_throws env (obj_get b ''partial_balance''))
      then None
      else Some (parseInt env (obj_get b ''property_id''),
                 parseInt env (obj_get b ''tenant_id''),
                 parseFloat env (obj_get b ''total_amount''),
                 parseFloat env (obj_get b ''payment_amount''),
                 if truthy (obj_get b ''partial_balance'')
                 then parseFloat env (obj_get b ''partial_balance'') else Fin 0))"

text \<open>
  The checks of the amounts and of the two dates: the answer that rejects the body, if any.
  \<^verbatim>\<open>Date.parse(payment_date)\<close> is evaluated only when \<^verbatim>\<open>Date.parse(due_date)\<close> is truthy.
\<close>

definition rent_tracking_invalid :: "js_env \<Rightarrow> jsobject \<Rightarrow> jsnum \<Rightarrow> jsnum \<Rightarrow> response option" where
  "rent_tracking_invalid env b totalAmountValue paymentAmountValue =
     (if isNaN totalAmountValue \<or> js_le_zero totalAmountValue
      then Some (json_error 400 ''Total amount must be a positive number'')
      else if isNaN paymentAmountValue \<or> js_le_zero paymentAmountValue
      then Some (json_error 400 ''Payment amount must be a positive number'')
      else if js_gt paymentAmountValue totalAmountValue
      then Some (json_error 400 ''Payment amount cannot exceed total amount'')
      else if conversion_throws env (obj_get b ''due_date'')
      then Some (json_error 401 ''Authentication required'')
      else if \<not> truthy (JNum (Date_parse env (obj_get b ''due_date'')))
      then Some (json_error 400 ''Invalid date format'')
      else if conversion_throws env (obj_get b ''payment_date'')
      then Some (json_error 401 ''Authentication required'')
      else if \<not> truthy (JNum (Date_parse env (obj_get b ''payment_date'')))
      then Some (json_error 400 ''Invalid date format'')
      else None)"

text \<open>\<^verbatim>\<open>app.post('/api/rent-tracking', ...)\<close>\<close>

definition post_rent_tracking :: "js_env \<Rightarrow> faults \<Rightarrow> request \<Rightarrow> store \<Rightarrow> response \<times> store" where
  "post_rent_tracking env flt req db =
     (case getCurrentUserId env req of
        None \<Rightarrow> (json_error 401 ''Authentication required'', db)
      | Some userId \<Rightarrow>
          (let b = body req
           in if missing_required_fields b
              then (json_error 400 ''Missing required fields'', db)
              else
                (case rent_tracking_numbers env b of
                   None \<Rightarrow> (json_error 401 ''Authentication required'', db)
                 | Some (propertyIdValue, tenantIdValue, totalAmountValue, paymentAmountValue,
                         partialBalanceValue) \<Rightarrow>
                     (case rent_tracking_invalid env b totalAmountValue paymentAmountValue of
                        Some rejection \<Rightarrow> (rejection, db)
                      | None \<Rightarrow>
                          (case attempt flt 0 (Inr (sql_get (properties db)
                                                     (owned_by env (JNum propertyIdValue) userId))) of
                             Inl msg \<Rightarrow> (json_error 500 ''Database error checking property'', db)
                           | Inr None \<Rightarrow> (json_error 400 ''Property not found or access denied'', db)
                           | Inr (Some property) \<Rightarrow>
                               (case attempt flt 1 (Inr (sql_get (tenants db)
                                                          (owned_by env (JNum tenantIdValue) userId))) of
                                  Inl msg \<Rightarrow> (json_error 500 ''Database error checking tenant'', db)
                                | Inr None \<Rightarrow> (json_error 400 ''Tenant not found or access denied'', db)
                                | Inr (Some tenant) \<Rightarrow>
                                    insertRentTracking env flt userId b propertyIdValue tenantIdValue
                                      totalAmountValue paymentAmountValue partialBalanceValue db))))))"

text \<open>
  \<^verbatim>\<open>app.get('/api/rent-tracking/:id', ...)\<close>: the row with the name of its property and the
  names of its tenant, which the two LEFT JOINs read by id, whoever owns them.
\<close>

definition joined :: "table \<Rightarrow> jsval \<Rightarrow> string \<Rightarrow> jsval" where
  "joined t ident c =
     (case find (\<lambda>x. ident = jnat (rowid x)) (rows t) of
        None \<Rightarrow> JNull
      | Some x \<Rightarrow> col x c)"

definition get_rent_tracking :: "js_env \<Rightarrow> faults \<Rightarrow> request \<Rightarrow> store \<Rightarrow> response \<times> store" where
  "get_rent_tracking env flt req db =
     (case getCurrentUserId env req of
        None \<Rightarrow> (json_error 401 ''Authentication required'', db)
      | Some userId \<Rightarrow>
          (case attempt flt 0 (Inr (sql_get (rent_tracking db) (owned_by env (JStr (param_id req)) userId))) of
             Inl msg \<Rightarrow> (json_error 500 msg, db)
           | Inr None \<Rightarrow> (json_error 404 ''Rent tracking record not found or access denied'', db)
           | Inr (Some r) \<Rightarrow>
               (Response 200
                  (JObj (row_fields rent_tracking_table r @
                         [(''property_name'', joined (properties db) (col r ''property_id'') ''name''),
                          (''first_name'', joined (tenants db) (col r ''tenant_id'') ''first_name''),
                          (''last_name'', joined (tenants db) (col r ''tenant_id'') ''last_name'')])),
                db)))"

text \<open>
  What \<^verbatim>\<open>PUT /api/rent-tracking/:id\<close> does with the body before its UPDATE runs, in the
  order of the source: it answers (\<open>Inl\<close>) or has the bound parameters of the UPDATE
  (\<open>Inr\<close>). Its \<^verbatim>\<open>db.run\<close> is inside \<^verbatim>\<open>try\<close>: when the driver throws on a
  parameter, the answer is 401.
\<close>

definition rent_tracking_update_params :: "js_env \<Rightarrow> jsobject \<Rightarrow> response + jsobject" where
  "rent_tracking_update_params env b =
     (if missing_required_fields b
      then Inl (json_error 400 ''Missing required fields'')
      else
        (case rent_tracking_numbers env b of
           None \<Rightarrow> Inl (json_error 401 ''Authentication required'')
         | Some (propertyIdValue, tenantIdValue, totalAmountValue, paymentAmountValue,
                 partialBalanceValue) \<Rightarrow>
             (case rent_tracking_invalid env b totalAmountValue paymentAmountValue of
                Some rejection \<Rightarrow> Inl rejection
              | None \<Rightarrow>
                  (case bind_params env
                          (rent_tracking_values b propertyIdValue tenantIdValue
                             totalAmountValue paymentAmountValue partialBalanceValue) of
                     None \<Rightarrow> Inl (json_error 401 ''Authentication required'')
                   | Some params \<Rightarrow> Inr params))))"

text \<open>\<^verbatim>\<open>app.put('/api/rent-tracking/:id', ...)\<close>\<close>

definition put_rent_tracking :: "js_env \<Rightarrow> faults \<Rightarrow> request \<Rightarrow> store \<Rightarrow> response \<times> store" where
  "put_rent_tracking env flt req db =
     (case getCurrentUserId env req of
        None \<Rightarrow> (json_error 401 ''Authentication required'', db)
      | Some userId \<Rightarrow>
          (case rent_tracking_update_params env (body req) of
             Inl rejection \<Rightarrow> (rejection, db)
           | Inr params \<Rightarrow>
               (case attempt flt 0
                       (sql_update env rent_tracking_table (rent_tracking db) params
                          (owned_by env (JStr (param_id req)) userId)) of
                  Inl msg \<Rightarrow> (json_error 500 msg, db)
                | Inr (changes, t) \<Rightarrow>
                    if changes = 0
                    then (json_error 404 ''Rent tracking record not found or access denied'',
                          db\<lparr>rent_tracking := t\<rparr>)
                    else (json_message ''Rent tracking record updated successfully'',
                          db\<lparr>rent_tracking := t\<rparr>))))"

section \<open>Bulk import\<close>

text \<open>
  \<^verbatim>\<open>headers[i]\<close>, and the loop
  \<^verbatim>\<open>for (let i = 0; i < expectedColumns.length; i++) if (headers[i] !== expectedColumns[i]) return ...\<close>
  that the three import handlers run over the first row of the sheet: the answer of its
  \<^verbatim>\<open>return\<close>, if it returns.
\<close>

definition cell_at :: "jsval list \<Rightarrow> nat \<Rightarrow> jsval" where
  "cell_at cells i = (if i < length cells then cells ! i else JUndefined)"

definition invalid_header :: "js_env \<Rightarrow> nat \<Rightarrow> string \<Rightarrow> jsval \<Rightarrow> string" where
  "invalid_header env i expected actual =
     ''Invalid header at column '' @ show_nat (i + 1) @ ''. Expected '' @ [CHR 0x22] @ expected @
     [CHR 0x22] @ '', got '' @ [CHR 0x22] @ js_to_string env actual @ [CHR 0x22]"

function validate_headers :: "js_env \<Rightarrow> string list \<Rightarrow> jsval list \<Rightarrow> nat \<Rightarrow> response option" where
  "validate_headers env expectedColumns headers i =
     (if i < length expectedColumns
      then (if cell_at headers i \<noteq> JStr (expectedColumns ! i)
            then Some (json_error 400
                         (invalid_header env i (expectedColumns ! i) (cell_at headers i)))
            else validate_headers env expectedColumns headers (i + 1))
      else None)"
  by pat_completeness auto
termination
  by (relation "measure (\<lambda>(env, expectedColumns, headers, i). length expectedColumns - i)") auto

declare validate_headers.simps [simp del]

definition properties_columns :: "string list" where
  "properties_columns =
     [''Name'', ''Address'', ''Type'', ''Status'', ''Bedrooms'', ''Bathrooms'', ''Electricity Number'',
      ''Water Number'', ''Square Feet'', ''Rent Amount'', ''Currency'']"

definition tenants_columns :: "string list" where
  "tenants_columns =
     [''First Name'', ''Last Name'', ''Email'', ''Phone'', ''Property Name'', ''Rent Amount'',
      ''Currency'', ''Lease Start Date'', ''Lease End Date'']"

definition combined_columns :: "string list" where
  "combined_columns =
     [''Property Name'', ''Property Address'', ''Property Type'', ''Property Status'', ''Bedrooms'',
      ''Bathrooms'', ''Electricity Number'', ''Water Number'', ''Square Feet'',
      ''Property Rent Amount'', ''Property Currency'', ''Tenant First Name'', ''Tenant Last Name'',
      ''Tenant Email'', ''Tenant Phone'', ''Tenant Rent Amount'', ''Lease Start Date'',
      ''Lease End Date'']"

text \<open>
  The three handlers behind \<^verbatim>\<open>authenticateToken\<close> and the upload middleware. What follows
  the header loop, \<^verbatim>\<open>rows.forEach(...)\<close> with its asynchronous callbacks and the answer they
  send, is the parameter \<open>import_rows\<close>, applied to the data rows, the user id and the store;
  nothing before it reads or writes the store. An exception inside \<^verbatim>\<open>try\<close> is answered
  with 500.
\<close>

type_synonym row_import = "jsval list list \<Rightarrow> nat \<Rightarrow> store \<Rightarrow> response \<times> store"

definition bulk_upload_properties :: "js_env \<Rightarrow> row_import \<Rightarrow> request \<Rightarrow> store \<Rightarrow> response \<times> store" where
  "bulk_upload_properties env import_rows req db =
     (case upload_file req of
        None \<Rightarrow> (json_error 400 ''No file uploaded'', db)
      | Some Unreadable \<Rightarrow> (json_error 500 ''Error processing Excel file'', db)
      | Some (Sheet sheet) \<Rightarrow>
          if length sheet < 2
          then (json_error 400 ''File must contain at least a header row and one data row'', db)
          else (case getCurrentUserId env req of
                  None \<Rightarrow> (json_error 500 ''Error processing Excel file'', db)
                | Some userId \<Rightarrow>
                    (case validate_headers env properties_columns (hd sheet) 0 of
                       Some rejection \<Rightarrow> (rejection, db)
                     | None \<Rightarrow> import_rows (tl sheet) userId db)))"

definition bulk_upload_tenants :: "js_env \<Rightarrow> row_import \<Rightarrow> request \<Rightarrow> store \<Rightarrow> response \<times> store" where
  "bulk_upload_tenants env import_rows req db =
     (case upload_file req of
        None \<Rightarrow> (json_error 400 ''No file uploaded'', db)
      | Some Unreadable \<Rightarrow> (json_error 500 ''Error processing Excel file'', db)
      | Some (Sheet sheet) \<Rightarrow>
          if length sheet < 2
          then (json_error 400 ''File must contain at least a header row and one data row'', db)
          else (case getCurrentUserId env req of
                  None \<Rightarrow> (json_error 500 ''Error processing Excel file'', db)
                | Some userId \<Rightarrow>
                    (case validate_headers env tenants_columns (hd sheet) 0 of
                       Some rejection \<Rightarrow> (rejection, db)
                     | None \<Rightarrow> import_rows (tl sheet) userId db)))"

definition bulk_upload_combined :: "js_env \<Rightarrow> row_import \<Rightarrow> request \<Rightarrow> store \<Rightarrow> response \<times> store" where
  "bulk_upload_combined env import_rows req db =
     (case upload_file req of
        None \<Rightarrow> (json_error 400 ''No file uploaded'', db)
      | Some Unreadable \<Rightarrow> (json_error 500 ''Error processing Excel file'', db)
      | Some (Sheet sheet) \<Rightarrow>
          (case getCurrentUserId env req of
             None \<Rightarrow> (json_error 500 ''Error processing Excel file'', db)
           | Some userId \<Rightarrow>
               if length sheet < 2
               then (json_error 400 ''File must contain at least a header row and one data row'', db)
               else (case validate_headers env combined_columns (hd sheet) 0 of
                       Some rejection \<Rightarrow> (rejection, db)
                     | None \<Rightarrow> import_rows (tl sheet) userId db)))"

section \<open>Admin resets\<close>

text \<open>
  One \<^verbatim>\<open>db.run(`DELETE FROM ${table}` ...)\<close> of the reset loops: whether it set
  \<^verbatim>\<open>hasError\<close>, and the table afterwards.
\<close>

definition clear_table :: "faults \<Rightarrow> nat \<Rightarrow> (row \<Rightarrow> bool) \<Rightarrow> table \<Rightarrow> bool \<times> table" where
  "clear_table flt k w t =
     (case attempt flt k (Inr (sql_delete t w)) of
        Inl msg \<Rightarrow> (True, t)
      | Inr (changes, t') \<Rightarrow> (False, t'))"

definition reset_tables :: "jsval" where
  "reset_tables =
     JArr [JStr ''properties'', JStr ''tenants'', JStr ''maintenance_requests'',
           JStr ''financial_records'', JStr ''rent_tracking'']"

definition reset_store :: "faults \<Rightarrow> (row \<Rightarrow> bool) \<Rightarrow> store \<Rightarrow> bool \<times> store" where
  "reset_store flt w db =
     (let p = clear_table flt 0 w (properties db);
          t = clear_table flt 1 w (tenants db);
          m = clear_table flt 2 w (maintenance_requests db);
          f = clear_table flt 3 w (financial_records db);
          r = clear_table flt 4 w (rent_tracking db)
      in (fst p \<or> fst t \<or> fst m \<or> fst f \<or> fst r,
          db\<lparr>properties := snd p, tenants := snd t, maintenance_requests := snd m,
             financial_records := snd f, rent_tracking := snd r\<rparr>))"

definition confirmation_required :: "string \<Rightarrow> string" where
  "confirmation_required phrase =
     ''Confirmation required. Send '' @ [CHR 0x22] @ phrase @ [CHR 0x22] @ '' to confirm.''"

text \<open>\<^verbatim>\<open>app.post('/api/admin/reset-database', requireAdmin, ...)\<close>, the handler.\<close>

definition admin_reset_database :: "js_env \<Rightarrow> faults \<Rightarrow> request \<Rightarrow> store \<Rightarrow> response \<times> store" where
  "admin_reset_database env flt req db =
     (if obj_get (body req) ''confirm'' \<noteq> JStr ''RESET_ALL_DATA''
      then (json_error 400 (confirmation_required ''RESET_ALL_DATA''), db)
      else (case reset_store flt (\<lambda>r. True) db of
              (hasError, db') \<Rightarrow>
                if hasError
                then (json_error 500 ''Error occurred while resetting database'', db')
                else (Response 200
                        (JObj [(''message'', JStr ''Database reset successfully. All user data has been deleted.''),
                               (''deletedTables'', reset_tables),
                               (''adminUserPreserved'', JBool True)]),
                      db')))"

text \<open>\<^verbatim>\<open>app.post('/api/admin/users/:id/reset-data', requireAdmin, ...)\<close>, the handler.\<close>

definition admin_reset_user_data :: "js_env \<Rightarrow> faults \<Rightarrow> request \<Rightarrow> store \<Rightarrow> response \<times> store" where
  "admin_reset_user_data env flt req db =
     (if obj_get (body req) ''confirm'' \<noteq> JStr ''RESET_USER_DATA''
      then (json_error 400 (confirmation_required ''RESET_USER_DATA''), db)
      else (case reset_store flt (\<lambda>r. sql_eq env (col r ''user_id'') (JStr (param_id req))) db of
              (hasError, db') \<Rightarrow>
                if hasError
                then (json_error 500 ''Error occurred while resetting user data'', db')
                else (Response 200
                        (JObj [(''message'', JStr ''User data reset successfully.''),
                               (''deletedTables'', reset_tables),
                               (''userId'', JStr (param_id req))]),
                      db')))"

section \<open>Notions the properties are stated with\<close>

text \<open>
  The effect of the vacancy endpoint on one tenant row: the row keeps its id; it has status
  \<^verbatim>\<open>expired\<close> if it referenced the property and belongs to the caller, and is unchanged
  otherwise.
\<close>

definition expired_for :: "js_env \<Rightarrow> string \<Rightarrow> nat \<Rightarrow> row \<Rightarrow> row \<Rightarrow> bool" where
  "expired_for env ident userId r r' =
     (rowid r' = rowid r \<and>
      (if sql_eq env (col r ''property_id'') (JStr ident) \<and> col r ''user_id'' = jnat userId
       then col r' ''status'' = JStr ''expired'' else r' = r))"

text \<open>
  Row \<open>r\<close> of a table is the entity that the id of the request names, and it belongs to
  account \<open>b\<close>; the ids of the table are unique.
\<close>

definition names_row_of :: "js_env \<Rightarrow> request \<Rightarrow> nat \<Rightarrow> table \<Rightarrow> row \<Rightarrow> bool" where
  "names_row_of env req b t r =
     (r \<in> set (rows t) \<and> sql_eq env (col r ''id'') (JStr (param_id req)) \<and>
      col r ''user_id'' = jnat b \<and> distinct (map rowid (rows t)))"

text \<open>A table without the row of a given id, and the stores in which an entity does not exist at all.\<close>

definition without :: "table \<Rightarrow> nat \<Rightarrow> table" where
  "without t i = t\<lparr>rows := filter (\<lambda>x. rowid x \<noteq> i) (rows t)\<rparr>"

definition drop_property :: "store \<Rightarrow> nat \<Rightarrow> store" where
  "drop_property db i = db\<lparr>properties := without (properties db) i\<rparr>"

definition drop_tenant :: "store \<Rightarrow> nat \<Rightarrow> store" where
  "drop_tenant db i = db\<lparr>tenants := without (tenants db) i\<rparr>"

definition drop_maintenance_request :: "store \<Rightarrow> nat \<Rightarrow> store" where
  "drop_maintenance_request db i = db\<lparr>maintenance_requests := without (maintenance_requests db) i\<rparr>"

definition drop_financial_record :: "store \<Rightarrow> nat \<Rightarrow> store" where
  "drop_financial_record db i = db\<lparr>financial_records := without (financial_records db) i\<rparr>"

definition drop_rent_tracking :: "store \<Rightarrow> nat \<Rightarrow> store" where
  "drop_rent_tracking db i = db\<lparr>rent_tracking := without (rent_tracking db) i\<rparr>"

text \<open>
  The cheque rows of the tenant that \<^verbatim>\<open>/api/tenants/:id\<close> names and those of the other
  tenants; the supplied cheques whose INSERT succeeds, from the cheque at \<open>index\<close> on; and
  the number of the \<open>n\<close> cheque INSERTs of a request that fail.
\<close>

definition cheques_of :: "js_env \<Rightarrow> string \<Rightarrow> table \<Rightarrow> row list" where
  "cheques_of env ident t = filter (\<lambda>r. sql_eq env (col r ''tenant_id'') (JStr ident)) (rows t)"

definition other_cheques :: "js_env \<Rightarrow> string \<Rightarrow> table \<Rightarrow> row list" where
  "other_cheques env ident t = filter (\<lambda>r. \<not> sql_eq env (col r ''tenant_id'') (JStr ident)) (rows t)"

fun accepted_cheques :: "faults \<Rightarrow> nat \<Rightarrow> jsval list \<Rightarrow> jsval list" where
  "accepted_cheques flt index [] = []"
| "accepted_cheques flt index (cheque # rest) =
     (if flt (2 + index) = None then cheque # accepted_cheques flt (Suc index) rest
      else accepted_cheques flt (Suc index) rest)"

definition failed_inserts :: "faults \<Rightarrow> nat \<Rightarrow> nat" where
  "failed_inserts flt n = length (filter (\<lambda>i. flt (2 + i) \<noteq> None) [0..<n])"

text \<open>
  A cheque row holds a supplied cheque of the tenant: each column the INSERT lists has the value
  SQLite stores for the parameter of that column.
\<close>

definition holds_cheque :: "js_env \<Rightarrow> string \<Rightarrow> row \<Rightarrow> jsval \<Rightarrow> bool" where
  "holds_cheque env ident r cheque =
     (case cheque_params env (JStr ident) cheque of
        None \<Rightarrow> False
      | Some params \<Rightarrow> list_all (\<lambda>(c, v). col r c = v) (stored_values env cheques_table params))"

text \<open>
  Column \<open>k\<close> is the first at which a header row differs from the expected columns: the
  cells before it are the expected names, and cell \<open>k\<close> is not.
\<close>

definition first_mismatch :: "string list \<Rightarrow> jsval list \<Rightarrow> nat \<Rightarrow> bool" where
  "first_mismatch expectedColumns headers k =
     (k < length expectedColumns \<and>
      map (cell_at headers) [0..<k] = map JStr (take k expectedColumns) \<and>
      cell_at headers k \<noteq> JStr (expectedColumns ! k))"

text \<open>
  One of the cells of a header row under the expected columns is not the expected name; a
  missing cell reads \<^verbatim>\<open>undefined\<close>.
\<close>

definition header_differs :: "string list \<Rightarrow> jsval list \<Rightarrow> bool" where
  "header_differs expectedColumns headers =
     list_ex (\<lambda>i. cell_at headers i \<noteq> JStr (expectedColumns ! i)) [0..<length expectedColumns]"

section \<open>An example runtime and an example store\<close>

text \<open>
  The theorems hold for every runtime. The examples below run the handlers on one: its builtins
  agree with JavaScript, the JWT library and SQLite on the inputs the examples use (numbers,
  strings of decimal digits, ASCII method names, the two dates, the four tokens listed, and
  objects with and without a key \<^verbatim>\<open>toString\<close>) and return a fixed value elsewhere.
\<close>

definition is_digit :: "char \<Rightarrow> bool" where
  "is_digit c = (48 \<le> (of_char c :: nat) \<and> (of_char c :: nat) \<le> 57)"

definition decimal :: "string \<Rightarrow> nat option" where
  "decimal s =
     (if s \<noteq> [] \<and> list_all is_digit s
      then Some (foldl (\<lambda>n c. 10 * n + (of_char c - 48)) 0 s)
      else None)"

definition decimal_number :: "jsval \<Rightarrow> jsnum" where
  "decimal_number v =
     (case v of
        JNum n \<Rightarrow> n
      | JStr s \<Rightarrow> (case decimal s of Some n \<Rightarrow> Fin (of_nat n) | None \<Rightarrow> NaN)
      | _ \<Rightarrow> NaN)"

definition decimal_text :: "jsnum \<Rightarrow> string" where
  "decimal_text n =
     (case n of
        Fin r \<Rightarrow> (if 0 \<le> r \<and> r = of_int \<lfloor>r\<rfloor> then show_nat (nat \<lfloor>r\<rfloor>) else ''0.5'')
      | _ \<Rightarrow> ''Inf'')"

definition ascii_upper :: "char \<Rightarrow> char" where
  "ascii_upper c =
     (if 97 \<le> (of_char c :: nat) \<and> (of_char c :: nat) \<le> 122 then char_of ((of_char c :: nat) - 32) else c)"

text \<open>
  An object of parsed JSON with a key \<^verbatim>\<open>toString\<close> has a \<^verbatim>\<open>toString\<close> that is not a
  function, and an array is converted by converting its elements.
\<close>

fun uncallable_toString :: "jsval \<Rightarrow> bool" where
  "uncallable_toString (JObj kvs) = (''toString'' \<in> set (map fst kvs))"
| "uncallable_toString (JArr xs) = list_ex uncallable_toString xs"
| "uncallable_toString v = False"

definition example_dates :: "jsval \<Rightarrow> jsnum" where
  "example_dates v =
     (if v = JStr ''2024-01-03'' then Fin 1704240000000
      else if v = JStr ''2024-01-05'' then Fin 1704412800000
      else NaN)"

definition example_tokens :: "string \<Rightarrow> jwt_result" where
  "example_tokens t =
     (if t = ''token-of-alice'' then JwtPayload 1
      else if t = ''token-of-bob'' then JwtPayload 2
      else if t = ''token-of-last-week'' then JwtError ''TokenExpiredError''
      else JwtError ''JsonWebTokenError'')"

definition example_runtime :: js_env where
  "example_runtime =
     \<lparr>toString_throws = uncallable_toString,
      parseInt = decimal_number,
      parseFloat = decimal_number,
      Date_parse = example_dates,
      toUpperCase = map ascii_upper,
      toString = (\<lambda>v. ''[object Object]''),
      toNumber = decimal_number,
      jwt_verify = example_tokens,
      sql_numeric = (\<lambda>s. map_option of_nat (decimal s)),
      sql_text = decimal_text,
      bind_object = (\<lambda>v. if uncallable_toString v then None else Some ''[object Object]''),
      current_timestamp = (\<lambda>k. ''2024-01-03 10:00:00'')\<rparr>"

definition example_request :: "string \<Rightarrow> string \<Rightarrow> jsobject \<Rightarrow> request" where
  "example_request token ident b =
     \<lparr>authorization = Some (''Bearer '' @ token), param_id = ident, body = b, upload_file = None\<rparr>"

definition example_upload :: "string \<Rightarrow> jsval list list \<Rightarrow> request" where
  "example_upload token sheet =
     \<lparr>authorization = Some (''Bearer '' @ token), param_id = [], body = [],
      upload_file = Some (Sheet sheet)\<rparr>"

text \<open>
  Alice (account 1) has property 1 with tenant 1, who has left two cheques, and two maintenance
  requests, one of them completed. Bob (account 2) has property 2.
\<close>

definition alices_property :: row where
  "alices_property =
     \<lparr>rowid = 1, cols = [(''user_id'', jnat 1), (''name'', JStr ''Villa A''), (''address'', JStr ''1 Rd''),
                         (''type'', JStr ''villa''), (''status'', JStr ''occupied'')]\<rparr>"

definition bobs_property :: row where
  "bobs_property =
     \<lparr>rowid = 2, cols = [(''user_id'', jnat 2), (''name'', JStr ''Flat B''), (''address'', JStr ''2 Rd''),
                         (''type'', JStr ''apartment''), (''status'', JStr ''vacant'')]\<rparr>"

definition alices_tenant :: row where
  "alices_tenant =
     \<lparr>rowid = 1, cols = [(''user_id'', jnat 1), (''first_name'', JStr ''Tara''),
                         (''last_name'', JStr ''Nguyen''), (''email'', JStr ''tara@x.com''),
                         (''property_id'', jnat 1), (''status'', JStr ''active'')]\<rparr>"

definition pending_request :: row where
  "pending_request =
     \<lparr>rowid = 1, cols = [(''user_id'', jnat 1), (''property_id'', jnat 1),
                         (''title'', JStr ''Leaking tap''), (''status'', JStr ''pending'')]\<rparr>"

definition completed_request :: row where
  "completed_request =
     \<lparr>rowid = 2, cols = [(''user_id'', jnat 1), (''property_id'', jnat 1),
                         (''title'', JStr ''Broken window''), (''status'', JStr ''completed'')]\<rparr>"

definition example_cheques :: "row list" where
  "example_cheques =
     [\<lparr>rowid = 1, cols = [(''tenant_id'', jnat 1), (''cheque_number'', JStr ''000101''),
                          (''amount'', JNum (Fin 1000)), (''is_security'', jnat 0)]\<rparr>,
      \<lparr>rowid = 2, cols = [(''tenant_id'', jnat 1), (''cheque_number'', JStr ''000102''),
                          (''amount'', JNum (Fin 1000)), (''is_security'', jnat 0)]\<rparr>]"

definition example_store :: store where
  "example_store =
     \<lparr>properties = \<lparr>rows = [alices_property, bobs_property], seq = 2\<rparr>,
      tenants = \<lparr>rows = [alices_tenant], seq = 1\<rparr>,
      maintenance_requests = \<lparr>rows = [pending_request, completed_request], seq = 2\<rparr>,
      financial_records = \<lparr>rows = [], seq = 4\<rparr>,
      rent_tracking = \<lparr>rows = [], seq = 0\<rparr>,
      cheques = \<lparr>rows = example_cheques, seq = 2\<rparr>\<rparr>"

text \<open>
  A second store, in which Bob also has tenant 2, the completed maintenance request 3, the
  financial record 4 and the rent payment 2, next to Alice's rent payment 1.
\<close>

definition bobs_tenant :: row where
  "bobs_tenant =
     \<lparr>rowid = 2, cols = [(''user_id'', jnat 2), (''first_name'', JStr ''Omar''),
                         (''last_name'', JStr ''Haddad''), (''email'', JStr ''omar@y.org''),
                         (''property_id'', jnat 2), (''status'', JStr ''active'')]\<rparr>"

definition bobs_request :: row where
  "bobs_request =
     \<lparr>rowid = 3, cols = [(''user_id'', jnat 2), (''property_id'', jnat 2),
                         (''title'', JStr ''Blocked drain''), (''status'', JStr ''completed'')]\<rparr>"

definition bobs_record :: row where
  "bobs_record =
     \<lparr>rowid = 4, cols = [(''user_id'', jnat 2), (''property_id'', jnat 2), (''tenant_id'', jnat 2),
                         (''type'', JStr ''rent''), (''amount'', JNum (Fin 700)),
                         (''date'', JStr ''2024-01-03'')]\<rparr>"

definition alices_payment :: row where
  "alices_payment =
     \<lparr>rowid = 1, cols = [(''user_id'', jnat 1), (''property_id'', jnat 1), (''tenant_id'', jnat 1),
                         (''rent_month'', JStr ''2023-12''), (''total_amount'', JNum (Fin 1000)),
                         (''payment_method'', JStr ''cash''), (''payment_amount'', JNum (Fin 1000))]\<rparr>"

definition bobs_payment :: row where
  "bobs_payment =
     \<lparr>rowid = 2, cols = [(''user_id'', jnat 2), (''property_id'', jnat 2), (''tenant_id'', jnat 2),
                         (''rent_month'', JStr ''2023-12''), (''total_amount'', JNum (Fin 700)),
                         (''payment_method'', JStr ''cash''), (''payment_amount'', JNum (Fin 700))]\<rparr>"

definition shared_store :: store where
  "shared_store =
     \<lparr>properties = \<lparr>rows = [alices_property, bobs_property], seq = 2\<rparr>,
      tenants = \<lparr>rows = [alices_tenant, bobs_tenant], seq = 2\<rparr>,
      maintenance_requests = \<lparr>rows = [pending_request, completed_request, bobs_request], seq = 3\<rparr>,
      financial_records = \<lparr>rows = [bobs_record], seq = 4\<rparr>,
      rent_tracking = \<lparr>rows = [alices_payment, bobs_payment], seq = 2\<rparr>,
      cheques = \<lparr>rows = example_cheques, seq = 2\<rparr>\<rparr>"

text \<open>Alice sets her property to vacant through the update endpoint.\<close>

definition vacant_villa :: jsobject where
  "vacant_villa =
     [(''name'', JStr ''Villa A''), (''address'', JStr ''1 Rd''), (''type'', JStr ''villa''),
      (''status'', JStr ''vacant'')]"

definition example_vacate :: request where
  "example_vacate = example_request ''token-of-alice'' ''1'' vacant_villa"

text \<open>
  A tenant update with a list of cheques. The first of the three cheques carries its number as
  a number and its amount as a string.
\<close>

definition three_cheques :: "jsval list" where
  "three_cheques =
     [JObj [(''cheque_number'', JNum (Fin 201)), (''amount'', JStr ''900'')],
      JObj [(''cheque_number'', JStr ''000202''), (''amount'', JNum (Fin 900))],
      JObj [(''cheque_number'', JStr ''000203''), (''is_security'', JBool True)]]"

definition tenant_update :: "jsval list \<Rightarrow> jsobject" where
  "tenant_update chqs =
     [(''first_name'', JStr ''Tara''), (''last_name'', JStr ''Nguyen''), (''email'', JStr ''tara@x.com''),
      (''property_id'', JNum (Fin 1)), (''cheques'', JArr chqs)]"

definition example_tenant_update :: "jsval list \<Rightarrow> request" where
  "example_tenant_update chqs = example_request ''token-of-alice'' ''1'' (tenant_update chqs)"

text \<open>A rent payment of Alice's tenant: 400 of 1000, paid in part.\<close>

definition example_payment :: "jsval \<Rightarrow> jsval \<Rightarrow> jsobject" where
  "example_payment total_amount payment_amount =
     [(''property_id'', JNum (Fin 1)), (''tenant_id'', JNum (Fin 1)), (''rent_month'', JStr ''2024-01''),
      (''due_date'', JStr ''2024-01-05''), (''total_amount'', total_amount),
      (''payment_method'', JStr ''partial''), (''payment_amount'', payment_amount),
      (''payment_date'', JStr ''2024-01-03'')]"

definition example_partial :: request where
  "example_partial =
     example_request ''token-of-alice'' [] (example_payment (JNum (Fin 1000)) (JNum (Fin 400)))"

text \<open>A new version of a financial record, and of the status of a maintenance request.\<close>

definition example_record :: jsobject where
  "example_record =
     [(''type'', JStr ''rent''), (''amount'', JNum (Fin 750)), (''date'', JStr ''2024-01-03'')]"

definition example_status :: jsobject where
  "example_status = [(''status'', JStr ''in_progress'')]"

text \<open>The engine fails the \<open>n\<close>-th statement of a request and no other.\<close>

definition fails_at :: "nat \<Rightarrow> faults" where
  "fails_at n = (\<lambda>k. if k = n then Some ''SQLITE_BUSY: database is locked'' else None)"

text \<open>A row import that only reports that the rows were reached.\<close>

definition rows_reached :: row_import where
  "rows_reached data_rows userId db = (json_message ''rows reached'', db)"

text \<open>
  The header row of a sheet of properties whose third column is named \<^verbatim>\<open>Kind\<close> instead of
  \<^verbatim>\<open>Type\<close>, and a data row.
\<close>

definition misnamed_header :: "jsval list" where
  "misnamed_header = map JStr (properties_columns[2 := ''Kind''])"

definition villa_row :: "jsval list" where
  "villa_row =
     [JStr ''Villa C'', JStr ''3 Rd'', JStr ''villa'', JStr ''vacant'', JNum (Fin 3), JNum (Fin 2),
      JStr ''E-3'', JStr ''W-3'', JNum (Fin 1500), JNum (Fin 2500), JStr ''USD'']"

section \<open>Facts about values and the store\<close>

lemma jnat_eq [simp]: "(jnat a = jnat b) = (a = b)"
  by (simp add: jnat_def)

lemma jnat_not_null [simp]: "jnat n \<noteq> JNull" "jnat n \<noteq> JUndefined"
  by (simp_all add: jnat_def)

lemma sql_value_jnat [simp]: "sql_value (jnat n) = jnat n"
  by (simp add: sql_value_def jnat_def)

lemma integer_affinity_jnat [simp]: "integer_affinity env (jnat n) = jnat n"
  by (simp add: integer_affinity_def apply_affinity_def jnat_def sql_value_def)

lemma sql_eq_jnat [simp]: "sql_eq env v (jnat n) = (v = jnat n)"
  by (auto simp: sql_eq_def)

lemma sql_value_truthy: "truthy v \<Longrightarrow> sql_value v \<noteq> JNull \<and> sql_value v \<noteq> JUndefined"
  by (cases v) (auto simp: sql_value_def)

lemma attempt_ok [simp]: "flt k = None \<Longrightarrow> attempt flt k r = r"
  by (simp add: attempt_def)

lemma attempt_fails [simp]: "flt k = Some msg \<Longrightarrow> attempt flt k r = Inl msg"
  by (simp add: attempt_def)

lemma filter_empty_conv_none: "(filter w xs = []) = (\<forall>x\<in>set xs. \<not> w x)"
  by (simp add: filter_empty_conv)

lemma sql_get_none: "\<forall>r\<in>set (rows t). \<not> w r \<Longrightarrow> sql_get t w = None"
  by (simp add: sql_get_def find_None_iff)

lemma sql_delete_none: "\<forall>r\<in>set (rows t). \<not> w r \<Longrightarrow> sql_delete t w = (0, t)"
  by (simp add: sql_delete_def filter_empty_conv_none[symmetric] filter_id_conv)

lemma sql_update_none: "\<forall>r\<in>set (rows t). \<not> w r \<Longrightarrow> sql_update env td t params w = Inr (0, t)"
  by (simp add: sql_update_def filter_empty_conv_none)

text \<open>The example requests carry the token they were built with.\<close>

lemma example_bearer:
  "bearer_token (example_request ''token-of-last-week'' i b) = Some ''token-of-last-week''"
  "bearer_token (example_request ''forged'' i b) = Some ''forged''"
  "bearer_token (example_request ''token-of-alice'' i b) = Some ''token-of-alice''"
  "bearer_token (example_request ''token-of-bob'' i b) = Some ''token-of-bob''"
  "bearer_token (example_upload ''token-of-alice'' sh) = Some ''token-of-alice''"
  by (simp_all add: bearer_token_def example_request_def example_upload_def)

lemma example_user:
  "getCurrentUserId example_runtime (example_request ''token-of-alice'' i b) = Some 1"
  "getCurrentUserId example_runtime (example_request ''token-of-bob'' i b) = Some 2"
  "getCurrentUserId example_runtime (example_upload ''token-of-alice'' sh) = Some 1"
  by (simp_all add: getCurrentUserId_def example_bearer example_runtime_def example_tokens_def)

section \<open>Authentication middleware\<close>

text \<open>
  Claim C5, as the code has it. The middleware rejects a request without a token with 401
  \<^verbatim>\<open>Access token required\<close>, and a token that has expired with 401 \<^verbatim>\<open>Token expired\<close> and
  the code \<^verbatim>\<open>TOKEN_EXPIRED\<close>. A token that fails verification for any other reason (a bad
  signature, a malformed token) is rejected with 403 \<^verbatim>\<open>Invalid token\<close>, not with 401.
\<close>

theorem authenticateToken_rejections:
  "(bearer_token req = None \<or> bearer_token req = Some [] \<longrightarrow>
      authenticateToken env req = Inl (json_error 401 ''Access token required'')) \<and>
   (\<forall>token. bearer_token req = Some token \<and> token \<noteq> [] \<and>
      jwt_verify env token = JwtError ''TokenExpiredError'' \<longrightarrow>
      authenticateToken env req =
        Inl (Response 401 (JObj [(''error'', JStr ''Token expired''), (''code'', JStr ''TOKEN_EXPIRED'')]))) \<and>
   (\<forall>token name. bearer_token req = Some token \<and> token \<noteq> [] \<and>
      jwt_verify env token = JwtError name \<and> name \<noteq> ''TokenExpiredError'' \<longrightarrow>
      authenticateToken env req = Inl (json_error 403 ''Invalid token''))"
  by (auto simp: authenticateToken_def)

text \<open>A request without a header, one with last week's token and one with a forged token.\<close>

theorem authenticateToken_rejections_witness:
  "authenticateToken example_runtime \<lparr>authorization = None, param_id = [], body = [], upload_file = None\<rparr>
     = Inl (json_error 401 ''Access token required'') \<and>
   authenticateToken example_runtime (example_request ''token-of-last-week'' [] [])
     = Inl (Response 401 (JObj [(''error'', JStr ''Token expired''), (''code'', JStr ''TOKEN_EXPIRED'')])) \<and>
   authenticateToken example_runtime (example_request ''forged'' [] [])
     = Inl (json_error 403 ''Invalid token'')"
proof -
  have a: "bearer_token \<lparr>authorization = None, param_id = [], body = [], upload_file = None\<rparr> = None"
    by (simp add: bearer_token_def)
  have b: "jwt_verify example_runtime ''token-of-last-week'' = JwtError ''TokenExpiredError''"
    by (simp add: example_runtime_def example_tokens_def)
  have c: "jwt_verify example_runtime ''forged'' = JwtError ''JsonWebTokenError''"
    by (simp add: example_runtime_def example_tokens_def)
  show ?thesis
    using authenticateToken_rejections [of "\<lparr>authorization = None, param_id = [], body = [], upload_file = None\<rparr>" example_runtime]
      authenticateToken_rejections [of "example_request ''token-of-last-week'' [] []" example_runtime]
      authenticateToken_rejections [of "example_request ''forged'' [] []" example_runtime]
      a b c example_bearer(1,2)
    by auto
qed

text \<open>
  Claim C5 as stated fails: a token with a bad signature is present and invalid, and the answer
  is 403.
\<close>

theorem invalid_token_is_403:
  "authenticateToken example_runtime (example_request ''forged'' [] [])
     = Inl (Response 403 (JObj [(''error'', JStr ''Invalid token'')]))"
  by (simp add: authenticateToken_def example_bearer example_runtime_def example_tokens_def json_error_def)

section \<open>Admin resets need the exact phrase\<close>

text \<open>
  Claim C9. Unless \<^verbatim>\<open>confirm\<close> in the body is exactly the string \<^verbatim>\<open>RESET_ALL_DATA\<close>
  (for \<^verbatim>\<open>/api/admin/reset-database\<close>) or \<^verbatim>\<open>RESET_USER_DATA\<close> (for
  \<^verbatim>\<open>/api/admin/users/:id/reset-data\<close>), the handler answers 400 and the store is unchanged,
  whatever else the value is.
\<close>

theorem reset_needs_exact_confirmation:
  "(obj_get (body req) ''confirm'' \<noteq> JStr ''RESET_ALL_DATA'' \<longrightarrow>
      admin_reset_database env flt req db = (json_error 400 (confirmation_required ''RESET_ALL_DATA''), db)) \<and>
   (obj_get (body req) ''confirm'' \<noteq> JStr ''RESET_USER_DATA'' \<longrightarrow>
      admin_reset_user_data env flt req db = (json_error 400 (confirmation_required ''RESET_USER_DATA''), db))"
  by (simp add: admin_reset_database_def admin_reset_user_data_def)

text \<open>A truthy flag, and the phrase of the other reset, are both refused.\<close>

theorem reset_needs_exact_confirmation_witness:
  "admin_reset_database example_runtime no_faults
       (example_request ''token-of-alice'' [] [(''confirm'', JBool True)]) example_store
     = (json_error 400 (confirmation_required ''RESET_ALL_DATA''), example_store) \<and>
   admin_reset_user_data example_runtime no_faults
       (example_request ''token-of-alice'' ''2'' [(''confirm'', JStr ''RESET_ALL_DATA'')]) example_store
     = (json_error 400 (confirmation_required ''RESET_USER_DATA''), example_store)"
  using reset_needs_exact_confirmation
          [of "example_request ''token-of-alice'' [] [(''confirm'', JBool True)]" example_runtime no_faults example_store]
        reset_needs_exact_confirmation
          [of "example_request ''token-of-alice'' ''2'' [(''confirm'', JStr ''RESET_ALL_DATA'')]" example_runtime no_faults example_store]
  by (simp add: example_request_def obj_get_def)

section \<open>Facts about parameters and stored rows\<close>

lemma map_of_map_key:
  "map_of (map (\<lambda>(c, a). (c, f c a)) xs) k = map_option (f k) (map_of xs k)"
  by (induction xs) auto

lemma sql_bind_primitive [simp]:
  "sql_bind env (JStr s) = Some (JStr s)"
  "sql_bind env (JNum n) = Some (sql_value (JNum n))"
  "sql_bind env (jnat k) = Some (jnat k)"
  "sql_bind env JNull = Some JNull"
  "sql_bind env JUndefined = Some JNull"
  by (simp_all add: sql_bind_def sql_value_def jnat_def)

lemma sql_bind_truthy:
  assumes "truthy v" "sql_bind env v = Some x"
  shows "x \<noteq> JNull"
  using assms by (cases v) (auto simp: sql_bind_def sql_value_def jnat_def split: if_splits)

lemma apply_affinity_null [simp]: "(apply_affinity env a v = JNull) = (v = JNull)"
  by (cases v) (auto simp: apply_affinity_def split: option.splits)

lemma apply_affinity_kept [simp]:
  "apply_affinity env TEXT (JStr s) = JStr s"
  "a \<noteq> TEXT \<Longrightarrow> apply_affinity env a (JNum n) = JNum n"
  "a \<noteq> TEXT \<Longrightarrow> apply_affinity env a (jnat k) = jnat k"
  by (simp_all add: apply_affinity_def jnat_def)

lemma bind_params_lookup:
  assumes "bind_params env ps = Some bound" "map_of ps c = Some v"
  shows "\<exists>x. sql_bind env v = Some x \<and> map_of bound c = Some x"
  using assms
proof (induction ps arbitrary: bound)
  case Nil
  then show ?case by simp
next
  case (Cons kv ps)
  obtain k w where kv: "kv = (k, w)" by (cases kv)
  from Cons.prems(1) kv obtain x rest where
    x: "sql_bind env w = Some x" and rest: "bind_params env ps = Some rest" and
    bound: "bound = (k, x) # rest"
    by (auto split: option.splits)
  show ?case
  proof (cases "k = c")
    case True
    with Cons.prems(2) kv x bound show ?thesis by simp
  next
    case False
    with Cons.prems(2) kv have "map_of ps c = Some v" by simp
    from Cons.IH [OF rest this] False bound show ?thesis by simp
  qed
qed

lemma bind_params_keys:
  "bind_params env ps = Some bound \<Longrightarrow> map fst bound = map fst ps"
proof (induction ps arbitrary: bound)
  case Nil
  then show ?case by simp
next
  case (Cons kv ps)
  obtain k w where kv: "kv = (k, w)" by (cases kv)
  from Cons.prems kv obtain x rest where
    rest: "bind_params env ps = Some rest" and bound: "bound = (k, x) # rest"
    by (auto split: option.splits)
  from Cons.IH [OF rest] bound kv show ?case by simp
qed

text \<open>The value an INSERT stores in a column it lists, and in one it does not list.\<close>

lemma col_stored_row:
  assumes "map_of (columns td) c = Some a" "c \<noteq> ''id''" "map_of params c = Some v"
  shows "col \<lparr>rowid = i, cols = stored_row env td now params\<rparr> c = apply_affinity env a v"
  using assms by (simp add: col_def stored_row_def map_of_map_key)

lemma stored_row_lookup:
  assumes "map_of (columns td) c = Some a" "map_of params c = Some v"
  shows "map_of (stored_row env td now params) c = Some (apply_affinity env a v)"
  using assms by (simp add: stored_row_def map_of_map_key)

lemma stored_values_lookup:
  assumes "map_of (columns td) c = Some a" "map_of params c = Some v"
  shows "map_of (stored_values env td params) c = Some (apply_affinity env a v)"
  using assms
proof (induction params)
  case Nil
  then show ?case by simp
next
  case (Cons kv params)
  obtain k w where kv: "kv = (k, w)" by (cases kv)
  show ?case
  proof (cases "k = c")
    case True
    with Cons.prems kv show ?thesis by (simp add: stored_values_def)
  next
    case False
    with Cons.prems kv have "map_of params c = Some v" by simp
    from Cons.IH [OF Cons.prems(1) this] False kv show ?thesis
      by (simp add: stored_values_def)
  qed
qed

lemma stored_values_unlisted:
  "map_of params c = None \<Longrightarrow> map_of (stored_values env td params) c = None"
  by (induction params) (auto simp: stored_values_def)

declare bind_params.simps [simp del]

section \<open>Rent tracking: the overpayment check\<close>

lemma js_gt_not_nan: "js_gt p t \<Longrightarrow> p \<noteq> NaN \<and> t \<noteq> NaN"
  by (cases p; cases t) auto

lemma js_gt_positive: "js_gt p t \<Longrightarrow> \<not> js_le_zero t \<Longrightarrow> \<not> js_le_zero p"
  by (cases p; cases t) auto

lemma overpayment_invalid:
  assumes "js_gt pay tot"
  shows "\<exists>msg. rent_tracking_invalid env b tot pay = Some (json_error 400 msg)"
  using assms js_gt_not_nan [OF assms]
  by (auto simp: rent_tracking_invalid_def isNaN_def)

lemma overpayment_message:
  assumes "js_gt pay tot" and "\<not> js_le_zero tot"
  shows "rent_tracking_invalid env b tot pay = Some (json_error 400 ''Payment amount cannot exceed total amount'')"
  using assms js_gt_not_nan [OF assms(1)] js_gt_positive [OF assms(1) assms(2)]
  by (simp add: rent_tracking_invalid_def isNaN_def)

lemma rent_tracking_numbers_Some:
  assumes "rent_tracking_numbers env b = Some (p, t, tot, pay, bal)"
  shows "p = parseInt env (obj_get b ''property_id'')"
    and "t = parseInt env (obj_get b ''tenant_id'')"
    and "tot = parseFloat env (obj_get b ''total_amount'')"
    and "pay = parseFloat env (obj_get b ''payment_amount'')"
    and "bal = (if truthy (obj_get b ''partial_balance'')
                then parseFloat env (obj_get b ''partial_balance'') else Fin 0)"
  using assms by (simp_all add: rent_tracking_numbers_def split: if_splits)

lemma primitive_numbers:
  assumes "\<And>k. \<not> conversion_throws env (obj_get b k)"
  shows "rent_tracking_numbers env b =
           Some (parseInt env (obj_get b ''property_id''), parseInt env (obj_get b ''tenant_id''),
                 parseFloat env (obj_get b ''total_amount''), parseFloat env (obj_get b ''payment_amount''),
                 if truthy (obj_get b ''partial_balance'')
                 then parseFloat env (obj_get b ''partial_balance'') else Fin 0)"
  using assms by (simp add: rent_tracking_numbers_def)

text \<open>
  Claim C1, as the code has it. A \<^verbatim>\<open>POST /api/rent-tracking\<close> or
  \<^verbatim>\<open>PUT /api/rent-tracking/:id\<close> whose payment amount exceeds its total amount is always
  rejected, with 401 or 400, and the store is left as it was: the checks run before the first
  statement. The message is \<^verbatim>\<open>Payment amount cannot exceed total amount\<close> when the request is
  authenticated, carries all required fields, none of the five conversions of its numbers throws
  and the total amount is positive; otherwise an earlier check, or the \<^verbatim>\<open>catch\<close> of the
  handler, answers with its own message.
\<close>

theorem overpayment_rejected_before_any_write:
  assumes over: "js_gt (parseFloat env (obj_get (body req) ''payment_amount''))
                       (parseFloat env (obj_get (body req) ''total_amount''))"
  shows "(post_rent_tracking env flt req db = (json_error 401 ''Authentication required'', db) \<or>
          (\<exists>msg. post_rent_tracking env flt req db = (json_error 400 msg, db))) \<and>
         (put_rent_tracking env flt req db = (json_error 401 ''Authentication required'', db) \<or>
          (\<exists>msg. put_rent_tracking env flt req db = (json_error 400 msg, db))) \<and>
         (getCurrentUserId env req \<noteq> None \<and> \<not> missing_required_fields (body req) \<and>
          rent_tracking_numbers env (body req) \<noteq> None \<and>
          \<not> js_le_zero (parseFloat env (obj_get (body req) ''total_amount'')) \<longrightarrow>
            post_rent_tracking env flt req db =
              (json_error 400 ''Payment amount cannot exceed total amount'', db) \<and>
            put_rent_tracking env flt req db =
              (json_error 400 ''Payment amount cannot exceed total amount'', db))"
proof -
  let ?tot = "parseFloat env (obj_get (body req) ''total_amount'')"
  let ?pay = "parseFloat env (obj_get (body req) ''payment_amount'')"
  have rejected:
    "(post_rent_tracking env flt req db = (json_error 401 ''Authentication required'', db) \<or>
      (\<exists>msg. post_rent_tracking env flt req db = (json_error 400 msg, db))) \<and>
     (put_rent_tracking env flt req db = (json_error 401 ''Authentication required'', db) \<or>
      (\<exists>msg. put_rent_tracking env flt req db = (json_error 400 msg, db)))"
  proof (cases "getCurrentUserId env req")
    case None
    then show ?thesis by (simp add: post_rent_tracking_def put_rent_tracking_def rent_tracking_update_params_def)
  next
    case (Some userId)
    note u = this
    show ?thesis
    proof (cases "missing_required_fields (body req)")
      case True
      with u show ?thesis by (auto simp: post_rent_tracking_def put_rent_tracking_def rent_tracking_update_params_def)
    next
      case False
      note fields = this
      show ?thesis
      proof (cases "rent_tracking_numbers env (body req)")
        case None
        with u fields show ?thesis by (simp add: post_rent_tracking_def put_rent_tracking_def rent_tracking_update_params_def)
      next
        case (Some numbers)
        obtain p t tot pay bal where numbers: "numbers = (p, t, tot, pay, bal)"
          by (cases numbers)
        from Some numbers have n: "rent_tracking_numbers env (body req) = Some (p, t, tot, pay, bal)"
          by simp
        from rent_tracking_numbers_Some(3,4) [OF n] over have "js_gt pay tot" by simp
        from overpayment_invalid [OF this] obtain msg where
          "rent_tracking_invalid env (body req) tot pay = Some (json_error 400 msg)" by blast
        with u fields n show ?thesis
          by (auto simp: post_rent_tracking_def put_rent_tracking_def rent_tracking_update_params_def)
      qed
    qed
  qed
  have message:
    "post_rent_tracking env flt req db =
       (json_error 400 ''Payment amount cannot exceed total amount'', db) \<and>
     put_rent_tracking env flt req db =
       (json_error 400 ''Payment amount cannot exceed total amount'', db)"
    if u: "getCurrentUserId env req \<noteq> None" and fields: "\<not> missing_required_fields (body req)"
      and conv: "rent_tracking_numbers env (body req) \<noteq> None" and pos: "\<not> js_le_zero ?tot"
  proof -
    from u obtain userId where u': "getCurrentUserId env req = Some userId" by blast
    from conv obtain p t tot pay bal where
      n: "rent_tracking_numbers env (body req) = Some (p, t, tot, pay, bal)"
      by (cases "rent_tracking_numbers env (body req)") auto
    from rent_tracking_numbers_Some(3,4) [OF n] over pos
    have "js_gt pay tot" "\<not> js_le_zero tot" by simp_all
    from overpayment_message [OF this]
    have "rent_tracking_invalid env (body req) tot pay =
            Some (json_error 400 ''Payment amount cannot exceed total amount'')" .
    with u' fields n show ?thesis
      by (simp add: post_rent_tracking_def put_rent_tracking_def rent_tracking_update_params_def)
  qed
  from rejected message show ?thesis by blast
qed

text \<open>Facts about the example requests.\<close>

lemma example_payment_fields:
  "\<not> missing_required_fields (example_payment (JNum (Fin 1000)) (JNum (Fin 1200)))"
  by (simp add: missing_required_fields_def example_payment_def obj_get_def)

lemma example_body [simp]: "body (example_request t i b) = b"
  by (simp add: example_request_def)

lemma example_param [simp]: "param_id (example_request t i b) = i"
  by (simp add: example_request_def)

lemma example_parse [simp]:
  "parseFloat example_runtime (JNum n) = n"
  "parseInt example_runtime (JNum n) = n"
  by (simp_all add: example_runtime_def decimal_number_def)

text \<open>
  Scenario 3 of the specification: a payment of 1200 against a total of 1000, as a new payment
  and as a new version of Alice's payment 1.
\<close>

theorem overpayment_rejected_before_any_write_witness:
  "post_rent_tracking example_runtime no_faults
      (example_request ''token-of-alice'' ''1'' (example_payment (JNum (Fin 1000)) (JNum (Fin 1200)))) shared_store
     = (json_error 400 ''Payment amount cannot exceed total amount'', shared_store) \<and>
   put_rent_tracking example_runtime no_faults
      (example_request ''token-of-alice'' ''1'' (example_payment (JNum (Fin 1000)) (JNum (Fin 1200)))) shared_store
     = (json_error 400 ''Payment amount cannot exceed total amount'', shared_store)"
proof -
  let ?req = "example_request ''token-of-alice'' ''1'' (example_payment (JNum (Fin 1000)) (JNum (Fin 1200)))"
  have over: "js_gt (parseFloat example_runtime (obj_get (body ?req) ''payment_amount''))
                    (parseFloat example_runtime (obj_get (body ?req) ''total_amount''))"
    by (simp add: example_payment_def obj_get_def)
  have conv: "rent_tracking_numbers example_runtime (body ?req) \<noteq> None"
    by (simp add: rent_tracking_numbers_def conversion_throws_def example_payment_def obj_get_def)
  have pre: "getCurrentUserId example_runtime ?req \<noteq> None \<and> \<not> missing_required_fields (body ?req) \<and>
             rent_tracking_numbers example_runtime (body ?req) \<noteq> None \<and>
             \<not> js_le_zero (parseFloat example_runtime (obj_get (body ?req) ''total_amount''))"
    using conv by (simp add: example_user example_payment_fields) (simp add: example_payment_def obj_get_def)
  from overpayment_rejected_before_any_write [OF over, of no_faults shared_store] pre
  show ?thesis by blast
qed

text \<open>
  Claim C1 as stated fails: a payment of 50 exceeds a total of -100, and the answer is the
  message of the check on the total amount.
\<close>

theorem overpayment_of_negative_total_gets_other_message:
  "js_gt (parseFloat example_runtime (JNum (Fin 50))) (parseFloat example_runtime (JNum (Fin (- 100)))) \<and>
   post_rent_tracking example_runtime no_faults
      (example_request ''token-of-alice'' [] (example_payment (JNum (Fin (- 100))) (JNum (Fin 50)))) example_store
     = (Response 400 (JObj [(''error'', JStr ''Total amount must be a positive number'')]), example_store)"
  by code_simp

text \<open>
  So does a payment of 1200 against a total of 1000 whose \<^verbatim>\<open>partial_balance\<close> is an object
  with a key \<^verbatim>\<open>toString\<close>: \<^verbatim>\<open>parseFloat\<close> throws before the amounts are compared, and the
  \<^verbatim>\<open>catch\<close> of the handler answers 401.
\<close>

lemma overpayment_with_failing_conversion_is_answered_401:
  "post_rent_tracking example_runtime no_faults
      (example_request ''token-of-alice'' []
         (example_payment (JNum (Fin 1000)) (JNum (Fin 1200)) @
          [(''partial_balance'', JObj [(''toString'', JNum (Fin 1))])])) example_store
     = (Response 401 (JObj [(''error'', JStr ''Authentication required'')]), example_store)"
  by code_simp

section \<open>The primary key\<close>

text \<open>Row ids are unique in a table, and each statement keeps them so.\<close>

lemma col_id [simp]: "col r ''id'' = jnat (rowid r)"
  by (simp add: col_def)

lemma same_id_same_row:
  "distinct (map rowid xs) \<Longrightarrow> x \<in> set xs \<Longrightarrow> y \<in> set xs \<Longrightarrow> rowid x = rowid y \<Longrightarrow> x = y"
  by (meson distinct_map inj_on_def)

lemma sql_eq_same_id:
  "sql_eq env (col x ''id'') p \<Longrightarrow> sql_eq env (col y ''id'') p \<Longrightarrow> rowid x = rowid y"
  unfolding sql_eq_def col_id by (metis jnat_eq)

lemma owned_by_unique:
  assumes "distinct (map rowid xs)" "r \<in> set xs" "sql_eq env (col r ''id'') p"
      and "x \<in> set xs" "owned_by env p u x"
  shows "x = r"
proof -
  from assms(5) have "sql_eq env (col x ''id'') p"
    by (simp add: owned_by_def del: col_id)
  then have "rowid x = rowid r"
    using assms(3) by (rule sql_eq_same_id)
  with assms(1,2,4) show ?thesis
    by (intro same_id_same_row)
qed

lemma find_unique:
  "r \<in> set xs \<Longrightarrow> P r \<Longrightarrow> \<forall>x\<in>set xs. P x \<longrightarrow> x = r \<Longrightarrow> find P xs = Some r"
proof (induction xs)
  case Nil
  then show ?case by simp
next
  case (Cons a xs)
  show ?case
  proof (cases "P a")
    case True
    with Cons.prems(3) have "a = r" by simp
    with True show ?thesis by simp
  next
    case False
    with Cons.prems(1,2) have 1: "r \<in> set xs" by auto
    from Cons.prems(3) have 2: "\<forall>x\<in>set xs. P x \<longrightarrow> x = r" by simp
    have "find P xs = Some r" by (rule Cons.IH [OF 1 Cons.prems(2) 2])
    with False show ?thesis by simp
  qed
qed

lemma filter_unique:
  "distinct xs \<Longrightarrow> r \<in> set xs \<Longrightarrow> P r \<Longrightarrow> \<forall>x\<in>set xs. P x \<longrightarrow> x = r \<Longrightarrow> filter P xs = [r]"
proof (induction xs)
  case Nil
  then show ?case by simp
next
  case (Cons a xs)
  from Cons.prems(4) have rest: "\<forall>x\<in>set xs. P x \<longrightarrow> x = r" by simp
  show ?case
  proof (cases "a = r")
    case True
    with Cons.prems(1) have "r \<notin> set xs" by simp
    with rest have "\<forall>x\<in>set xs. \<not> P x" by metis
    then have "filter P xs = []" by (simp add: filter_empty_conv)
    with True Cons.prems(3) show ?thesis by simp
  next
    case False
    with Cons.prems(4) have na: "\<not> P a" by auto
    from False Cons.prems(2) have 1: "r \<in> set xs" by simp
    from Cons.prems(1) have 2: "distinct xs" by simp
    have "filter P xs = [r]" by (rule Cons.IH [OF 2 1 Cons.prems(3) rest])
    with na show ?thesis by simp
  qed
qed

lemma fold_max_upper: "x \<in> set xs \<Longrightarrow> x \<le> fold max xs (a::nat)"
proof -
  assume "x \<in> set xs"
  then have "x \<le> Max (set (a # xs))"
    by (intro Max_ge) simp_all
  then show ?thesis
    by (simp only: Max.set_eq_fold)
qed

lemma next_rowid_fresh: "r \<in> set (rows t) \<Longrightarrow> rowid r < next_rowid t"
proof -
  assume "r \<in> set (rows t)"
  then have "rowid r \<le> fold max (map rowid (rows t)) 0"
    by (intro fold_max_upper) simp
  then show ?thesis by (simp add: next_rowid_def)
qed

lemma sql_insert_Inr:
  "sql_insert env td now t params = Inr (i, t') \<Longrightarrow>
     i = next_rowid t \<and>
     t' = \<lparr>rows = rows t @ [\<lparr>rowid = next_rowid t, cols = stored_row env td now params\<rparr>],
           seq = next_rowid t\<rparr>"
  by (auto simp: sql_insert_def Let_def split: option.splits)

lemma primary_key_insert:
  assumes "distinct (map rowid (rows t))" "sql_insert env td now t params = Inr (i, t')"
  shows "distinct (map rowid (rows t'))"
proof -
  from sql_insert_Inr [OF assms(2)]
  have t': "rows t' = rows t @ [\<lparr>rowid = next_rowid t, cols = stored_row env td now params\<rparr>]"
    by simp
  have "rowid x \<noteq> next_rowid t" if "x \<in> set (rows t)" for x
    using next_rowid_fresh [OF that] by simp
  then have "next_rowid t \<notin> rowid ` set (rows t)"
    by force
  with assms(1) t' show ?thesis by simp
qed

lemma primary_key_delete:
  "distinct (map rowid (rows t)) \<Longrightarrow> distinct (map rowid (rows (snd (sql_delete t w))))"
  by (simp add: sql_delete_def distinct_map_filter)

lemma primary_key_update:
  assumes "distinct (map rowid (rows t))" "sql_update env td t params w = Inr (n, t')"
  shows "distinct (map rowid (rows t'))"
proof -
  have "rowid \<circ> (\<lambda>r. if w r then r\<lparr>cols := set_cols sets (cols r)\<rparr> else r) = rowid" for sets
    by (auto simp: fun_eq_iff)
  with assms show ?thesis
    by (auto simp: sql_update_def split: if_splits option.splits)
qed

text \<open>Facts about the example store.\<close>

lemma example_numeric [simp]:
  "sql_numeric example_runtime ''1'' = Some 1"
  "sql_numeric example_runtime ''2'' = Some 2"
  "parseInt example_runtime (JStr ''1'') = Fin 1"
  "parseInt example_runtime (JStr ''2'') = Fin 2"
  by (simp_all add: example_runtime_def decimal_number_def decimal_def is_digit_def)

lemma example_id_param [simp]:
  "sql_eq example_runtime (jnat n) (JStr ''1'') = (n = 1)"
  "sql_eq example_runtime (jnat n) (JStr ''2'') = (n = 2)"
  by (auto simp: sql_eq_def integer_affinity_def apply_affinity_def sql_value_def jnat_def)

lemma no_faults_none [simp]: "no_faults k = None"
  by (simp add: no_faults_def)

section \<open>Vacancy and the tenants of a property\<close>

lemma put_property_tenants: "tenants (snd (put_property env flt req db)) = tenants db"
  by (simp add: put_property_def Let_def split: option.splits sum.splits prod.splits)

lemma col_set_status:
  "col (r\<lparr>cols := set_cols [(''status'', v)] (cols r)\<rparr>) ''status'' = v"
  by (simp add: col_def set_cols_def)

lemma update_tenants_vacant_rows:
  assumes u: "getCurrentUserId env req = Some userId" and f: "flt 0 = None"
  shows "rows (tenants (snd (update_tenants_vacant env flt req db))) =
         map (\<lambda>r. if sql_eq env (col r ''property_id'') (JStr (param_id req)) \<and> col r ''user_id'' = jnat userId
                  then r\<lparr>cols := set_cols [(''status'', JStr ''expired'')] (cols r)\<rparr> else r)
             (rows (tenants db))"
proof -
  let ?w = "\<lambda>r. sql_eq env (col r ''property_id'') (JStr (param_id req)) \<and> col r ''user_id'' = jnat userId"
  have sv: "stored_values env tenants_table [(''status'', JStr ''expired'')] = [(''status'', JStr ''expired'')]"
    by (simp add: stored_values_def tenants_table_def apply_affinity_def)
  have nn: "find (\<lambda>c. map_of [(''status'', JStr ''expired'')] c = Some JNull) (notnull tenants_table) = None"
    by (simp add: tenants_table_def)
  show ?thesis
  proof (cases "filter ?w (rows (tenants db)) = []")
    case True
    then have "\<forall>r\<in>set (rows (tenants db)). \<not> ?w r"
      by (simp add: filter_empty_conv)
    then have "map (\<lambda>r. if ?w r then r\<lparr>cols := set_cols [(''status'', JStr ''expired'')] (cols r)\<rparr> else r)
                 (rows (tenants db)) = rows (tenants db)"
      by (intro map_idI) auto
    then show ?thesis using u f True
      by (simp add: update_tenants_vacant_def sql_update_def)
  next
    case False
    then show ?thesis using u f nn
      by (simp add: update_tenants_vacant_def sql_update_def sv)
  qed
qed

text \<open>
  Claim C3, as the code has it. \<^verbatim>\<open>PUT /api/properties/:id\<close> never changes a tenant row,
  whatever status it sets. The tenants of a property are expired by a request of its own,
  \<^verbatim>\<open>POST /api/properties/:id/update-tenants-vacant\<close>, which the client sends after the
  update: when its statement succeeds, every tenant row of the caller that referenced the
  property has status \<^verbatim>\<open>expired\<close> and every other tenant row is unchanged.
\<close>

theorem vacancy_expires_tenants_only_through_its_own_endpoint:
  "tenants (snd (put_property env flt req db)) = tenants db \<and>
   (getCurrentUserId env req = Some userId \<and> flt 0 = None \<longrightarrow>
      list_all2 (expired_for env (param_id req) userId)
        (rows (tenants db))
        (rows (tenants (snd (update_tenants_vacant env flt req db)))))"
proof -
  have "list_all2 (expired_for env (param_id req) userId)
        (rows (tenants db))
        (rows (tenants (snd (update_tenants_vacant env flt req db))))"
    if u: "getCurrentUserId env req = Some userId" and f: "flt 0 = None"
    unfolding update_tenants_vacant_rows [of env req userId flt db, OF u f]
    by (simp add: list_all2_map2 list_all2_same expired_for_def col_set_status)
  then show ?thesis using put_property_tenants by simp
qed

text \<open>Alice's property 1 and her tenant.\<close>

theorem vacancy_expires_tenants_only_through_its_own_endpoint_witness:
  "getCurrentUserId example_runtime (example_request ''token-of-alice'' ''1'' []) = Some 1 \<and>
   tenants (snd (put_property example_runtime no_faults (example_request ''token-of-alice'' ''1'' []) example_store))
     = tenants example_store \<and>
   list_all2 (expired_for example_runtime ''1'' 1)
     (rows (tenants example_store))
     (rows (tenants (snd (update_tenants_vacant example_runtime no_faults
                            (example_request ''token-of-alice'' ''1'' []) example_store))))"
  using vacancy_expires_tenants_only_through_its_own_endpoint
          [of example_runtime no_faults "example_request ''token-of-alice'' ''1'' []" example_store 1]
  by (simp add: example_user)

text \<open>
  Claim C3 as stated fails: Alice sets property 1 to \<^verbatim>\<open>vacant\<close> through the update
  endpoint, the update succeeds, and the tenant who references property 1 is still
  \<^verbatim>\<open>active\<close>.
\<close>

theorem update_to_vacant_leaves_tenant_active:
  "fst (put_property example_runtime no_faults example_vacate example_store)
     = Response 200 (JObj [(''message'', JStr ''Property updated successfully'')]) \<and>
   col (hd (rows (properties (snd (put_property example_runtime no_faults example_vacate example_store)))))
       ''status'' = JStr ''vacant'' \<and>
   tenants (snd (put_property example_runtime no_faults example_vacate example_store))
     = \<lparr>rows = [alices_tenant], seq = 1\<rparr> \<and>
   col alices_tenant ''property_id'' = JNum (Fin 1) \<and>
   col alices_tenant ''status'' = JStr ''active''"
  by code_simp

section \<open>Another account's row reads as a missing row\<close>

lemma foreign_row_not_owned:
  assumes "distinct (map rowid xs)" "r \<in> set xs" "sql_eq env (col r ''id'') p"
      and "col r ''user_id'' = jnat b" "a \<noteq> b" "x \<in> set xs"
  shows "\<not> owned_by env p a x"
proof
  assume o: "owned_by env p a x"
  have "x = r" by (rule owned_by_unique [OF assms(1,2,3,6) o])
  with o assms(4,5) show False by (simp add: owned_by_def)
qed

lemma names_row_of_not_owned:
  assumes "names_row_of env req b t r" "a \<noteq> b"
  shows "\<forall>x\<in>set (rows t). \<not> owned_by env (JStr (param_id req)) a x"
    and "\<forall>x\<in>set (rows (without t i)). \<not> owned_by env (JStr (param_id req)) a x"
proof -
  from assms(1) have pk: "distinct (map rowid (rows t))" and r: "r \<in> set (rows t)"
    and i: "sql_eq env (col r ''id'') (JStr (param_id req))" and b: "col r ''user_id'' = jnat b"
    by (simp_all add: names_row_of_def del: col_id)
  show none: "\<forall>x\<in>set (rows t). \<not> owned_by env (JStr (param_id req)) a x"
    using foreign_row_not_owned [OF pk r i b assms(2)] by blast
  then show "\<forall>x\<in>set (rows (without t i)). \<not> owned_by env (JStr (param_id req)) a x"
    by (simp add: without_def)
qed

text \<open>What each handler answers when the caller owns no row with the id of the request.\<close>

lemma store_same [simp]:
  "dbx\<lparr>properties := properties dbx\<rparr> = dbx"
  "dbx\<lparr>tenants := tenants dbx\<rparr> = dbx"
  "dbx\<lparr>maintenance_requests := maintenance_requests dbx\<rparr> = dbx"
  "dbx\<lparr>financial_records := financial_records dbx\<rparr> = dbx"
  "dbx\<lparr>rent_tracking := rent_tracking dbx\<rparr> = dbx"
  for dbx :: store
  by simp_all

lemma property_routes_on_no_row:
  assumes u: "getCurrentUserId env req = Some a" and f: "flt 0 = None"
      and none: "\<forall>x\<in>set (rows (properties dbx)). \<not> owned_by env (JStr (param_id req)) a x"
  shows "get_property env flt req dbx = (json_error 404 ''Property not found'', dbx)"
    and "delete_property env flt req dbx = (json_error 404 ''Property not found or access denied'', dbx)"
    and "\<not> isl (property_update_params env (body req)) \<Longrightarrow>
           put_property env flt req dbx = (json_error 404 ''Property not found or access denied'', dbx)"
proof -
  show "get_property env flt req dbx = (json_error 404 ''Property not found'', dbx)"
    using u f sql_get_none [OF none] by (simp add: get_property_def)
  show "delete_property env flt req dbx = (json_error 404 ''Property not found or access denied'', dbx)"
    using u f sql_delete_none [OF none] by (simp add: delete_property_def)
  show "put_property env flt req dbx = (json_error 404 ''Property not found or access denied'', dbx)"
    if "\<not> isl (property_update_params env (body req))"
    using that u f sql_update_none [OF none]
    by (cases "property_update_params env (body req)") (simp_all add: put_property_def)
qed

lemma tenant_routes_on_no_row:
  assumes u: "getCurrentUserId env req = Some a" and f: "flt 0 = None"
      and none: "\<forall>x\<in>set (rows (tenants dbx)). \<not> owned_by env (JStr (param_id req)) a x"
  shows "get_tenant env flt req dbx = (json_error 404 ''Tenant not found'', dbx)"
    and "delete_tenant env flt req dbx = (json_error 404 ''Tenant not found or access denied'', dbx)"
    and "\<not> isl (tenant_update_params env (body req)) \<Longrightarrow>
           put_tenant env flt req dbx = (json_error 404 ''Tenant not found or access denied'', dbx)"
proof -
  show "get_tenant env flt req dbx = (json_error 404 ''Tenant not found'', dbx)"
    using u f sql_get_none [OF none] by (simp add: get_tenant_def)
  show "delete_tenant env flt req dbx = (json_error 404 ''Tenant not found or access denied'', dbx)"
    using u f sql_delete_none [OF none] by (simp add: delete_tenant_def)
  show "put_tenant env flt req dbx = (json_error 404 ''Tenant not found or access denied'', dbx)"
    if "\<not> isl (tenant_update_params env (body req))"
    using that u f sql_update_none [OF none]
    by (cases "tenant_update_params env (body req)") (simp_all add: put_tenant_def)
qed

lemma maintenance_routes_on_no_row:
  assumes u: "getCurrentUserId env req = Some a" and f: "flt 0 = None"
      and none: "\<forall>x\<in>set (rows (maintenance_requests dbx)). \<not> owned_by env (JStr (param_id req)) a x"
  shows "\<not> isl (maintenance_update_params env (body req)) \<Longrightarrow>
           put_maintenance env flt req dbx =
             (json_error 404 ''Maintenance request not found or access denied'', dbx)"
    and "a \<noteq> 0 \<Longrightarrow> param_id req \<noteq> [] \<Longrightarrow> \<not> isNaN (parseInt env (JStr (param_id req))) \<Longrightarrow>
           delete_maintenance env flt req dbx =
             (json_error 404 ''Maintenance request not found or access denied'', dbx)"
proof -
  show "put_maintenance env flt req dbx =
             (json_error 404 ''Maintenance request not found or access denied'', dbx)"
    if "\<not> isl (maintenance_update_params env (body req))"
    using that u f sql_update_none [OF none]
    by (cases "maintenance_update_params env (body req)") (simp_all add: put_maintenance_def)
  show "delete_maintenance env flt req dbx =
             (json_error 404 ''Maintenance request not found or access denied'', dbx)"
    if "a \<noteq> 0" "param_id req \<noteq> []" "\<not> isNaN (parseInt env (JStr (param_id req)))"
    using that u f sql_get_none [OF none] by (simp add: delete_maintenance_def)
qed

lemma financial_routes_on_no_row:
  assumes u: "getCurrentUserId env req = Some a" and f: "flt 0 = None"
      and none: "\<forall>x\<in>set (rows (financial_records dbx)). \<not> owned_by env (JStr (param_id req)) a x"
  shows "\<not> isl (financial_update_params env (body req)) \<Longrightarrow>
           put_financial env flt req dbx =
             (json_error 404 ''Financial record not found or access denied'', dbx)"
    and "param_id req \<noteq> [] \<Longrightarrow> \<not> isNaN (parseInt env (JStr (param_id req))) \<Longrightarrow>
           delete_financial env flt req dbx =
             (json_error 404 ''Financial record not found or access denied'', dbx)"
proof -
  show "put_financial env flt req dbx =
             (json_error 404 ''Financial record not found or access denied'', dbx)"
    if "\<not> isl (financial_update_params env (body req))"
    using that u f sql_update_none [OF none]
    by (cases "financial_update_params env (body req)") (simp_all add: put_financial_def)
  show "delete_financial env flt req dbx =
             (json_error 404 ''Financial record not found or access denied'', dbx)"
    if "param_id req \<noteq> []" "\<not> isNaN (parseInt env (JStr (param_id req)))"
    using that u f sql_delete_none [OF none] by (simp add: delete_financial_def)
qed

lemma rent_tracking_routes_on_no_row:
  assumes u: "getCurrentUserId env req = Some a" and f: "flt 0 = None"
      and none: "\<forall>x\<in>set (rows (rent_tracking dbx)). \<not> owned_by env (JStr (param_id req)) a x"
  shows "get_rent_tracking env flt req dbx =
           (json_error 404 ''Rent tracking record not found or access denied'', dbx)"
    and "\<not> isl (rent_tracking_update_params env (body req)) \<Longrightarrow>
           put_rent_tracking env flt req dbx =
             (json_error 404 ''Rent tracking record not found or access denied'', dbx)"
proof -
  show "get_rent_tracking env flt req dbx =
           (json_error 404 ''Rent tracking record not found or access denied'', dbx)"
    using u f sql_get_none [OF none] by (simp add: get_rent_tracking_def)
  show "put_rent_tracking env flt req dbx =
             (json_error 404 ''Rent tracking record not found or access denied'', dbx)"
    if "\<not> isl (rent_tracking_update_params env (body req))"
    using that u f sql_update_none [OF none]
    by (cases "rent_tracking_update_params env (body req)") (simp_all add: put_rent_tracking_def)
qed

text \<open>
  A request that a handler rejects for its body is answered before the store is read: the
  answer is the same on every store.
\<close>

lemma rejected_update_never_reads_the_store:
  assumes u: "getCurrentUserId env req = Some a"
  shows "property_update_params env (body req) = Inl rejection \<Longrightarrow>
           put_property env flt req db = (rejection, db)"
    and "tenant_update_params env (body req) = Inl rejection \<Longrightarrow>
           put_tenant env flt req db = (rejection, db)"
    and "maintenance_update_params env (body req) = Inl rejection \<Longrightarrow>
           put_maintenance env flt req db = (rejection, db)"
    and "financial_update_params env (body req) = Inl rejection \<Longrightarrow>
           put_financial env flt req db = (rejection, db)"
    and "rent_tracking_update_params env (body req) = Inl rejection \<Longrightarrow>
           put_rent_tracking env flt req db = (rejection, db)"
  using u
  by (simp_all add: put_property_def put_tenant_def put_maintenance_def put_financial_def
        put_rent_tracking_def)

text \<open>
  Claim C4, as the code has it. Account \<open>a\<close> fetches, updates or deletes by its id a
  property, a tenant, a maintenance request, a financial record or a rent payment that belongs
  to another account \<open>b\<close>; these are all the routes of the server that fetch, update or
  delete one such row by its id. If the request is one that the handler carries to the store
  (its body passes the checks the handler makes before its statement and, for the two DELETE
  routes that check it, the id parses as a number), then the answer is the 404 of the route,
  the same answer the request gets on the store in which that row does not exist at all, and
  the store is not changed; no answer carries another status. A request that fails those checks
  is answered by them, with 400 or 401, before the store is read.
\<close>

theorem foreign_entity_reads_as_missing:
  assumes u: "getCurrentUserId env req = Some a" and ab: "a \<noteq> b" and f: "flt 0 = None"
  shows
   "(names_row_of env req b (properties db) r \<longrightarrow>
       get_property env flt req db = (json_error 404 ''Property not found'', db) \<and>
       get_property env flt req (drop_property db (rowid r)) =
         (json_error 404 ''Property not found'', drop_property db (rowid r)) \<and>
       delete_property env flt req db = (json_error 404 ''Property not found or access denied'', db) \<and>
       delete_property env flt req (drop_property db (rowid r)) =
         (json_error 404 ''Property not found or access denied'', drop_property db (rowid r)) \<and>
       (\<not> isl (property_update_params env (body req)) \<longrightarrow>
          put_property env flt req db = (json_error 404 ''Property not found or access denied'', db) \<and>
          put_property env flt req (drop_property db (rowid r)) =
            (json_error 404 ''Property not found or access denied'', drop_property db (rowid r)))) \<and>
    (names_row_of env req b (tenants db) r \<longrightarrow>
       get_tenant env flt req db = (json_error 404 ''Tenant not found'', db) \<and>
       get_tenant env flt req (drop_tenant db (rowid r)) =
         (json_error 404 ''Tenant not found'', drop_tenant db (rowid r)) \<and>
       delete_tenant env flt req db = (json_error 404 ''Tenant not found or access denied'', db) \<and>
       delete_tenant env flt req (drop_tenant db (rowid r)) =
         (json_error 404 ''Tenant not found or access denied'', drop_tenant db (rowid r)) \<and>
       (\<not> isl (tenant_update_params env (body req)) \<longrightarrow>
          put_tenant env flt req db = (json_error 404 ''Tenant not found or access denied'', db) \<and>
          put_tenant env flt req (drop_tenant db (rowid r)) =
            (json_error 404 ''Tenant not found or access denied'', drop_tenant db (rowid r)))) \<and>
    (names_row_of env req b (maintenance_requests db) r \<longrightarrow>
       (\<not> isl (maintenance_update_params env (body req)) \<longrightarrow>
          put_maintenance env flt req db =
            (json_error 404 ''Maintenance request not found or access denied'', db) \<and>
          put_maintenance env flt req (drop_maintenance_request db (rowid r)) =
            (json_error 404 ''Maintenance request not found or access denied'',
             drop_maintenance_request db (rowid r))) \<and>
       (a \<noteq> 0 \<and> param_id req \<noteq> [] \<and> \<not> isNaN (parseInt env (JStr (param_id req))) \<longrightarrow>
          delete_maintenance env flt req db =
            (json_error 404 ''Maintenance request not found or access denied'', db) \<and>
          delete_maintenance env flt req (drop_maintenance_request db (rowid r)) =
            (json_error 404 ''Maintenance request not found or access denied'',
             drop_maintenance_request db (rowid r)))) \<and>
    (names_row_of env req b (financial_records db) r \<longrightarrow>
       (\<not> isl (financial_update_params env (body req)) \<longrightarrow>
          put_financial env flt req db =
            (json_error 404 ''Financial record not found or access denied'', db) \<and>
          put_financial env flt req (drop_financial_record db (rowid r)) =
            (json_error 404 ''Financial record not found or access denied'',
             drop_financial_record db (rowid r))) \<and>
       (param_id req \<noteq> [] \<and> \<not> isNaN (parseInt env (JStr (param_id req))) \<longrightarrow>
          delete_financial env flt req db =
            (json_error 404 ''Financial record not found or access denied'', db) \<and>
          delete_financial env flt req (drop_financial_record db (rowid r)) =
            (json_error 404 ''Financial record not found or access denied'',
             drop_financial_record db (rowid r)))) \<and>
    (names_row_of env req b (rent_tracking db) r \<longrightarrow>
       get_rent_tracking env flt req db =
         (json_error 404 ''Rent tracking record not found or access denied'', db) \<and>
       get_rent_tracking env flt req (drop_rent_tracking db (rowid r)) =
         (json_error 404 ''Rent tracking record not found or access denied'',
          drop_rent_tracking db (rowid r)) \<and>
       (\<not> isl (rent_tracking_update_params env (body req)) \<longrightarrow>
          put_rent_tracking env flt req db =
            (json_error 404 ''Rent tracking record not found or access denied'', db) \<and>
          put_rent_tracking env flt req (drop_rent_tracking db (rowid r)) =
            (json_error 404 ''Rent tracking record not found or access denied'',
             drop_rent_tracking db (rowid r))))"
proof (intro conjI impI)
  assume n: "names_row_of env req b (properties db) r"
  note here = names_row_of_not_owned(1) [OF n ab]
  have gone: "\<forall>x\<in>set (rows (properties (drop_property db (rowid r)))). \<not> owned_by env (JStr (param_id req)) a x"
    using names_row_of_not_owned(2) [OF n ab] by (simp add: drop_property_def)
  show "get_property env flt req db = (json_error 404 ''Property not found'', db)"
    by (rule property_routes_on_no_row(1) [where flt = flt, OF u f here])
  show "get_property env flt req (drop_property db (rowid r)) =
         (json_error 404 ''Property not found'', drop_property db (rowid r))"
    by (rule property_routes_on_no_row(1) [where flt = flt, OF u f gone])
  show "delete_property env flt req db = (json_error 404 ''Property not found or access denied'', db)"
    by (rule property_routes_on_no_row(2) [where flt = flt, OF u f here])
  show "delete_property env flt req (drop_property db (rowid r)) =
         (json_error 404 ''Property not found or access denied'', drop_property db (rowid r))"
    by (rule property_routes_on_no_row(2) [where flt = flt, OF u f gone])
  assume v: "\<not> isl (property_update_params env (body req))"
  show "put_property env flt req db = (json_error 404 ''Property not found or access denied'', db)"
    by (rule property_routes_on_no_row(3) [where flt = flt, OF u f here v])
  show "put_property env flt req (drop_property db (rowid r)) =
            (json_error 404 ''Property not found or access denied'', drop_property db (rowid r))"
    by (rule property_routes_on_no_row(3) [where flt = flt, OF u f gone v])
next
  assume n: "names_row_of env req b (tenants db) r"
  note here = names_row_of_not_owned(1) [OF n ab]
  have gone: "\<forall>x\<in>set (rows (tenants (drop_tenant db (rowid r)))). \<not> owned_by env (JStr (param_id req)) a x"
    using names_row_of_not_owned(2) [OF n ab] by (simp add: drop_tenant_def)
  show "get_tenant env flt req db = (json_error 404 ''Tenant not found'', db)"
    by (rule tenant_routes_on_no_row(1) [where flt = flt, OF u f here])
  show "get_tenant env flt req (drop_tenant db (rowid r)) =
         (json_error 404 ''Tenant not found'', drop_tenant db (rowid r))"
    by (rule tenant_routes_on_no_row(1) [where flt = flt, OF u f gone])
  show "delete_tenant env flt req db = (json_error 404 ''Tenant not found or access denied'', db)"
    by (rule tenant_routes_on_no_row(2) [where flt = flt, OF u f here])
  show "delete_tenant env flt req (drop_tenant db (rowid r)) =
         (json_error 404 ''Tenant not found or access denied'', drop_tenant db (rowid r))"
    by (rule tenant_routes_on_no_row(2) [where flt = flt, OF u f gone])
  assume v: "\<not> isl (tenant_update_params env (body req))"
  show "put_tenant env flt req db = (json_error 404 ''Tenant not found or access denied'', db)"
    by (rule tenant_routes_on_no_row(3) [where flt = flt, OF u f here v])
  show "put_tenant env flt req (drop_tenant db (rowid r)) =
            (json_error 404 ''Tenant not found or access denied'', drop_tenant db (rowid r))"
    by (rule tenant_routes_on_no_row(3) [where flt = flt, OF u f gone v])
next
  assume n: "names_row_of env req b (maintenance_requests db) r"
  note here = names_row_of_not_owned(1) [OF n ab]
  have gone: "\<forall>x\<in>set (rows (maintenance_requests (drop_maintenance_request db (rowid r)))).
                \<not> owned_by env (JStr (param_id req)) a x"
    using names_row_of_not_owned(2) [OF n ab] by (simp add: drop_maintenance_request_def)
  {
    assume v: "\<not> isl (maintenance_update_params env (body req))"
    show "put_maintenance env flt req db =
            (json_error 404 ''Maintenance request not found or access denied'', db)"
      by (rule maintenance_routes_on_no_row(1) [where flt = flt, OF u f here v])
    show "put_maintenance env flt req (drop_maintenance_request db (rowid r)) =
            (json_error 404 ''Maintenance request not found or access denied'',
             drop_maintenance_request db (rowid r))"
      by (rule maintenance_routes_on_no_row(1) [where flt = flt, OF u f gone v])
  }
  {
    assume v: "a \<noteq> 0 \<and> param_id req \<noteq> [] \<and> \<not> isNaN (parseInt env (JStr (param_id req)))"
    then have v1: "a \<noteq> 0" and v2: "param_id req \<noteq> []"
      and v3: "\<not> isNaN (parseInt env (JStr (param_id req)))" by simp_all
    show "delete_maintenance env flt req db =
            (json_error 404 ''Maintenance request not found or access denied'', db)"
      by (rule maintenance_routes_on_no_row(2) [where flt = flt, OF u f here v1 v2 v3])
    show "delete_maintenance env flt req (drop_maintenance_request db (rowid r)) =
            (json_error 404 ''Maintenance request not found or access denied'',
             drop_maintenance_request db (rowid r))"
      by (rule maintenance_routes_on_no_row(2) [where flt = flt, OF u f gone v1 v2 v3])
  }
next
  assume n: "names_row_of env req b (financial_records db) r"
  note here = names_row_of_not_owned(1) [OF n ab]
  have gone: "\<forall>x\<in>set (rows (financial_records (drop_financial_record db (rowid r)))).
                \<not> owned_by env (JStr (param_id req)) a x"
    using names_row_of_not_owned(2) [OF n ab] by (simp add: drop_financial_record_def)
  {
    assume v: "\<not> isl (financial_update_params env (body req))"
    show "put_financial env flt req db =
            (json_error 404 ''Financial record not found or access denied'', db)"
      by (rule financial_routes_on_no_row(1) [where flt = flt, OF u f here v])
    show "put_financial env flt req (drop_financial_record db (rowid r)) =
            (json_error 404 ''Financial record not found or access denied'',
             drop_financial_record db (rowid r))"
      by (rule financial_routes_on_no_row(1) [where flt = flt, OF u f gone v])
  }
  {
    assume v: "param_id req \<noteq> [] \<and> \<not> isNaN (parseInt env (JStr (param_id req)))"
    then have v2: "param_id req \<noteq> []"
      and v3: "\<not> isNaN (parseInt env (JStr (param_id req)))" by simp_all
    show "delete_financial env flt req db =
            (json_error 404 ''Financial record not found or access denied'', db)"
      by (rule financial_routes_on_no_row(2) [where flt = flt, OF u f here v2 v3])
    show "delete_financial env flt req (drop_financial_record db (rowid r)) =
            (json_error 404 ''Financial record not found or access denied'',
             drop_financial_record db (rowid r))"
      by (rule financial_routes_on_no_row(2) [where flt = flt, OF u f gone v2 v3])
  }
next
  assume n: "names_row_of env req b (rent_tracking db) r"
  note here = names_row_of_not_owned(1) [OF n ab]
  have gone: "\<forall>x\<in>set (rows (rent_tracking (drop_rent_tracking db (rowid r)))).
                \<not> owned_by env (JStr (param_id req)) a x"
    using names_row_of_not_owned(2) [OF n ab] by (simp add: drop_rent_tracking_def)
  show "get_rent_tracking env flt req db =
         (json_error 404 ''Rent tracking record not found or access denied'', db)"
    by (rule rent_tracking_routes_on_no_row(1) [where flt = flt, OF u f here])
  show "get_rent_tracking env flt req (drop_rent_tracking db (rowid r)) =
         (json_error 404 ''Rent tracking record not found or access denied'',
          drop_rent_tracking db (rowid r))"
    by (rule rent_tracking_routes_on_no_row(1) [where flt = flt, OF u f gone])
  assume v: "\<not> isl (rent_tracking_update_params env (body req))"
  show "put_rent_tracking env flt req db =
            (json_error 404 ''Rent tracking record not found or access denied'', db)"
    by (rule rent_tracking_routes_on_no_row(2) [where flt = flt, OF u f here v])
  show "put_rent_tracking env flt req (drop_rent_tracking db (rowid r)) =
            (json_error 404 ''Rent tracking record not found or access denied'',
             drop_rent_tracking db (rowid r))"
    by (rule rent_tracking_routes_on_no_row(2) [where flt = flt, OF u f gone v])
qed

text \<open>
  Alice addresses Bob's property 2, tenant 2, maintenance request 3, financial record 4 and
  rent payment 2, each with a body that the route accepts.
\<close>

lemma bobs_rows:
  "names_row_of example_runtime (example_request ''token-of-alice'' ''2'' vacant_villa) 2
     (properties shared_store) bobs_property"
  "names_row_of example_runtime (example_request ''token-of-alice'' ''2'' (tenant_update [])) 2
     (tenants shared_store) bobs_tenant"
  "names_row_of example_runtime (example_request ''token-of-alice'' ''3'' example_status) 2
     (maintenance_requests shared_store) bobs_request"
  "names_row_of example_runtime (example_request ''token-of-alice'' ''4'' example_record) 2
     (financial_records shared_store) bobs_record"
  "names_row_of example_runtime
     (example_request ''token-of-alice'' ''2'' (example_payment (JNum (Fin 1000)) (JNum (Fin 400)))) 2
     (rent_tracking shared_store) bobs_payment"
  by code_simp+

lemma accepted_bodies:
  "\<not> isl (property_update_params example_runtime vacant_villa)"
  "\<not> isl (tenant_update_params example_runtime (tenant_update []))"
  "\<not> isl (maintenance_update_params example_runtime example_status)"
  "\<not> isl (financial_update_params example_runtime example_record)"
  "\<not> isl (rent_tracking_update_params example_runtime (example_payment (JNum (Fin 1000)) (JNum (Fin 400))))"
  by code_simp+

lemma numeric_ids:
  "\<not> isNaN (parseInt example_runtime (JStr ''3''))"
  "\<not> isNaN (parseInt example_runtime (JStr ''4''))"
  by code_simp+

theorem foreign_entity_reads_as_missing_witness:
  "get_property example_runtime no_faults (example_request ''token-of-alice'' ''2'' vacant_villa) shared_store
     = (json_error 404 ''Property not found'', shared_store) \<and>
   put_property example_runtime no_faults (example_request ''token-of-alice'' ''2'' vacant_villa) shared_store
     = (json_error 404 ''Property not found or access denied'', shared_store) \<and>
   delete_property example_runtime no_faults (example_request ''token-of-alice'' ''2'' vacant_villa) shared_store
     = (json_error 404 ''Property not found or access denied'', shared_store) \<and>
   get_tenant example_runtime no_faults (example_request ''token-of-alice'' ''2'' (tenant_update [])) shared_store
     = (json_error 404 ''Tenant not found'', shared_store) \<and>
   get_tenant example_runtime no_faults (example_request ''token-of-alice'' ''2'' (tenant_update []))
       (drop_tenant shared_store 2)
     = (json_error 404 ''Tenant not found'', drop_tenant shared_store 2) \<and>
   put_tenant example_runtime no_faults (example_request ''token-of-alice'' ''2'' (tenant_update [])) shared_store
     = (json_error 404 ''Tenant not found or access denied'', shared_store) \<and>
   delete_tenant example_runtime no_faults (example_request ''token-of-alice'' ''2'' (tenant_update [])) shared_store
     = (json_error 404 ''Tenant not found or access denied'', shared_store) \<and>
   put_maintenance example_runtime no_faults (example_request ''token-of-alice'' ''3'' example_status) shared_store
     = (json_error 404 ''Maintenance request not found or access denied'', shared_store) \<and>
   delete_maintenance example_runtime no_faults (example_request ''token-of-alice'' ''3'' example_status) shared_store
     = (json_error 404 ''Maintenance request not found or access denied'', shared_store) \<and>
   put_financial example_runtime no_faults (example_request ''token-of-alice'' ''4'' example_record) shared_store
     = (json_error 404 ''Financial record not found or access denied'', shared_store) \<and>
   delete_financial example_runtime no_faults (example_request ''token-of-alice'' ''4'' example_record) shared_store
     = (json_error 404 ''Financial record not found or access denied'', shared_store) \<and>
   get_rent_tracking example_runtime no_faults
       (example_request ''token-of-alice'' ''2'' (example_payment (JNum (Fin 1000)) (JNum (Fin 400)))) shared_store
     = (json_error 404 ''Rent tracking record not found or access denied'', shared_store) \<and>
   put_rent_tracking example_runtime no_faults
       (example_request ''token-of-alice'' ''2'' (example_payment (JNum (Fin 1000)) (JNum (Fin 400)))) shared_store
     = (json_error 404 ''Rent tracking record not found or access denied'', shared_store)"
proof -
  have ab: "(1::nat) \<noteq> 2" by simp
  have ids: "rowid bobs_tenant = 2" by (simp add: bobs_tenant_def)
  note p = foreign_entity_reads_as_missing
             [where r = bobs_property and db = shared_store and flt = no_faults, OF example_user(1) ab no_faults_none,
              THEN conjunct1, rule_format, OF bobs_rows(1)]
  note t = foreign_entity_reads_as_missing
             [where r = bobs_tenant and db = shared_store and flt = no_faults, OF example_user(1) ab no_faults_none,
              THEN conjunct2, THEN conjunct1, rule_format, OF bobs_rows(2)]
  note m = foreign_entity_reads_as_missing
             [where r = bobs_request and db = shared_store and flt = no_faults, OF example_user(1) ab no_faults_none,
              THEN conjunct2, THEN conjunct2, THEN conjunct1, rule_format, OF bobs_rows(3)]
  note f = foreign_entity_reads_as_missing
             [where r = bobs_record and db = shared_store and flt = no_faults, OF example_user(1) ab no_faults_none,
              THEN conjunct2, THEN conjunct2, THEN conjunct2, THEN conjunct1, rule_format, OF bobs_rows(4)]
  note rt = foreign_entity_reads_as_missing
             [where r = bobs_payment and db = shared_store and flt = no_faults, OF example_user(1) ab no_faults_none,
              THEN conjunct2, THEN conjunct2, THEN conjunct2, THEN conjunct2, rule_format, OF bobs_rows(5)]
  from p accepted_bodies(1) have 1:
    "get_property example_runtime no_faults (example_request ''token-of-alice'' ''2'' vacant_villa) shared_store
       = (json_error 404 ''Property not found'', shared_store)"
    "put_property example_runtime no_faults (example_request ''token-of-alice'' ''2'' vacant_villa) shared_store
       = (json_error 404 ''Property not found or access denied'', shared_store)"
    "delete_property example_runtime no_faults (example_request ''token-of-alice'' ''2'' vacant_villa) shared_store
       = (json_error 404 ''Property not found or access denied'', shared_store)"
    by simp_all
  from t accepted_bodies(2) ids have 2:
    "get_tenant example_runtime no_faults (example_request ''token-of-alice'' ''2'' (tenant_update [])) shared_store
       = (json_error 404 ''Tenant not found'', shared_store)"
    "get_tenant example_runtime no_faults (example_request ''token-of-alice'' ''2'' (tenant_update []))
         (drop_tenant shared_store 2)
       = (json_error 404 ''Tenant not found'', drop_tenant shared_store 2)"
    "put_tenant example_runtime no_faults (example_request ''token-of-alice'' ''2'' (tenant_update [])) shared_store
       = (json_error 404 ''Tenant not found or access denied'', shared_store)"
    "delete_tenant example_runtime no_faults (example_request ''token-of-alice'' ''2'' (tenant_update [])) shared_store
       = (json_error 404 ''Tenant not found or access denied'', shared_store)"
    by simp_all
  from m accepted_bodies(3) numeric_ids(1) have 3:
    "put_maintenance example_runtime no_faults (example_request ''token-of-alice'' ''3'' example_status) shared_store
       = (json_error 404 ''Maintenance request not found or access denied'', shared_store)"
    "delete_maintenance example_runtime no_faults (example_request ''token-of-alice'' ''3'' example_status) shared_store
       = (json_error 404 ''Maintenance request not found or access denied'', shared_store)"
    by simp_all
  from f accepted_bodies(4) numeric_ids(2) have 4:
    "put_financial example_runtime no_faults (example_request ''token-of-alice'' ''4'' example_record) shared_store
       = (json_error 404 ''Financial record not found or access denied'', shared_store)"
    "delete_financial example_runtime no_faults (example_request ''token-of-alice'' ''4'' example_record) shared_store
       = (json_error 404 ''Financial record not found or access denied'', shared_store)"
    by simp_all
  from rt accepted_bodies(5) have 5:
    "get_rent_tracking example_runtime no_faults
         (example_request ''token-of-alice'' ''2'' (example_payment (JNum (Fin 1000)) (JNum (Fin 400)))) shared_store
       = (json_error 404 ''Rent tracking record not found or access denied'', shared_store)"
    "put_rent_tracking example_runtime no_faults
         (example_request ''token-of-alice'' ''2'' (example_payment (JNum (Fin 1000)) (JNum (Fin 400)))) shared_store
       = (json_error 404 ''Rent tracking record not found or access denied'', shared_store)"
    by simp_all
  from 1 2 3 4 5 show ?thesis by (intro conjI)
qed

text \<open>
  Claim C4 as stated fails: Alice updates Bob's tenant 2 with an empty body. The required
  fields are checked before the UPDATE runs, so the answer is 400 and not the 404 of the route;
  it is the same 400 on the store in which tenant 2 does not exist.
\<close>

theorem foreign_update_with_invalid_body_is_answered_400:
  "names_row_of example_runtime (example_request ''token-of-alice'' ''2'' []) 2
     (tenants shared_store) bobs_tenant \<and>
   put_tenant example_runtime no_faults (example_request ''token-of-alice'' ''2'' []) shared_store =
     (Response 400 (JObj [(''error'', JStr ''First name, last name, and email are required'')]),
      shared_store) \<and>
   fst (put_tenant example_runtime no_faults (example_request ''token-of-alice'' ''2'' [])
          (drop_tenant shared_store 2)) =
     Response 400 (JObj [(''error'', JStr ''First name, last name, and email are required'')])"
  by code_simp

text \<open>
  The vacancy route is not among the routes above: it selects tenant rows of the caller by the
  id of a property and never reads a property row, so its answer is the same whatever the
  table of properties holds.
\<close>

lemma vacancy_route_reads_no_property:
  "fst (update_tenants_vacant env flt req (db\<lparr>properties := t\<rparr>)) =
   fst (update_tenants_vacant env flt req db)"
  by (simp add: update_tenants_vacant_def split: option.splits sum.splits prod.splits)

section \<open>Deleting a maintenance request\<close>

text \<open>
  Claim C6. The caller owns the request that \<^verbatim>\<open>DELETE /api/maintenance/:id\<close> names and
  the store answers both statements. If the status of the request is not \<^verbatim>\<open>completed\<close>, the
  answer is 400 \<^verbatim>\<open>Only completed maintenance requests can be deleted\<close> (the not-found answer
  is a 404) and the store is unchanged. If it is \<^verbatim>\<open>completed\<close>, the answer is the success
  message, the row is gone, every other row stays, and the table has exactly one row less.
\<close>

theorem maintenance_delete_is_guarded:
  assumes u: "getCurrentUserId env req = Some userId" and nz: "userId \<noteq> 0"
      and ne: "param_id req \<noteq> []" and num: "\<not> isNaN (parseInt env (JStr (param_id req)))"
      and f0: "flt 0 = None" and f1: "flt 1 = None"
      and r: "r \<in> set (rows (maintenance_requests db))"
      and o: "owned_by env (JStr (param_id req)) userId r"
      and pk: "distinct (map rowid (rows (maintenance_requests db)))"
  shows "(col r ''status'' \<noteq> JStr ''completed'' \<longrightarrow>
            delete_maintenance env flt req db =
              (json_error 400 ''Only completed maintenance requests can be deleted'', db)) \<and>
         (col r ''status'' = JStr ''completed'' \<longrightarrow>
            fst (delete_maintenance env flt req db) =
              json_message ''Maintenance request deleted successfully'' \<and>
            snd (delete_maintenance env flt req db) =
              db\<lparr>maintenance_requests :=
                   (maintenance_requests db)\<lparr>rows := filter (\<lambda>x. x \<noteq> r) (rows (maintenance_requests db))\<rparr>\<rparr> \<and>
            r \<notin> set (rows (maintenance_requests (snd (delete_maintenance env flt req db)))) \<and>
            Suc (length (rows (maintenance_requests (snd (delete_maintenance env flt req db))))) =
              length (rows (maintenance_requests db)))"
proof -
  let ?w = "owned_by env (JStr (param_id req)) userId"
  let ?rows = "rows (maintenance_requests db)"
  from o have i: "sql_eq env (col r ''id'') (JStr (param_id req))"
    by (simp add: owned_by_def del: col_id)
  have uniq: "\<forall>x\<in>set ?rows. ?w x \<longrightarrow> x = r"
    using owned_by_unique [OF pk r i] by blast
  have get: "sql_get (maintenance_requests db) ?w = Some r"
    unfolding sql_get_def by (rule find_unique [OF r o uniq])
  from pk have dist: "distinct ?rows"
    by (simp add: distinct_map)
  have one: "filter ?w ?rows = [r]"
    by (rule filter_unique [OF dist r o uniq])
  have rest: "filter (\<lambda>x. \<not> ?w x) ?rows = filter (\<lambda>x. x \<noteq> r) ?rows"
    using uniq o by (intro filter_cong) auto
  have len: "Suc (length (filter (\<lambda>x. x \<noteq> r) ?rows)) = length ?rows"
    using sum_length_filter_compl [of ?w ?rows] one rest by simp
  have del: "sql_delete (maintenance_requests db) ?w =
             (1, (maintenance_requests db)\<lparr>rows := filter (\<lambda>x. x \<noteq> r) ?rows\<rparr>)"
    by (simp add: sql_delete_def one rest)
  have pending: "delete_maintenance env flt req db =
              (json_error 400 ''Only completed maintenance requests can be deleted'', db)"
    if "col r ''status'' \<noteq> JStr ''completed''"
    using u nz ne num f0 get that by (simp add: delete_maintenance_def)
  have completed: "delete_maintenance env flt req db =
       (json_message ''Maintenance request deleted successfully'',
        db\<lparr>maintenance_requests := (maintenance_requests db)\<lparr>rows := filter (\<lambda>x. x \<noteq> r) ?rows\<rparr>\<rparr>)"
    if "col r ''status'' = JStr ''completed''"
    using u nz ne num f0 f1 get del that by (simp add: delete_maintenance_def)
  show ?thesis
    using pending completed len by simp
qed

text \<open>Alice deletes her pending request 1, then her completed request 2.\<close>

theorem maintenance_delete_is_guarded_witness:
  "delete_maintenance example_runtime no_faults (example_request ''token-of-alice'' ''1'' []) example_store
     = (json_error 400 ''Only completed maintenance requests can be deleted'', example_store) \<and>
   fst (delete_maintenance example_runtime no_faults (example_request ''token-of-alice'' ''2'' []) example_store)
     = json_message ''Maintenance request deleted successfully'' \<and>
   rows (maintenance_requests
           (snd (delete_maintenance example_runtime no_faults (example_request ''token-of-alice'' ''2'' [])
                   example_store)))
     = [pending_request]"
proof -
  have pk: "distinct (map rowid (rows (maintenance_requests example_store)))"
    by (simp add: example_store_def pending_request_def completed_request_def)
  have num: "\<not> isNaN (parseInt example_runtime (JStr (param_id (example_request ''token-of-alice'' ''1'' []))))"
       "\<not> isNaN (parseInt example_runtime (JStr (param_id (example_request ''token-of-alice'' ''2'' []))))"
    by (simp_all add: isNaN_def)
  have o1: "owned_by example_runtime (JStr (param_id (example_request ''token-of-alice'' ''1'' []))) 1 pending_request"
    by (simp add: owned_by_def pending_request_def col_def)
  have o2: "owned_by example_runtime (JStr (param_id (example_request ''token-of-alice'' ''2'' []))) 1 completed_request"
    by (simp add: owned_by_def completed_request_def col_def)
  have s1: "col pending_request ''status'' \<noteq> JStr ''completed''"
    by (simp add: pending_request_def col_def)
  have s2: "col completed_request ''status'' = JStr ''completed''"
    by (simp add: completed_request_def col_def)
  have ne: "pending_request \<noteq> completed_request"
    by (simp add: pending_request_def completed_request_def)
  from maintenance_delete_is_guarded
         [of example_runtime "example_request ''token-of-alice'' ''1'' []" 1 no_faults pending_request example_store,
          OF example_user(1) _ _ num(1) no_faults_none no_faults_none _ o1 pk] s1
  have a: "delete_maintenance example_runtime no_faults (example_request ''token-of-alice'' ''1'' []) example_store
     = (json_error 400 ''Only completed maintenance requests can be deleted'', example_store)"
    by (simp add: example_store_def)
  from maintenance_delete_is_guarded
         [of example_runtime "example_request ''token-of-alice'' ''2'' []" 1 no_faults completed_request example_store,
          OF example_user(1) _ _ num(2) no_faults_none no_faults_none _ o2 pk] s2 ne
  have b: "fst (delete_maintenance example_runtime no_faults (example_request ''token-of-alice'' ''2'' []) example_store)
     = json_message ''Maintenance request deleted successfully'' \<and>
   rows (maintenance_requests
           (snd (delete_maintenance example_runtime no_faults (example_request ''token-of-alice'' ''2'' [])
                   example_store)))
     = [pending_request]"
    by (simp add: example_store_def)
  from a b show ?thesis by simp
qed

section \<open>Rent tracking: the ledger entry of a payment\<close>

lemma response_200 [simp]: "(json_error c m = Response 200 bdy) = (c = 200 \<and> bdy = JObj [(''error'', JStr m)])"
  by (auto simp: json_error_def)

lemma response_200' [simp]: "(Response 200 bdy = json_error c m) = (c = 200 \<and> bdy = JObj [(''error'', JStr m)])"
  by (auto simp: json_error_def)

lemma rent_tracking_invalid_rejection:
  "rent_tracking_invalid env b tot pay = Some rejection \<Longrightarrow>
     \<exists>msg. rejection = json_error 400 msg \<or> rejection = json_error 401 msg"
  by (auto simp: rent_tracking_invalid_def split: if_splits)

lemma rent_tracking_valid:
  assumes "rent_tracking_invalid env b tot pay = None"
  shows "pay \<noteq> NaN"
  using assms by (auto simp: rent_tracking_invalid_def isNaN_def split: if_splits)

lemma owned_by_number: "owned_by env (JNum n) u r \<Longrightarrow> n \<noteq> NaN"
  by (auto simp: owned_by_def sql_eq_def integer_affinity_def sql_value_def split: if_splits)

lemma sql_get_some: "sql_get t w = Some r \<Longrightarrow> w r \<and> r \<in> set (rows t)"
  by (auto simp: sql_get_def find_Some_iff)

text \<open>What a 200 from the create handler means.\<close>

lemma post_rent_tracking_200:
  assumes "fst (post_rent_tracking env flt req db) = Response 200 bdy"
  shows "\<exists>userId tot bal.
           getCurrentUserId env req = Some userId \<and>
           parseInt env (obj_get (body req) ''property_id'') \<noteq> NaN \<and>
           parseInt env (obj_get (body req) ''tenant_id'') \<noteq> NaN \<and>
           parseFloat env (obj_get (body req) ''payment_amount'') \<noteq> NaN \<and>
           truthy (obj_get (body req) ''payment_date'') \<and>
           post_rent_tracking env flt req db =
             insertRentTracking env flt userId (body req)
               (parseInt env (obj_get (body req) ''property_id''))
               (parseInt env (obj_get (body req) ''tenant_id''))
               tot
               (parseFloat env (obj_get (body req) ''payment_amount''))
               bal db"
proof (cases "getCurrentUserId env req")
  case None
  with assms show ?thesis by (simp add: post_rent_tracking_def)
next
  case (Some userId)
  note u = this
  show ?thesis
  proof (cases "missing_required_fields (body req)")
    case True
    with u assms show ?thesis by (simp add: post_rent_tracking_def)
  next
    case False
    note fields = this
    then have date: "truthy (obj_get (body req) ''payment_date'')"
      by (simp add: missing_required_fields_def)
    show ?thesis
    proof (cases "rent_tracking_numbers env (body req)")
      case None
      with u fields assms show ?thesis by (simp add: post_rent_tracking_def)
    next
      case (Some numbers)
      obtain p t tot pay bal where numbers: "numbers = (p, t, tot, pay, bal)"
        by (cases numbers)
      from Some numbers have n: "rent_tracking_numbers env (body req) = Some (p, t, tot, pay, bal)"
        by simp
      note eqs = rent_tracking_numbers_Some [OF n]
      show ?thesis
      proof (cases "rent_tracking_invalid env (body req) tot pay")
        case (Some rejection)
        with rent_tracking_invalid_rejection [OF Some] u fields n assms show ?thesis
          by (auto simp: post_rent_tracking_def)
      next
        case None
        note v = this
        from rent_tracking_valid [OF v] have pay: "pay \<noteq> NaN" .
        show ?thesis
        proof (cases "attempt flt 0 (Inr (sql_get (properties db) (owned_by env (JNum p) userId)))")
          case (Inl msg)
          with u fields n v assms show ?thesis by (simp add: post_rent_tracking_def)
        next
          case (Inr pr)
          note pg = this
          show ?thesis
          proof (cases pr)
            case None
            with pg u fields n v assms show ?thesis by (simp add: post_rent_tracking_def)
          next
            case (Some property)
            note pr = this
            from pg pr have "sql_get (properties db) (owned_by env (JNum p) userId) = Some property"
              by (auto simp: attempt_def split: option.splits)
            then have pn: "p \<noteq> NaN"
              using sql_get_some owned_by_number by blast
            show ?thesis
            proof (cases "attempt flt 1 (Inr (sql_get (tenants db) (owned_by env (JNum t) userId)))")
              case (Inl msg)
              with pg pr u fields n v assms show ?thesis by (simp add: post_rent_tracking_def)
            next
              case (Inr tr)
              note tg = this
              show ?thesis
              proof (cases tr)
                case None
                with tg pg pr u fields n v assms show ?thesis by (simp add: post_rent_tracking_def)
              next
                case (Some tenant)
                from tg Some have "sql_get (tenants db) (owned_by env (JNum t) userId) = Some tenant"
                  by (auto simp: attempt_def split: option.splits)
                then have tn: "t \<noteq> NaN"
                  using sql_get_some owned_by_number by blast
                have "post_rent_tracking env flt req db =
                        insertRentTracking env flt userId (body req) p t tot pay bal db"
                  using tg Some pg pr u fields n v by (simp add: post_rent_tracking_def)
                with u pn tn pay date eqs(1,2,4) show ?thesis by auto
              qed
            qed
          qed
        qed
      qed
    qed
  qed
qed

lemma res_json_id:
  "res_json [(''id'', jnat i), (''message'', JStr m)] = Response 200 (JObj [(''id'', jnat i), (''message'', JStr m)])"
  by (simp add: res_json_def)

text \<open>The columns of the two tables that the two INSERTs list.\<close>

lemma rent_tracking_columns:
  "map_of (columns rent_tracking_table) ''user_id'' = Some INTEGER"
  "map_of (columns rent_tracking_table) ''property_id'' = Some INTEGER"
  "map_of (columns rent_tracking_table) ''tenant_id'' = Some INTEGER"
  by (simp_all add: rent_tracking_table_def)

lemma financial_records_columns:
  "map_of (columns financial_records_table) ''user_id'' = Some INTEGER"
  "map_of (columns financial_records_table) ''property_id'' = Some INTEGER"
  "map_of (columns financial_records_table) ''tenant_id'' = Some INTEGER"
  "map_of (columns financial_records_table) ''type'' = Some TEXT"
  "map_of (columns financial_records_table) ''amount'' = Some REAL"
  "map_of (columns financial_records_table) ''description'' = Some TEXT"
  "map_of (columns financial_records_table) ''date'' = Some NUMERIC"
  by (simp_all add: financial_records_table_def)

lemma rent_tracking_row:
  assumes b: "bind_params env ((''user_id'', jnat u) # rent_tracking_values b p t tot pay bal) = Some params"
      and p: "p \<noteq> NaN" and t: "t \<noteq> NaN"
  shows "col \<lparr>rowid = i, cols = stored_row env rent_tracking_table now params\<rparr> ''user_id'' = jnat u"
    and "col \<lparr>rowid = i, cols = stored_row env rent_tracking_table now params\<rparr> ''property_id'' = JNum p"
    and "col \<lparr>rowid = i, cols = stored_row env rent_tracking_table now params\<rparr> ''tenant_id'' = JNum t"
proof -
  from bind_params_lookup [OF b, of "''user_id''" "jnat u"]
  have 1: "map_of params ''user_id'' = Some (jnat u)" by simp
  from bind_params_lookup [OF b, of "''property_id''" "JNum p"] p
  have 2: "map_of params ''property_id'' = Some (JNum p)"
    by (simp add: rent_tracking_values_def sql_value_def)
  from bind_params_lookup [OF b, of "''tenant_id''" "JNum t"] t
  have 3: "map_of params ''tenant_id'' = Some (JNum t)"
    by (simp add: rent_tracking_values_def sql_value_def)
  show "col \<lparr>rowid = i, cols = stored_row env rent_tracking_table now params\<rparr> ''user_id'' = jnat u"
    by (simp add: col_stored_row [OF rent_tracking_columns(1) _ 1])
  show "col \<lparr>rowid = i, cols = stored_row env rent_tracking_table now params\<rparr> ''property_id'' = JNum p"
    by (simp add: col_stored_row [OF rent_tracking_columns(2) _ 2])
  show "col \<lparr>rowid = i, cols = stored_row env rent_tracking_table now params\<rparr> ''tenant_id'' = JNum t"
    by (simp add: col_stored_row [OF rent_tracking_columns(3) _ 3])
qed

lemma financial_record_row:
  assumes b: "bind_params env
                [(''user_id'', jnat u), (''property_id'', JNum p), (''tenant_id'', JNum t),
                 (''type'', JStr ty), (''amount'', JNum pay), (''currency'', cv),
                 (''description'', JStr de), (''date'', date)] = Some params"
      and p: "p \<noteq> NaN" and t: "t \<noteq> NaN" and pay: "pay \<noteq> NaN" and date: "truthy date"
  shows "sql_insert env financial_records_table now ft params =
           Inr (next_rowid ft,
                \<lparr>rows = rows ft @ [\<lparr>rowid = next_rowid ft,
                                     cols = stored_row env financial_records_table now params\<rparr>],
                 seq = next_rowid ft\<rparr>)"
    and "col \<lparr>rowid = i, cols = stored_row env financial_records_table now params\<rparr> ''user_id'' = jnat u"
    and "col \<lparr>rowid = i, cols = stored_row env financial_records_table now params\<rparr> ''property_id'' = JNum p"
    and "col \<lparr>rowid = i, cols = stored_row env financial_records_table now params\<rparr> ''tenant_id'' = JNum t"
    and "col \<lparr>rowid = i, cols = stored_row env financial_records_table now params\<rparr> ''type'' = JStr ty"
    and "col \<lparr>rowid = i, cols = stored_row env financial_records_table now params\<rparr> ''amount'' = JNum pay"
    and "col \<lparr>rowid = i, cols = stored_row env financial_records_table now params\<rparr> ''description'' = JStr de"
proof -
  from bind_params_lookup [OF b, of "''user_id''" "jnat u"]
  have 1: "map_of params ''user_id'' = Some (jnat u)" by simp
  from bind_params_lookup [OF b, of "''property_id''" "JNum p"] p
  have 2: "map_of params ''property_id'' = Some (JNum p)" by (simp add: sql_value_def)
  from bind_params_lookup [OF b, of "''tenant_id''" "JNum t"] t
  have 3: "map_of params ''tenant_id'' = Some (JNum t)" by (simp add: sql_value_def)
  from bind_params_lookup [OF b, of "''type''" "JStr ty"]
  have 4: "map_of params ''type'' = Some (JStr ty)" by simp
  from bind_params_lookup [OF b, of "''amount''" "JNum pay"] pay
  have 5: "map_of params ''amount'' = Some (JNum pay)" by (simp add: sql_value_def)
  from bind_params_lookup [OF b, of "''description''" "JStr de"]
  have 6: "map_of params ''description'' = Some (JStr de)" by simp
  from bind_params_lookup [OF b, of "''date''" date]
  obtain x where x: "sql_bind env date = Some x" and 7: "map_of params ''date'' = Some x"
    by auto
  from sql_bind_truthy [OF date x] have xn: "x \<noteq> JNull" .
  note look = stored_row_lookup [where env = env and now = now]
  have nn: "find (\<lambda>c. map_of (stored_row env financial_records_table now params) c = Some JNull)
              (notnull financial_records_table) = None"
    using look [OF financial_records_columns(1) 1] look [OF financial_records_columns(4) 4]
          look [OF financial_records_columns(5) 5] look [OF financial_records_columns(7) 7] xn
    by (simp add: financial_records_table_def jnat_def)
  show "sql_insert env financial_records_table now ft params =
           Inr (next_rowid ft,
                \<lparr>rows = rows ft @ [\<lparr>rowid = next_rowid ft,
                                     cols = stored_row env financial_records_table now params\<rparr>],
                 seq = next_rowid ft\<rparr>)"
    by (simp add: sql_insert_def nn Let_def)
  show "col \<lparr>rowid = i, cols = stored_row env financial_records_table now params\<rparr> ''user_id'' = jnat u"
    by (simp add: col_stored_row [OF financial_records_columns(1) _ 1])
  show "col \<lparr>rowid = i, cols = stored_row env financial_records_table now params\<rparr> ''property_id'' = JNum p"
    by (simp add: col_stored_row [OF financial_records_columns(2) _ 2])
  show "col \<lparr>rowid = i, cols = stored_row env financial_records_table now params\<rparr> ''tenant_id'' = JNum t"
    by (simp add: col_stored_row [OF financial_records_columns(3) _ 3])
  show "col \<lparr>rowid = i, cols = stored_row env financial_records_table now params\<rparr> ''type'' = JStr ty"
    by (simp add: col_stored_row [OF financial_records_columns(4) _ 4])
  show "col \<lparr>rowid = i, cols = stored_row env financial_records_table now params\<rparr> ''amount'' = JNum pay"
    by (simp add: col_stored_row [OF financial_records_columns(5) _ 5])
  show "col \<lparr>rowid = i, cols = stored_row env financial_records_table now params\<rparr> ''description'' = JStr de"
    by (simp add: col_stored_row [OF financial_records_columns(6) _ 6])
qed

text \<open>
  A 200 of \<^verbatim>\<open>insertRentTracking\<close>: the first INSERT has appended a row, the payment method
  is a string, and the parameters of the second INSERT are bound.
\<close>

lemma insertRentTracking_answered:
  assumes ok: "fst (insertRentTracking env flt u b p t tot pay bal db) = Response 200 bdy"
  shows "\<exists>params m fparams.
           bind_params env ((''user_id'', jnat u) # rent_tracking_values b p t tot pay bal) = Some params \<and>
           obj_get b ''payment_method'' = JStr m \<and>
           bind_params env
             [(''user_id'', jnat u), (''property_id'', JNum p), (''tenant_id'', JNum t),
              (''type'', JStr (if m = ''partial'' then ''partial_rent'' else ''rent'')),
              (''amount'', JNum pay),
              (''currency'', js_or (obj_get b ''currency'') (JStr ''USD'')),
              (''description'',
                 JStr (capitalize env m @ '' payment for '' @ js_to_string env (obj_get b ''rent_month''))),
              (''date'', obj_get b ''payment_date'')] = Some fparams \<and>
           insertRentTracking env flt u b p t tot pay bal db =
             (case attempt flt 3
                     (sql_insert env financial_records_table (current_timestamp env 3)
                        (financial_records db) fparams) of
                Inl financialErr \<Rightarrow>
                  (res_json [(''id'', JUndefined), (''message'', JStr ''Rent payment tracked successfully'')],
                   db\<lparr>rent_tracking :=
                        \<lparr>rows = rows (rent_tracking db) @
                                 [\<lparr>rowid = next_rowid (rent_tracking db),
                                   cols = stored_row env rent_tracking_table (current_timestamp env 2) params\<rparr>],
                         seq = next_rowid (rent_tracking db)\<rparr>\<rparr>)
              | Inr (financialID, ft) \<Rightarrow>
                  (res_json [(''id'', jnat financialID), (''message'', JStr ''Rent payment tracked successfully'')],
                   db\<lparr>rent_tracking :=
                        \<lparr>rows = rows (rent_tracking db) @
                                 [\<lparr>rowid = next_rowid (rent_tracking db),
                                   cols = stored_row env rent_tracking_table (current_timestamp env 2) params\<rparr>],
                         seq = next_rowid (rent_tracking db)\<rparr>,
                      financial_records := ft\<rparr>))"
proof (cases "bind_params env ((''user_id'', jnat u) # rent_tracking_values b p t tot pay bal)")
  case None
  with ok show ?thesis by (simp add: insertRentTracking_def)
next
  case (Some params)
  note b1 = this
  show ?thesis
  proof (cases "attempt flt 2
                  (sql_insert env rent_tracking_table (current_timestamp env 2) (rent_tracking db) params)")
    case (Inl msg)
    with ok b1 show ?thesis by (simp add: insertRentTracking_def)
  next
    case (Inr res)
    obtain lastID tt where res: "res = (lastID, tt)" by (cases res)
    from Inr res have "sql_insert env rent_tracking_table (current_timestamp env 2) (rent_tracking db) params
                         = Inr (lastID, tt)"
      by (auto simp: attempt_def split: option.splits)
    note tt = sql_insert_Inr [OF this]
    show ?thesis
    proof (cases "\<exists>m. obj_get b ''payment_method'' = JStr m")
      case False
      with ok b1 Inr res show ?thesis
        by (cases "obj_get b ''payment_method''") (simp_all add: insertRentTracking_def)
    next
      case True
      then obtain m where m: "obj_get b ''payment_method'' = JStr m" by blast
      show ?thesis
      proof (cases "conversion_throws env (obj_get b ''rent_month'')")
        case True
        with ok b1 Inr res m show ?thesis by (simp add: insertRentTracking_def)
      next
        case False
        note month = this
        let ?fvals = "[(''user_id'', jnat u), (''property_id'', JNum p), (''tenant_id'', JNum t),
              (''type'', JStr (if m = ''partial'' then ''partial_rent'' else ''rent'')),
              (''amount'', JNum pay),
              (''currency'', js_or (obj_get b ''currency'') (JStr ''USD'')),
              (''description'',
                 JStr (capitalize env m @ '' payment for '' @ js_to_string env (obj_get b ''rent_month''))),
              (''date'', obj_get b ''payment_date'')]"
        show ?thesis
        proof (cases "bind_params env ?fvals")
          case None
          with ok b1 Inr res m month show ?thesis
            by (simp add: insertRentTracking_def Let_def)
        next
          case (Some fparams)
          have "insertRentTracking env flt u b p t tot pay bal db =
             (case attempt flt 3
                     (sql_insert env financial_records_table (current_timestamp env 3)
                        (financial_records db) fparams) of
                Inl financialErr \<Rightarrow>
                  (res_json [(''id'', JUndefined), (''message'', JStr ''Rent payment tracked successfully'')],
                   db\<lparr>rent_tracking := tt\<rparr>)
              | Inr (financialID, ft) \<Rightarrow>
                  (res_json [(''id'', jnat financialID), (''message'', JStr ''Rent payment tracked successfully'')],
                   db\<lparr>rent_tracking := tt, financial_records := ft\<rparr>))"
            using b1 Inr res m month Some
            by (simp add: insertRentTracking_def Let_def)
          with b1 m Some tt have c:
            "bind_params env ((''user_id'', jnat u) # rent_tracking_values b p t tot pay bal) = Some params \<and>
             obj_get b ''payment_method'' = JStr m \<and>
             bind_params env ?fvals = Some fparams \<and>
             insertRentTracking env flt u b p t tot pay bal db =
               (case attempt flt 3
                       (sql_insert env financial_records_table (current_timestamp env 3)
                          (financial_records db) fparams) of
                  Inl financialErr \<Rightarrow>
                    (res_json [(''id'', JUndefined), (''message'', JStr ''Rent payment tracked successfully'')],
                     db\<lparr>rent_tracking :=
                          \<lparr>rows = rows (rent_tracking db) @
                                   [\<lparr>rowid = next_rowid (rent_tracking db),
                                     cols = stored_row env rent_tracking_table (current_timestamp env 2) params\<rparr>],
                           seq = next_rowid (rent_tracking db)\<rparr>\<rparr>)
                | Inr (financialID, ft) \<Rightarrow>
                    (res_json [(''id'', jnat financialID), (''message'', JStr ''Rent payment tracked successfully'')],
                     db\<lparr>rent_tracking :=
                          \<lparr>rows = rows (rent_tracking db) @
                                   [\<lparr>rowid = next_rowid (rent_tracking db),
                                     cols = stored_row env rent_tracking_table (current_timestamp env 2) params\<rparr>],
                           seq = next_rowid (rent_tracking db)\<rparr>,
                        financial_records := ft\<rparr>))"
            by (simp split: sum.splits prod.splits)
          show ?thesis
            by (rule exI [of _ params], rule exI [of _ m], rule exI [of _ fparams]) (rule c)
        qed
      qed
    qed
  qed
qed

text \<open>The two rows a successful create request appends.\<close>

lemma post_rent_tracking_success:
  assumes ok: "fst (post_rent_tracking env flt req db) = Response 200 bdy" and fin: "flt 3 = None"
  shows "\<exists>userId payment_method rt fr.
           getCurrentUserId env req = Some userId \<and>
           obj_get (body req) ''payment_method'' = JStr payment_method \<and>
           post_rent_tracking env flt req db =
             (Response 200 (JObj [(''id'', jnat (next_rowid (financial_records db))),
                                  (''message'', JStr ''Rent payment tracked successfully'')]),
              db\<lparr>rent_tracking :=
                   \<lparr>rows = rows (rent_tracking db) @ [rt], seq = next_rowid (rent_tracking db)\<rparr>,
                 financial_records :=
                   \<lparr>rows = rows (financial_records db) @ [fr], seq = next_rowid (financial_records db)\<rparr>\<rparr>) \<and>
           rowid rt = next_rowid (rent_tracking db) \<and>
           col rt ''user_id'' = jnat userId \<and>
           col rt ''property_id'' = JNum (parseInt env (obj_get (body req) ''property_id'')) \<and>
           col rt ''tenant_id'' = JNum (parseInt env (obj_get (body req) ''tenant_id'')) \<and>
           rowid fr = next_rowid (financial_records db) \<and>
           col fr ''user_id'' = jnat userId \<and>
           col fr ''property_id'' = JNum (parseInt env (obj_get (body req) ''property_id'')) \<and>
           col fr ''tenant_id'' = JNum (parseInt env (obj_get (body req) ''tenant_id'')) \<and>
           col fr ''type'' = JStr (if payment_method = ''partial'' then ''partial_rent'' else ''rent'') \<and>
           col fr ''amount'' = JNum (parseFloat env (obj_get (body req) ''payment_amount'')) \<and>
           col fr ''description'' =
             JStr (capitalize env payment_method @ '' payment for '' @
                   js_to_string env (obj_get (body req) ''rent_month''))"
proof -
  define b where "b = body req"
  define p where "p = parseInt env (obj_get b ''property_id'')"
  define t where "t = parseInt env (obj_get b ''tenant_id'')"
  define pay where "pay = parseFloat env (obj_get b ''payment_amount'')"
  from post_rent_tracking_200 [OF ok] obtain userId tot bal where
    u: "getCurrentUserId env req = Some userId" and
    pn: "p \<noteq> NaN" and tn: "t \<noteq> NaN" and payn: "pay \<noteq> NaN" and
    date: "truthy (obj_get b ''payment_date'')" and
    eq: "post_rent_tracking env flt req db = insertRentTracking env flt userId b p t tot pay bal db"
    unfolding b_def p_def t_def pay_def by blast
  from ok eq have ok': "fst (insertRentTracking env flt userId b p t tot pay bal db) = Response 200 bdy"
    by simp
  from insertRentTracking_answered [OF ok'] obtain params m fparams where
    b1: "bind_params env ((''user_id'', jnat userId) # rent_tracking_values b p t tot pay bal) = Some params" and
    m: "obj_get b ''payment_method'' = JStr m" and
    b2: "bind_params env
             [(''user_id'', jnat userId), (''property_id'', JNum p), (''tenant_id'', JNum t),
              (''type'', JStr (if m = ''partial'' then ''partial_rent'' else ''rent'')),
              (''amount'', JNum pay),
              (''currency'', js_or (obj_get b ''currency'') (JStr ''USD'')),
              (''description'',
                 JStr (capitalize env m @ '' payment for '' @ js_to_string env (obj_get b ''rent_month''))),
              (''date'', obj_get b ''payment_date'')] = Some fparams" and
    res: "insertRentTracking env flt userId b p t tot pay bal db =
             (case attempt flt 3
                     (sql_insert env financial_records_table (current_timestamp env 3)
                        (financial_records db) fparams) of
                Inl financialErr \<Rightarrow>
                  (res_json [(''id'', JUndefined), (''message'', JStr ''Rent payment tracked successfully'')],
                   db\<lparr>rent_tracking :=
                        \<lparr>rows = rows (rent_tracking db) @
                                 [\<lparr>rowid = next_rowid (rent_tracking db),
                                   cols = stored_row env rent_tracking_table (current_timestamp env 2) params\<rparr>],
                         seq = next_rowid (rent_tracking db)\<rparr>\<rparr>)
              | Inr (financialID, ft) \<Rightarrow>
                  (res_json [(''id'', jnat financialID), (''message'', JStr ''Rent payment tracked successfully'')],
                   db\<lparr>rent_tracking :=
                        \<lparr>rows = rows (rent_tracking db) @
                                 [\<lparr>rowid = next_rowid (rent_tracking db),
                                   cols = stored_row env rent_tracking_table (current_timestamp env 2) params\<rparr>],
                         seq = next_rowid (rent_tracking db)\<rparr>,
                      financial_records := ft\<rparr>))"
    by blast
  let ?rt = "\<lparr>rowid = next_rowid (rent_tracking db),
              cols = stored_row env rent_tracking_table (current_timestamp env 2) params\<rparr>"
  let ?fr = "\<lparr>rowid = next_rowid (financial_records db),
              cols = stored_row env financial_records_table (current_timestamp env 3) fparams\<rparr>"
  note rt = rent_tracking_row [OF b1 pn tn,
              where now = "current_timestamp env 2" and i = "next_rowid (rent_tracking db)"]
  note ins = financial_record_row(1) [OF b2 pn tn payn date,
               where now = "current_timestamp env 3" and ft = "financial_records db"]
  note fr = financial_record_row(2-) [OF b2 pn tn payn date,
              where now = "current_timestamp env 3" and i = "next_rowid (financial_records db)"]
  have answer: "post_rent_tracking env flt req db =
             (Response 200 (JObj [(''id'', jnat (next_rowid (financial_records db))),
                                  (''message'', JStr ''Rent payment tracked successfully'')]),
              db\<lparr>rent_tracking :=
                   \<lparr>rows = rows (rent_tracking db) @ [?rt], seq = next_rowid (rent_tracking db)\<rparr>,
                 financial_records :=
                   \<lparr>rows = rows (financial_records db) @ [?fr], seq = next_rowid (financial_records db)\<rparr>\<rparr>)"
    unfolding eq res using fin by (simp add: ins res_json_id)
  show ?thesis
    apply (rule exI [of _ userId])
    apply (rule exI [of _ m])
    apply (rule exI [of _ ?rt])
    apply (rule exI [of _ ?fr])
    apply (simp only: answer rt fr u)
    apply (simp add: m b_def [symmetric] p_def [symmetric] t_def [symmetric] pay_def [symmetric])
    done
qed

text \<open>The same request when the INSERT into the ledger fails: the failure is only logged.\<close>

lemma post_rent_tracking_unrecorded:
  assumes ok: "fst (post_rent_tracking env flt req db) = Response 200 bdy" and fin: "flt 3 = Some msg"
  shows "\<exists>rt. post_rent_tracking env flt req db =
           (Response 200 (JObj [(''message'', JStr ''Rent payment tracked successfully'')]),
            db\<lparr>rent_tracking :=
                 \<lparr>rows = rows (rent_tracking db) @ [rt], seq = next_rowid (rent_tracking db)\<rparr>\<rparr>) \<and>
           rowid rt = next_rowid (rent_tracking db)"
proof -
  from post_rent_tracking_200 [OF ok] obtain userId tot bal where
    eq: "post_rent_tracking env flt req db =
             insertRentTracking env flt userId (body req)
               (parseInt env (obj_get (body req) ''property_id''))
               (parseInt env (obj_get (body req) ''tenant_id''))
               tot
               (parseFloat env (obj_get (body req) ''payment_amount''))
               bal db"
    by blast
  from ok have "fst (insertRentTracking env flt userId (body req)
               (parseInt env (obj_get (body req) ''property_id''))
               (parseInt env (obj_get (body req) ''tenant_id''))
               tot
               (parseFloat env (obj_get (body req) ''payment_amount''))
               bal db) = Response 200 bdy"
    by (simp add: eq)
  from insertRentTracking_answered [OF this] obtain params where
    "insertRentTracking env flt userId (body req)
               (parseInt env (obj_get (body req) ''property_id''))
               (parseInt env (obj_get (body req) ''tenant_id''))
               tot
               (parseFloat env (obj_get (body req) ''payment_amount''))
               bal db =
       (res_json [(''id'', JUndefined), (''message'', JStr ''Rent payment tracked successfully'')],
        db\<lparr>rent_tracking :=
             \<lparr>rows = rows (rent_tracking db) @
                      [\<lparr>rowid = next_rowid (rent_tracking db),
                        cols = stored_row env rent_tracking_table (current_timestamp env 2) params\<rparr>],
              seq = next_rowid (rent_tracking db)\<rparr>\<rparr>)"
    using fin by auto
  then show ?thesis
    unfolding eq
    by (intro exI [of _ "\<lparr>rowid = next_rowid (rent_tracking db),
                           cols = stored_row env rent_tracking_table (current_timestamp env 2) params\<rparr>"])
       (simp add: res_json_def)
qed

text \<open>
  Claim C2, as the code has it. A \<^verbatim>\<open>POST /api/rent-tracking\<close> is answered 200. If the
  INSERT into the ledger succeeds, the request has appended one rent-tracking row and one
  financial record for the same account, property and tenant; the type of the record is
  \<^verbatim>\<open>partial_rent\<close> when the payment method is \<^verbatim>\<open>partial\<close> and \<^verbatim>\<open>rent\<close> for every
  other method, its amount is the payment amount, and its description is the capitalized method,
  \<^verbatim>\<open>payment for\<close>, and the rent month. If that INSERT fails, the failure is only logged:
  the answer is the same 200 and the ledger is unchanged.
\<close>

theorem rent_payment_creates_ledger_entry:
  assumes ok: "fst (post_rent_tracking env flt req db) = Response 200 bdy"
  shows "(flt 3 = None \<longrightarrow>
          (\<exists>userId payment_method fr rt.
             getCurrentUserId env req = Some userId \<and>
             obj_get (body req) ''payment_method'' = JStr payment_method \<and>
             rows (financial_records (snd (post_rent_tracking env flt req db))) =
               rows (financial_records db) @ [fr] \<and>
             rows (rent_tracking (snd (post_rent_tracking env flt req db))) =
               rows (rent_tracking db) @ [rt] \<and>
             col fr ''user_id'' = jnat userId \<and> col rt ''user_id'' = jnat userId \<and>
             col fr ''property_id'' = JNum (parseInt env (obj_get (body req) ''property_id'')) \<and>
             col rt ''property_id'' = JNum (parseInt env (obj_get (body req) ''property_id'')) \<and>
             col fr ''tenant_id'' = JNum (parseInt env (obj_get (body req) ''tenant_id'')) \<and>
             col rt ''tenant_id'' = JNum (parseInt env (obj_get (body req) ''tenant_id'')) \<and>
             col fr ''type'' = JStr (if payment_method = ''partial'' then ''partial_rent'' else ''rent'') \<and>
             col fr ''amount'' = JNum (parseFloat env (obj_get (body req) ''payment_amount'')) \<and>
             col fr ''description'' =
               JStr (capitalize env payment_method @ '' payment for '' @
                     js_to_string env (obj_get (body req) ''rent_month'')))) \<and>
         (flt 3 \<noteq> None \<longrightarrow>
            financial_records (snd (post_rent_tracking env flt req db)) = financial_records db)"
proof (cases "flt 3")
  case (Some msg)
  from post_rent_tracking_unrecorded [OF ok Some] obtain rt where
    "post_rent_tracking env flt req db =
           (Response 200 (JObj [(''message'', JStr ''Rent payment tracked successfully'')]),
            db\<lparr>rent_tracking :=
                 \<lparr>rows = rows (rent_tracking db) @ [rt], seq = next_rowid (rent_tracking db)\<rparr>\<rparr>)"
    by blast
  with Some show ?thesis by simp
next
  case None
  note fin = this

  from post_rent_tracking_success [OF ok fin] obtain userId payment_method rt fr where
    s: "getCurrentUserId env req = Some userId"
       "obj_get (body req) ''payment_method'' = JStr payment_method"
       "post_rent_tracking env flt req db =
             (Response 200 (JObj [(''id'', jnat (next_rowid (financial_records db))),
                                  (''message'', JStr ''Rent payment tracked successfully'')]),
              db\<lparr>rent_tracking :=
                   \<lparr>rows = rows (rent_tracking db) @ [rt], seq = next_rowid (rent_tracking db)\<rparr>,
                 financial_records :=
                   \<lparr>rows = rows (financial_records db) @ [fr], seq = next_rowid (financial_records db)\<rparr>\<rparr>)"
       "col rt ''user_id'' = jnat userId"
       "col rt ''property_id'' = JNum (parseInt env (obj_get (body req) ''property_id''))"
       "col rt ''tenant_id'' = JNum (parseInt env (obj_get (body req) ''tenant_id''))"
    and fr: "col fr ''user_id'' = jnat userId"
           "col fr ''property_id'' = JNum (parseInt env (obj_get (body req) ''property_id''))"
           "col fr ''tenant_id'' = JNum (parseInt env (obj_get (body req) ''tenant_id''))"
           "col fr ''type'' = JStr (if payment_method = ''partial'' then ''partial_rent'' else ''rent'')"
           "col fr ''amount'' = JNum (parseFloat env (obj_get (body req) ''payment_amount''))"
           "col fr ''description'' =
             JStr (capitalize env payment_method @ '' payment for '' @
                   js_to_string env (obj_get (body req) ''rent_month''))"
    by blast
  have "\<exists>userId payment_method fr rt.
             getCurrentUserId env req = Some userId \<and>
             obj_get (body req) ''payment_method'' = JStr payment_method \<and>
             rows (financial_records (snd (post_rent_tracking env flt req db))) =
               rows (financial_records db) @ [fr] \<and>
             rows (rent_tracking (snd (post_rent_tracking env flt req db))) =
               rows (rent_tracking db) @ [rt] \<and>
             col fr ''user_id'' = jnat userId \<and> col rt ''user_id'' = jnat userId \<and>
             col fr ''property_id'' = JNum (parseInt env (obj_get (body req) ''property_id'')) \<and>
             col rt ''property_id'' = JNum (parseInt env (obj_get (body req) ''property_id'')) \<and>
             col fr ''tenant_id'' = JNum (parseInt env (obj_get (body req) ''tenant_id'')) \<and>
             col rt ''tenant_id'' = JNum (parseInt env (obj_get (body req) ''tenant_id'')) \<and>
             col fr ''type'' = JStr (if payment_method = ''partial'' then ''partial_rent'' else ''rent'') \<and>
             col fr ''amount'' = JNum (parseFloat env (obj_get (body req) ''payment_amount'')) \<and>
             col fr ''description'' =
               JStr (capitalize env payment_method @ '' payment for '' @
                     js_to_string env (obj_get (body req) ''rent_month''))"
    apply (rule exI [of _ userId])
    apply (rule exI [of _ payment_method])
    apply (rule exI [of _ fr])
    apply (rule exI [of _ rt])
    apply (simp only: s(3) snd_conv fr s(4,5,6))
    apply (simp add: s(1,2))
    done
  with fin show ?thesis by simp
qed

text \<open>Scenario 4 of the specification: 400 of 1000, paid in part.\<close>

lemma example_create:
  "fst (post_rent_tracking example_runtime no_faults example_partial example_store) =
     Response 200 (JObj [(''id'', JNum (Fin 5)), (''message'', JStr ''Rent payment tracked successfully'')])"
  by code_simp

lemma example_partial_fields:
  "getCurrentUserId example_runtime example_partial = Some 1"
  "obj_get (body example_partial) ''payment_method'' = JStr ''partial''"
  "obj_get (body example_partial) ''payment_amount'' = JNum (Fin 400)"
  "obj_get (body example_partial) ''rent_month'' = JStr ''2024-01''"
  by (simp_all add: example_partial_def example_user example_payment_def obj_get_def)

lemma example_capitalize: "capitalize example_runtime ''partial'' = ''Partial''"
  by code_simp

lemma example_next_rowid:
  "next_rowid (financial_records example_store) = 5"
  "next_rowid (rent_tracking example_store) = 1"
  by code_simp+

theorem rent_payment_creates_ledger_entry_witness:
  "fst (post_rent_tracking example_runtime no_faults example_partial example_store) =
     Response 200 (JObj [(''id'', JNum (Fin 5)), (''message'', JStr ''Rent payment tracked successfully'')]) \<and>
   length (rows (financial_records (snd (post_rent_tracking example_runtime no_faults example_partial example_store)))) = 1 \<and>
   col (last (rows (financial_records (snd (post_rent_tracking example_runtime no_faults example_partial example_store)))))
       ''user_id'' = JNum (Fin 1) \<and>
   col (last (rows (financial_records (snd (post_rent_tracking example_runtime no_faults example_partial example_store)))))
       ''type'' = JStr ''partial_rent'' \<and>
   col (last (rows (financial_records (snd (post_rent_tracking example_runtime no_faults example_partial example_store)))))
       ''amount'' = JNum (Fin 400) \<and>
   col (last (rows (financial_records (snd (post_rent_tracking example_runtime no_faults example_partial example_store)))))
       ''description'' = JStr ''Partial payment for 2024-01''"
proof -
  let ?db' = "snd (post_rent_tracking example_runtime no_faults example_partial example_store)"
  from rent_payment_creates_ledger_entry [OF example_create, THEN conjunct1, rule_format, OF no_faults_none]
  obtain userId payment_method fr rt where
    h: "getCurrentUserId example_runtime example_partial = Some userId"
       "obj_get (body example_partial) ''payment_method'' = JStr payment_method"
       "rows (financial_records ?db') = rows (financial_records example_store) @ [fr]"
       "col fr ''user_id'' = jnat userId"
       "col fr ''type'' = JStr (if payment_method = ''partial'' then ''partial_rent'' else ''rent'')"
       "col fr ''amount'' = JNum (parseFloat example_runtime (obj_get (body example_partial) ''payment_amount''))"
       "col fr ''description'' =
          JStr (capitalize example_runtime payment_method @ '' payment for '' @
                js_to_string example_runtime (obj_get (body example_partial) ''rent_month''))"
    by blast
  from h(1) have u: "userId = 1" by (simp add: example_partial_fields)
  from h(2) have m: "payment_method = ''partial''" by (simp add: example_partial_fields)
  from h(3) have l: "last (rows (financial_records ?db')) = fr"
                    "length (rows (financial_records ?db')) = 1"
    by (simp_all add: example_store_def)
  show ?thesis
    using h(4,5,6,7)
    by (simp add: example_create l u m example_partial_fields example_capitalize js_to_string_def jnat_def)
qed

text \<open>
  Claim C2 as stated fails: the fields are valid, both ownership checks pass and the
  rent-tracking INSERT succeeds, but the ledger INSERT fails; the request is answered 200 and
  there is no financial record.
\<close>

theorem ledger_failure_is_answered_200:
  "fst (post_rent_tracking example_runtime (fails_at 3) example_partial example_store) =
     Response 200 (JObj [(''message'', JStr ''Rent payment tracked successfully'')]) \<and>
   length (rows (rent_tracking (snd (post_rent_tracking example_runtime (fails_at 3) example_partial example_store)))) = 1 \<and>
   rows (financial_records (snd (post_rent_tracking example_runtime (fails_at 3) example_partial example_store))) = []"
  by code_simp

lemma sql_insert_other_table:
  "(\<exists>msg. sql_insert env td now t params = Inl msg \<and> sql_insert env td now t' params = Inl msg) \<or>
   (\<exists>r r'. sql_insert env td now t params = Inr r \<and> sql_insert env td now t' params = Inr r')"
  by (simp add: sql_insert_def Let_def split: option.splits)

lemma insertRentTracking_response:
  "fst (insertRentTracking env flt u b p t tot pay bal (db\<lparr>rent_tracking := tab\<rparr>)) =
   fst (insertRentTracking env flt u b p t tot pay bal db)"
proof (cases "bind_params env ((''user_id'', jnat u) # rent_tracking_values b p t tot pay bal)")
  case None
  then show ?thesis by (simp add: insertRentTracking_def)
next
  case (Some params)
  from sql_insert_other_table
         [of env rent_tracking_table "current_timestamp env 2" tab params "rent_tracking db"]
  show ?thesis
    using Some
    by (cases "flt 2"; cases "flt 3")
       (auto simp: insertRentTracking_def attempt_def Let_def
             split: jsval.splits sum.splits prod.splits option.splits)
qed

lemma post_rent_tracking_response:
  "fst (post_rent_tracking env flt req (db\<lparr>rent_tracking := tab\<rparr>)) = fst (post_rent_tracking env flt req db)"
  by (simp add: post_rent_tracking_def Let_def insertRentTracking_response
           split: option.splits sum.splits prod.splits)

text \<open>
  Claim C10. In a 200 answer of \<^verbatim>\<open>POST /api/rent-tracking\<close> the \<^verbatim>\<open>id\<close> is the row id
  of the financial record the request appended, taken from the callback of the second INSERT;
  the id of the new rent-tracking row is the next id of its own table, and the answer is the
  same whatever that table holds, so it does not tell the caller that id. (When the second
  INSERT fails, the answer has no \<^verbatim>\<open>id\<close> at all.)
\<close>

theorem create_response_carries_ledger_id:
  assumes ok: "fst (post_rent_tracking env flt req db) = Response 200 bdy"
  shows "(\<forall>tab. fst (post_rent_tracking env flt req (db\<lparr>rent_tracking := tab\<rparr>)) = Response 200 bdy) \<and>
         (\<exists>rt. rows (rent_tracking (snd (post_rent_tracking env flt req db))) =
                 rows (rent_tracking db) @ [rt] \<and>
               rowid rt = next_rowid (rent_tracking db)) \<and>
         (flt 3 = None \<longrightarrow>
            bdy = JObj [(''id'', jnat (next_rowid (financial_records db))),
                        (''message'', JStr ''Rent payment tracked successfully'')] \<and>
            (\<exists>fr. rows (financial_records (snd (post_rent_tracking env flt req db))) =
                    rows (financial_records db) @ [fr] \<and>
                  rowid fr = next_rowid (financial_records db))) \<and>
         (flt 3 \<noteq> None \<longrightarrow>
            bdy = JObj [(''message'', JStr ''Rent payment tracked successfully'')])"
proof (cases "flt 3")
  case (Some msg)
  from post_rent_tracking_unrecorded [OF ok Some] obtain rt where
    s: "post_rent_tracking env flt req db =
           (Response 200 (JObj [(''message'', JStr ''Rent payment tracked successfully'')]),
            db\<lparr>rent_tracking :=
                 \<lparr>rows = rows (rent_tracking db) @ [rt], seq = next_rowid (rent_tracking db)\<rparr>\<rparr>)"
       "rowid rt = next_rowid (rent_tracking db)"
    by blast
  from ok s(1) have b: "bdy = JObj [(''message'', JStr ''Rent payment tracked successfully'')]"
    by simp
  show ?thesis
    using b s(2) ok Some by (simp add: s(1) post_rent_tracking_response)
next
  case None
  from post_rent_tracking_success [OF ok None] obtain rt fr where
    s: "post_rent_tracking env flt req db =
             (Response 200 (JObj [(''id'', jnat (next_rowid (financial_records db))),
                                  (''message'', JStr ''Rent payment tracked successfully'')]),
              db\<lparr>rent_tracking :=
                   \<lparr>rows = rows (rent_tracking db) @ [rt], seq = next_rowid (rent_tracking db)\<rparr>,
                 financial_records :=
                   \<lparr>rows = rows (financial_records db) @ [fr], seq = next_rowid (financial_records db)\<rparr>\<rparr>)"
       "rowid rt = next_rowid (rent_tracking db)"
       "rowid fr = next_rowid (financial_records db)"
    by force
  from ok s(1) have b: "bdy = JObj [(''id'', jnat (next_rowid (financial_records db))),
                     (''message'', JStr ''Rent payment tracked successfully'')]"
    by simp
  show ?thesis
    using b s(2,3) ok None by (simp add: s(1) post_rent_tracking_response)
qed

text \<open>
  The ledger of the example is at id 4 and the rent-tracking table is empty: the answer carries
  5, the new rent-tracking row is 1, and the answer is the same over another rent-tracking
  table.
\<close>

theorem create_response_carries_ledger_id_witness:
  "fst (post_rent_tracking example_runtime no_faults example_partial example_store) =
     Response 200 (JObj [(''id'', JNum (Fin 5)), (''message'', JStr ''Rent payment tracked successfully'')]) \<and>
   rowid (last (rows (financial_records (snd (post_rent_tracking example_runtime no_faults example_partial example_store)))))
     = 5 \<and>
   rowid (last (rows (rent_tracking (snd (post_rent_tracking example_runtime no_faults example_partial example_store)))))
     = 1 \<and>
   fst (post_rent_tracking example_runtime no_faults example_partial
          (example_store\<lparr>rent_tracking := \<lparr>rows = [], seq = 41\<rparr>\<rparr>)) =
     Response 200 (JObj [(''id'', JNum (Fin 5)), (''message'', JStr ''Rent payment tracked successfully'')])"
proof -
  let ?db' = "snd (post_rent_tracking example_runtime no_faults example_partial example_store)"
  note inst = create_response_carries_ledger_id [OF example_create]
  from inst [THEN conjunct1, rule_format, of "\<lparr>rows = [], seq = 41\<rparr>"]
  have a: "fst (post_rent_tracking example_runtime no_faults example_partial
          (example_store\<lparr>rent_tracking := \<lparr>rows = [], seq = 41\<rparr>\<rparr>)) =
     Response 200 (JObj [(''id'', JNum (Fin 5)), (''message'', JStr ''Rent payment tracked successfully'')])" .
  from inst [THEN conjunct2, THEN conjunct1]
  obtain rt where rt: "rows (rent_tracking ?db') = rows (rent_tracking example_store) @ [rt]"
       "rowid rt = next_rowid (rent_tracking example_store)"
    by (elim exE conjE)
  from inst [THEN conjunct2, THEN conjunct2, THEN conjunct1, rule_format, OF no_faults_none, THEN conjunct2]
  obtain fr where fr: "rows (financial_records ?db') = rows (financial_records example_store) @ [fr]"
       "rowid fr = next_rowid (financial_records example_store)"
    by (elim exE conjE)
  from rt(1) fr(1) have l: "last (rows (financial_records ?db')) = fr" "last (rows (rent_tracking ?db')) = rt"
    by simp_all
  show ?thesis
    unfolding l rt(2) fr(2) example_next_rowid using a example_create by simp
qed

section \<open>A cheque list replaces the cheques of the tenant\<close>

lemma accepted_cheques_length:
  "length (accepted_cheques flt k cs) + length (filter (\<lambda>i. flt (2 + i) \<noteq> None) [k..<k + length cs]) = length cs"
proof (induction cs arbitrary: k)
  case Nil
  then show ?case by simp
next
  case (Cons c cs)
  have "[k..<k + Suc (length cs)] = k # [Suc k..<k + Suc (length cs)]"
    by (rule upt_conv_Cons) simp
  then have "[k..<k + length (c # cs)] = k # [Suc k..<Suc k + length cs]"
    by simp
  with Cons [of "Suc k"] show ?case by (simp del: upt_Suc)
qed

lemma accepted_plus_failed: "length (accepted_cheques flt 0 cs) + failed_inserts flt (length cs) = length cs"
  using accepted_cheques_length [of flt 0 cs] by (simp add: failed_inserts_def)

text \<open>The bound parameters of a cheque, and the row its INSERT appends.\<close>

lemma cheque_params_shape:
  assumes "cheque_params env (JStr s) cheque = Some params"
  shows "\<exists>x2 x3 x4 x5 x6.
           params = [(''tenant_id'', JStr s), (''cheque_number'', x2), (''bank_name'', x3),
                     (''date'', x4), (''amount'', x5), (''is_security'', x6)]"
  using assms
  by (auto simp: cheque_params_def cheque_values_def bind_params.simps split: if_splits option.splits)

lemma cheque_row:
  assumes "cheque_params env (JStr s) cheque = Some params"
  shows "sql_insert env cheques_table now t params =
           Inr (next_rowid t,
                \<lparr>rows = rows t @ [\<lparr>rowid = next_rowid t, cols = stored_row env cheques_table now params\<rparr>],
                 seq = next_rowid t\<rparr>)"
    and "sql_eq env (col \<lparr>rowid = i, cols = stored_row env cheques_table now params\<rparr> ''tenant_id'') (JStr s)"
    and "holds_cheque env s \<lparr>rowid = i, cols = stored_row env cheques_table now params\<rparr> cheque"
proof -
  from cheque_params_shape [OF assms] obtain x2 x3 x4 x5 x6 where
    params: "params = [(''tenant_id'', JStr s), (''cheque_number'', x2), (''bank_name'', x3),
                       (''date'', x4), (''amount'', x5), (''is_security'', x6)]"
    by blast
  have tid: "map_of (stored_row env cheques_table now params) ''tenant_id'' =
               Some (apply_affinity env INTEGER (JStr s))"
    by (simp add: params stored_row_def cheques_table_def)
  then have nn: "find (\<lambda>c. map_of (stored_row env cheques_table now params) c = Some JNull)
                   (notnull cheques_table) = None"
    by (simp add: cheques_table_def)
  show "sql_insert env cheques_table now t params =
           Inr (next_rowid t,
                \<lparr>rows = rows t @ [\<lparr>rowid = next_rowid t, cols = stored_row env cheques_table now params\<rparr>],
                 seq = next_rowid t\<rparr>)"
    by (simp add: sql_insert_def nn Let_def)
  show "sql_eq env (col \<lparr>rowid = i, cols = stored_row env cheques_table now params\<rparr> ''tenant_id'') (JStr s)"
    using tid by (simp add: sql_eq_def col_def integer_affinity_def sql_value_def)
  show "holds_cheque env s \<lparr>rowid = i, cols = stored_row env cheques_table now params\<rparr> cheque"
    unfolding holds_cheque_def assms
    by (simp add: params stored_values_def stored_row_def cheques_table_def col_def)
qed

lemma insert_cheques_appends:
  assumes "insert_cheques env flt (JStr s) k cs t = Some t'"
  shows "\<exists>new. rows t' = rows t @ new \<and>
               (\<forall>r\<in>set new. sql_eq env (col r ''tenant_id'') (JStr s)) \<and>
               (\<forall>r\<in>set new. seq t < rowid r) \<and>
               seq t \<le> seq t' \<and>
               list_all2 (holds_cheque env s) new (accepted_cheques flt k cs)"
  using assms
proof (induction cs arbitrary: k t)
  case Nil
  then show ?case by simp
next
  case (Cons cheque rest)
  from Cons.prems obtain params where params: "cheque_params env (JStr s) cheque = Some params"
    by (cases "cheque_params env (JStr s) cheque") simp_all
  show ?case
  proof (cases "flt (2 + k)")
    case (Some msg)
    with Cons.prems params have "insert_cheques env flt (JStr s) (Suc k) rest t = Some t'"
      by simp
    from Cons.IH [OF this] Some show ?thesis by simp
  next
    case None
    let ?r = "\<lparr>rowid = next_rowid t, cols = stored_row env cheques_table (current_timestamp env (2 + k)) params\<rparr>"
    let ?t1 = "\<lparr>rows = rows t @ [?r], seq = next_rowid t\<rparr>"
    have fresh: "seq t < next_rowid t" by (simp add: next_rowid_def)
    from Cons.prems params None cheque_row(1) [OF params, of "current_timestamp env (2 + k)" t]
    have "insert_cheques env flt (JStr s) (Suc k) rest ?t1 = Some t'"
      by simp
    from Cons.IH [OF this] obtain new where
      new: "rows t' = rows ?t1 @ new"
           "\<forall>r\<in>set new. sql_eq env (col r ''tenant_id'') (JStr s)"
           "\<forall>r\<in>set new. seq ?t1 < rowid r"
           "seq ?t1 \<le> seq t'"
           "list_all2 (holds_cheque env s) new (accepted_cheques flt (Suc k) rest)"
      by (elim exE conjE)
    have "rows t' = rows t @ (?r # new)"
      using new(1) by simp
    moreover have "\<forall>r\<in>set (?r # new). sql_eq env (col r ''tenant_id'') (JStr s)"
      using new(2) cheque_row(2) [OF params] by simp
    moreover have "\<forall>r\<in>set (?r # new). seq t < rowid r"
      using new(3) fresh by auto
    moreover have "seq t \<le> seq t'"
      using new(4) fresh by simp
    moreover have "list_all2 (holds_cheque env s) (?r # new) (accepted_cheques flt k (cheque # rest))"
      using new(5) None cheque_row(3) [OF params] by simp
    ultimately show ?thesis by (intro exI [of _ "?r # new"] conjI)
  qed
qed

lemma insert_cheques_returns:
  assumes "\<forall>cheque\<in>set cs. cheque_params env (JStr s) cheque \<noteq> None"
  shows "\<exists>t'. insert_cheques env flt (JStr s) k cs t = Some t'"
  using assms
proof (induction cs arbitrary: k t)
  case Nil
  then show ?case by simp
next
  case (Cons cheque rest)
  then obtain params where params: "cheque_params env (JStr s) cheque = Some params"
    by auto
  from Cons.prems have rest: "\<forall>cheque\<in>set rest. cheque_params env (JStr s) cheque \<noteq> None"
    by simp
  show ?case
  proof (cases "flt (2 + k)")
    case (Some msg)
    with params Cons.IH [OF rest, of "Suc k" t] show ?thesis by simp
  next
    case None
    with params cheque_row(1) [OF params, of "current_timestamp env (2 + k)" t]
         Cons.IH [OF rest, of "Suc k"]
    show ?thesis by simp
  qed
qed

lemma message_not_error [simp]:
  "json_error c m \<noteq> json_message m'" "json_message m' \<noteq> json_error c m"
  "NoResponse \<noteq> json_message m'" "json_message m' \<noteq> NoResponse"
  "(json_message m = json_message m') = (m = m')"
  by (auto simp: json_error_def json_message_def)

lemma array_has_length:
  "truthy (JArr cs)" "\<not> conversion_throws env (js_length (JArr cs))"
  "js_ge_zero env (js_length (JArr cs))"
  by (simp_all add: js_ge_zero_def js_length_def js_to_number_def jnat_def conversion_throws_def)

lemma filter_filter_not: "filter P (filter (\<lambda>x. \<not> P x) xs) = []"
  by (induction xs) auto

text \<open>What \<^verbatim>\<open>updateCheques\<close> leaves, when every supplied cheque can be bound.\<close>

lemma updateCheques_replaces:
  assumes bound: "\<forall>cheque\<in>set cs. cheque_params env (JStr s) cheque \<noteq> None"
      and del: "flt 1 = None"
  shows "fst (updateCheques env flt (JStr s) (JArr cs) db) =
           json_message ''Tenant updated successfully with cheques'' \<and>
         list_all2 (holds_cheque env s)
           (cheques_of env s (cheques (snd (updateCheques env flt (JStr s) (JArr cs) db))))
           (accepted_cheques flt 0 cs) \<and>
         (\<forall>x\<in>set (cheques_of env s (cheques (snd (updateCheques env flt (JStr s) (JArr cs) db)))).
            seq (cheques db) < rowid x) \<and>
         other_cheques env s (cheques (snd (updateCheques env flt (JStr s) (JArr cs) db))) =
           other_cheques env s (cheques db)"
proof (cases "cs = []")
  case True
  with del show ?thesis
    by (simp add: updateCheques_def sql_delete_def js_length_def jnat_def cheques_of_def other_cheques_def
          filter_filter_not)
next
  case False
  let ?mine = "\<lambda>r. sql_eq env (col r ''tenant_id'') (JStr s)"
  let ?t0 = "(cheques db)\<lparr>rows := filter (\<lambda>r. \<not> ?mine r) (rows (cheques db))\<rparr>"
  from False have len: "js_length (JArr cs) \<noteq> JNum (Fin 0)"
    by (simp add: js_length_def jnat_def)
  from insert_cheques_returns [OF bound, where flt = flt and k = 0 and t = ?t0] obtain t' where
    t': "insert_cheques env flt (JStr s) 0 cs ?t0 = Some t'" by blast
  from insert_cheques_appends [OF t'] obtain new where
    new: "rows t' = rows ?t0 @ new"
         "\<forall>r\<in>set new. ?mine r"
         "\<forall>r\<in>set new. seq ?t0 < rowid r"
         "list_all2 (holds_cheque env s) new (accepted_cheques flt 0 cs)"
    by (elim exE conjE)
  from new(2) have f1: "filter ?mine new = new" "filter (\<lambda>r. \<not> ?mine r) new = []"
    by (simp_all add: filter_id_conv filter_empty_conv)
  have res: "updateCheques env flt (JStr s) (JArr cs) db =
               (json_message ''Tenant updated successfully with cheques'', db\<lparr>cheques := t'\<rparr>)"
    using t' del len by (simp add: updateCheques_def sql_delete_def)
  have mine: "cheques_of env s t' = new"
    unfolding cheques_of_def new(1) by (simp add: f1 filter_filter_not)
  have others: "other_cheques env s t' = other_cheques env s (cheques db)"
    unfolding other_cheques_def new(1) by (simp add: f1)
  from new(3) have fresh: "\<forall>x\<in>set new. seq (cheques db) < rowid x" by simp
  show ?thesis
    unfolding res by (simp add: mine others new(4) fresh)
qed

lemma updateCheques_delete_failure:
  "flt 1 = Some msg \<Longrightarrow>
     updateCheques env flt tenantId chqs db = (json_message ''Tenant updated successfully with cheques'', db)"
  by (simp add: updateCheques_def)

text \<open>The UPDATE of a tenant row the caller owns, with a body that passed the checks.\<close>

lemma tenant_update_params_Inr:
  assumes "tenant_update_params env b = Inr params"
  shows "truthy (obj_get b ''first_name'')" "truthy (obj_get b ''last_name'')" "truthy (obj_get b ''email'')"
    and "\<exists>pv rv. bind_params env (tenant_values b pv rv) = Some params"
  using assms
  by (auto simp: tenant_update_params_def Let_def split: if_splits option.splits)

lemma tenant_values_lookup:
  "map_of (tenant_values b pv rv) ''first_name'' = Some (obj_get b ''first_name'')"
  "map_of (tenant_values b pv rv) ''last_name'' = Some (obj_get b ''last_name'')"
  "map_of (tenant_values b pv rv) ''email'' = Some (obj_get b ''email'')"
  "map_of (tenant_values b pv rv) ''user_id'' = None"
  by (simp_all add: tenant_values_def)

lemma tenants_columns_text:
  "map_of (columns tenants_table) ''first_name'' = Some TEXT"
  "map_of (columns tenants_table) ''last_name'' = Some TEXT"
  "map_of (columns tenants_table) ''email'' = Some TEXT"
  by (simp_all add: tenants_table_def)

lemma bind_params_unlisted:
  assumes "bind_params env ps = Some bound" "map_of ps c = None"
  shows "map_of bound c = None"
proof -
  from assms(2) have "c \<notin> fst ` set ps" by (simp add: map_of_eq_None_iff)
  with bind_params_keys [OF assms(1)] have "c \<notin> fst ` set bound"
    by (metis list.set_map)
  then show ?thesis by (simp add: map_of_eq_None_iff)
qed

lemma tenant_update_satisfies_constraints:
  assumes "tenant_update_params env b = Inr params"
  shows "find (\<lambda>c. map_of (stored_values env tenants_table params) c = Some JNull)
           (notnull tenants_table) = None"
proof -
  from tenant_update_params_Inr [OF assms] obtain pv rv where
    t: "truthy (obj_get b ''first_name'')" "truthy (obj_get b ''last_name'')" "truthy (obj_get b ''email'')"
    and bp: "bind_params env (tenant_values b pv rv) = Some params"
    by blast
  have stored: "\<exists>x. x \<noteq> JNull \<and> map_of (stored_values env tenants_table params) c = Some x"
    if c: "map_of (tenant_values b pv rv) c = Some v" and v: "truthy v"
      and a: "map_of (columns tenants_table) c = Some TEXT" for c v
  proof -
    from bind_params_lookup [OF bp c] obtain x where
      x: "sql_bind env v = Some x" "map_of params c = Some x" by blast
    from sql_bind_truthy [OF v x(1)] stored_values_lookup [OF a x(2), of env]
    show ?thesis by simp
  qed
  have user: "map_of (stored_values env tenants_table params) ''user_id'' = None"
    by (rule stored_values_unlisted) (rule bind_params_unlisted [OF bp tenant_values_lookup(4)])
  from stored [OF tenant_values_lookup(1) t(1) tenants_columns_text(1)]
       stored [OF tenant_values_lookup(2) t(2) tenants_columns_text(2)]
       stored [OF tenant_values_lookup(3) t(3) tenants_columns_text(3)] user
  show ?thesis
    by (auto simp: tenants_table_def)
qed

lemma put_tenant_with_cheques:
  assumes u: "getCurrentUserId env req = Some userId"
      and p: "tenant_update_params env (body req) = Inr params"
      and r: "r \<in> set (rows (tenants db))" and o: "owned_by env (JStr (param_id req)) userId r"
      and f: "flt 0 = None"
      and list: "obj_get (body req) ''cheques'' = JArr cs"
  shows "\<exists>t. put_tenant env flt req db =
               updateCheques env flt (JStr (param_id req)) (JArr cs) (db\<lparr>tenants := t\<rparr>)"
proof -
  let ?w = "owned_by env (JStr (param_id req)) userId"
  from r o have some: "filter ?w (rows (tenants db)) \<noteq> []"
    by (auto simp: filter_empty_conv)
  then have changes: "length (filter ?w (rows (tenants db))) \<noteq> 0" by simp
  let ?t = "(tenants db)\<lparr>rows := map (\<lambda>x. if ?w x
                                          then x\<lparr>cols := set_cols (stored_values env tenants_table params) (cols x)\<rparr>
                                          else x) (rows (tenants db))\<rparr>"
  have upd: "sql_update env tenants_table (tenants db) params ?w =
               Inr (length (filter ?w (rows (tenants db))), ?t)"
    using some tenant_update_satisfies_constraints [OF p] by (simp add: sql_update_def)
  have "put_tenant env flt req db =
          updateCheques env flt (JStr (param_id req)) (JArr cs) (db\<lparr>tenants := ?t\<rparr>)"
    using u p f upd changes list array_has_length(1) [of cs] array_has_length(2,3) [of env cs]
    by (simp add: put_tenant_def Let_def)
  then show ?thesis by (rule exI)
qed

text \<open>
  Claim C7, as the code has it. An update of a tenant supplies the cheque list \<open>cs\<close>: its
  body passes the checks of the handler, its UPDATE succeeds and matches a tenant row of the
  caller, and the parameters of every supplied cheque can be bound (no element of the list is
  \<^verbatim>\<open>null\<close>). Then the update is answered with
  \<^verbatim>\<open>'Tenant updated successfully with cheques'\<close>. If the DELETE of the tenant's old cheque
  rows succeeds, the tenant's cheque rows afterwards are new rows that hold exactly those
  supplied cheques whose INSERT succeeded, in the order of the list, each column with the value
  SQLite stores for it: their number and the number of failed INSERTs add up to the length of
  the list, so without a failed INSERT it is that length; the cheque rows of the other tenants
  stay as they were. If the DELETE itself fails, that failure too is only logged: nothing is
  inserted and the table of cheques is left as it was.
\<close>

theorem cheque_list_replaces_cheques:
  assumes u: "getCurrentUserId env req = Some userId"
      and p: "tenant_update_params env (body req) = Inr params"
      and r: "r \<in> set (rows (tenants db))" and o: "owned_by env (JStr (param_id req)) userId r"
      and f: "flt 0 = None"
      and list: "obj_get (body req) ''cheques'' = JArr cs"
      and bound: "\<forall>cheque\<in>set cs. cheque_params env (JStr (param_id req)) cheque \<noteq> None"
  shows "fst (put_tenant env flt req db) = json_message ''Tenant updated successfully with cheques'' \<and>
         (flt 1 = None \<longrightarrow>
            list_all2 (holds_cheque env (param_id req))
              (cheques_of env (param_id req) (cheques (snd (put_tenant env flt req db))))
              (accepted_cheques flt 0 cs) \<and>
            length (cheques_of env (param_id req) (cheques (snd (put_tenant env flt req db)))) +
              failed_inserts flt (length cs) = length cs \<and>
            (\<forall>x\<in>set (cheques_of env (param_id req) (cheques (snd (put_tenant env flt req db)))).
               seq (cheques db) < rowid x) \<and>
            other_cheques env (param_id req) (cheques (snd (put_tenant env flt req db))) =
              other_cheques env (param_id req) (cheques db)) \<and>
         (flt 1 \<noteq> None \<longrightarrow> cheques (snd (put_tenant env flt req db)) = cheques db)"
proof -
  from put_tenant_with_cheques [where flt = flt, OF u p r o f list] obtain t where
    eq: "put_tenant env flt req db =
           updateCheques env flt (JStr (param_id req)) (JArr cs) (db\<lparr>tenants := t\<rparr>)"
    by blast
  show ?thesis
  proof (cases "flt 1")
    case (Some msg)
    then show ?thesis
      by (simp add: eq updateCheques_delete_failure)
  next
    case None
    note rep = updateCheques_replaces [where flt = flt and db = "db\<lparr>tenants := t\<rparr>", OF bound None]
    from rep have held:
      "list_all2 (holds_cheque env (param_id req))
         (cheques_of env (param_id req) (cheques (snd (put_tenant env flt req db))))
         (accepted_cheques flt 0 cs)"
      by (simp only: eq)
    then have "length (cheques_of env (param_id req) (cheques (snd (put_tenant env flt req db)))) =
               length (accepted_cheques flt 0 cs)"
      by (rule list_all2_lengthD)
    with accepted_plus_failed [of flt cs]
    have count: "length (cheques_of env (param_id req) (cheques (snd (put_tenant env flt req db)))) +
                   failed_inserts flt (length cs) = length cs"
      by simp
    from rep held count None show ?thesis
      by (simp add: eq)
  qed
qed

text \<open>
  Alice replaces the two cheques of her tenant by three. The number 201 of the first cheque is
  stored as the text \<^verbatim>\<open>201\<close> and its amount \<^verbatim>\<open>'900'\<close> as the number 900. When the second
  of the three INSERTs fails, two rows remain.
\<close>

lemma example_tenant_update_facts:
  "getCurrentUserId example_runtime (example_tenant_update three_cheques) = Some 1"
  "\<not> isl (tenant_update_params example_runtime (body (example_tenant_update three_cheques)))"
  "alices_tenant \<in> set (rows (tenants example_store))"
  "owned_by example_runtime (JStr (param_id (example_tenant_update three_cheques))) 1 alices_tenant"
  "obj_get (body (example_tenant_update three_cheques)) ''cheques'' = JArr three_cheques"
  "\<forall>cheque\<in>set three_cheques.
     cheque_params example_runtime (JStr (param_id (example_tenant_update three_cheques))) cheque \<noteq> None"
  "param_id (example_tenant_update three_cheques) = ''1''"
  by code_simp+

lemma first_cheque_as_stored:
  assumes "holds_cheque example_runtime ''1'' x (hd three_cheques)"
  shows "col x ''cheque_number'' = JStr ''201''" and "col x ''amount'' = JNum (Fin 900)"
proof -
  have "case cheque_params example_runtime (JStr ''1'') (hd three_cheques) of
          None \<Rightarrow> False
        | Some params \<Rightarrow>
            stored_values example_runtime cheques_table params =
              [(''tenant_id'', JNum (Fin 1)), (''cheque_number'', JStr ''201''), (''bank_name'', JNull),
               (''date'', JNull), (''amount'', JNum (Fin 900)), (''is_security'', JNum (Fin 0))]"
    by code_simp
  with assms show "col x ''cheque_number'' = JStr ''201''" and "col x ''amount'' = JNum (Fin 900)"
    by (auto simp: holds_cheque_def split: option.splits)
qed

theorem cheque_list_replaces_cheques_witness:
  "fst (put_tenant example_runtime no_faults (example_tenant_update three_cheques) example_store) =
     json_message ''Tenant updated successfully with cheques'' \<and>
   length (cheques_of example_runtime ''1'' (cheques example_store)) = 2 \<and>
   length (cheques_of example_runtime ''1''
     (cheques (snd (put_tenant example_runtime no_faults (example_tenant_update three_cheques) example_store)))) = 3 \<and>
   col (hd (cheques_of example_runtime ''1''
     (cheques (snd (put_tenant example_runtime no_faults (example_tenant_update three_cheques) example_store)))))
     ''cheque_number'' = JStr ''201'' \<and>
   col (hd (cheques_of example_runtime ''1''
     (cheques (snd (put_tenant example_runtime no_faults (example_tenant_update three_cheques) example_store)))))
     ''amount'' = JNum (Fin 900) \<and>
   fst (put_tenant example_runtime (fails_at 3) (example_tenant_update three_cheques) example_store) =
     json_message ''Tenant updated successfully with cheques'' \<and>
   length (cheques_of example_runtime ''1''
     (cheques (snd (put_tenant example_runtime (fails_at 3) (example_tenant_update three_cheques) example_store)))) = 2"
proof -
  let ?req = "example_tenant_update three_cheques"
  let ?after = "\<lambda>flt. cheques_of example_runtime ''1'' (cheques (snd (put_tenant example_runtime flt ?req example_store)))"
  note e = example_tenant_update_facts
  from e(2) obtain params where
    p: "tenant_update_params example_runtime (body ?req) = Inr params"
    by (cases "tenant_update_params example_runtime (body ?req)") simp_all
  have old: "length (cheques_of example_runtime ''1'' (cheques example_store)) = 2"
    by code_simp
  have n: "length three_cheques = 3" by (simp add: three_cheques_def)
  have f0: "failed_inserts no_faults 3 = 0" by code_simp
  have f1: "failed_inserts (fails_at 3) 3 = 1" by code_simp
  have d1: "fails_at 3 0 = None" "fails_at 3 1 = None" by (simp_all add: fails_at_def)
  have acc: "accepted_cheques no_faults 0 three_cheques = three_cheques"
    by (simp add: three_cheques_def)
  note all = cheque_list_replaces_cheques
               [where flt = no_faults and db = example_store, OF e(1) p e(3) e(4) no_faults_none e(5) e(6)]
  note one = cheque_list_replaces_cheques
               [where flt = "fails_at 3" and db = example_store, OF e(1) p e(3) e(4) d1(1) e(5) e(6)]
  from all have a: "fst (put_tenant example_runtime no_faults ?req example_store) =
                      json_message ''Tenant updated successfully with cheques''"
    by simp
  from all f0 n e(7) have b: "length (?after no_faults) = 3"
    by simp
  from all acc e(7) have held: "list_all2 (holds_cheque example_runtime ''1'') (?after no_faults) three_cheques"
    by simp
  from b obtain x xs where rows: "?after no_faults = x # xs"
    by (cases "?after no_faults") simp_all
  from held rows have "holds_cheque example_runtime ''1'' x (hd three_cheques)"
    by (simp add: three_cheques_def)
  from first_cheque_as_stored [OF this] rows
  have c: "col (hd (?after no_faults)) ''cheque_number'' = JStr ''201''"
          "col (hd (?after no_faults)) ''amount'' = JNum (Fin 900)"
    by simp_all
  from one have a': "fst (put_tenant example_runtime (fails_at 3) ?req example_store) =
                       json_message ''Tenant updated successfully with cheques''"
    by simp
  from one d1(2) f1 n e(7) have b': "length (?after (fails_at 3)) = 2"
    by simp
  from a old b c a' b' show ?thesis by (intro conjI)
qed

text \<open>
  Claim C7 as stated fails. Alice supplies one cheque and the DELETE of the old rows fails: the
  update is answered as a success, no INSERT has failed, and the tenant still has the two old
  cheque rows.
\<close>

theorem failed_delete_keeps_old_cheques:
  "fst (put_tenant example_runtime (fails_at 1)
          (example_tenant_update [JObj [(''cheque_number'', JStr ''000201'')]]) example_store) =
     json_message ''Tenant updated successfully with cheques'' \<and>
   failed_inserts (fails_at 1) 1 = 0 \<and>
   cheques_of example_runtime ''1''
     (cheques (snd (put_tenant example_runtime (fails_at 1)
        (example_tenant_update [JObj [(''cheque_number'', JStr ''000201'')]]) example_store))) = example_cheques \<and>
   length example_cheques = 2"
  by code_simp

text \<open>
  A list with an element that is \<^verbatim>\<open>null\<close> is outside the theorem: reading the number of
  that cheque throws in the callback of the DELETE, after the old rows are gone. The request is
  never answered and the tenant is left without cheques.
\<close>

lemma null_cheque_is_never_answered:
  "fst (put_tenant example_runtime no_faults (example_tenant_update [JNull]) example_store) = NoResponse \<and>
   cheques_of example_runtime ''1''
     (cheques (snd (put_tenant example_runtime no_faults (example_tenant_update [JNull]) example_store))) = []"
  by code_simp

section \<open>Header validation of the bulk imports\<close>

lemma validate_headers_rejects:
  assumes "i \<le> k" "k < length expected"
      and "\<And>j. i \<le> j \<Longrightarrow> j < k \<Longrightarrow> cell_at hs j = JStr (expected ! j)"
      and "cell_at hs k \<noteq> JStr (expected ! k)"
  shows "validate_headers env expected hs i =
           Some (json_error 400 (invalid_header env k (expected ! k) (cell_at hs k)))"
  using assms
proof (induction "k - i" arbitrary: i)
  case 0
  then have "i = k" by simp
  with 0 show ?case by (simp add: validate_headers.simps [of env expected hs k])
next
  case (Suc n)
  then have lt: "i < k" by simp
  with Suc.prems have here: "cell_at hs i = JStr (expected ! i)" "i < length expected" by simp_all
  have "validate_headers env expected hs (i + 1) =
          Some (json_error 400 (invalid_header env k (expected ! k) (cell_at hs k)))"
  proof (rule Suc.hyps(1))
    show "n = k - (i + 1)" using Suc.hyps(2) by simp
    show "i + 1 \<le> k" using lt by simp
    show "k < length expected" by (rule Suc.prems(2))
    show "cell_at hs j = JStr (expected ! j)" if "i + 1 \<le> j" "j < k" for j
      using that Suc.prems(3) [of j] by simp
    show "cell_at hs k \<noteq> JStr (expected ! k)" by (rule Suc.prems(4))
  qed
  with here show ?case by (simp add: validate_headers.simps [of env expected hs i])
qed

lemma validate_headers_accepts:
  assumes "\<And>j. i \<le> j \<Longrightarrow> j < length expected \<Longrightarrow> cell_at hs j = JStr (expected ! j)"
  shows "validate_headers env expected hs i = None"
  using assms
proof (induction "length expected - i" arbitrary: i)
  case 0
  then show ?case by (simp add: validate_headers.simps [of env expected hs i])
next
  case (Suc n)
  then have lt: "i < length expected" by simp
  have "validate_headers env expected hs (i + 1) = None"
  proof (rule Suc.hyps(1))
    show "n = length expected - (i + 1)" using Suc.hyps(2) by simp
    show "cell_at hs j = JStr (expected ! j)" if "i + 1 \<le> j" "j < length expected" for j
      using that Suc.prems [of j] by simp
  qed
  with lt Suc.prems [of i] show ?case by (simp add: validate_headers.simps [of env expected hs i])
qed

lemma first_mismatch_cells:
  assumes "first_mismatch expected hs k" "j < k"
  shows "cell_at hs j = JStr (expected ! j)"
proof -
  from assms have k: "k < length expected" and eq: "map (cell_at hs) [0..<k] = map JStr (take k expected)"
    by (simp_all add: first_mismatch_def)
  from eq have "map (cell_at hs) [0..<k] ! j = map JStr (take k expected) ! j" by simp
  with assms(2) k show ?thesis by simp
qed

lemma first_mismatch_rejects:
  assumes "first_mismatch expected hs k"
  shows "validate_headers env expected hs 0 =
           Some (json_error 400 (invalid_header env k (expected ! k) (cell_at hs k)))"
proof (rule validate_headers_rejects)
  show "0 \<le> k" by simp
  show "k < length expected" using assms by (simp add: first_mismatch_def)
  show "cell_at hs j = JStr (expected ! j)" if "j < k" for j
    by (rule first_mismatch_cells [OF assms that])
  show "cell_at hs k \<noteq> JStr (expected ! k)" using assms by (simp add: first_mismatch_def)
qed

lemma differing_header_has_first_mismatch:
  assumes "header_differs expected hs"
  shows "\<exists>k. first_mismatch expected hs k"
proof -
  let ?P = "\<lambda>i. i < length expected \<and> cell_at hs i \<noteq> JStr (expected ! i)"
  from assms obtain i where i: "?P i"
    by (auto simp: header_differs_def list_ex_iff)
  define k where "k = (LEAST i. ?P i)"
  have k: "?P k" unfolding k_def by (rule LeastI [of ?P, OF i])
  have before: "cell_at hs j = JStr (expected ! j)" if "j < k" for j
  proof -
    from that have "\<not> ?P j" unfolding k_def by (rule not_less_Least)
    moreover from that k have "j < length expected" by simp
    ultimately show ?thesis by simp
  qed
  have "map (cell_at hs) [0..<k] = map JStr (take k expected)"
  proof (rule nth_equalityI)
    show "length (map (cell_at hs) [0..<k]) = length (map JStr (take k expected))"
      using k by simp
    show "map (cell_at hs) [0..<k] ! j = map JStr (take k expected) ! j"
      if "j < length (map (cell_at hs) [0..<k])" for j
      using that k before [of j] by simp
  qed
  with k have "first_mismatch expected hs k" by (simp add: first_mismatch_def)
  then show ?thesis by (rule exI)
qed

lemma first_mismatch_unique:
  assumes "first_mismatch expected hs k" "first_mismatch expected hs k'"
  shows "k = k'"
proof (rule ccontr)
  assume "k \<noteq> k'"
  then consider "k < k'" | "k' < k" by linarith
  then show False
  proof cases
    case 1
    from first_mismatch_cells [OF assms(2) 1] assms(1) show False by (simp add: first_mismatch_def)
  next
    case 2
    from first_mismatch_cells [OF assms(1) 2] assms(2) show False by (simp add: first_mismatch_def)
  qed
qed

text \<open>A header row that passes hands the data rows to the import.\<close>

lemma matching_header_reaches_rows:
  assumes "upload_file req = Some (Sheet sheet)" "2 \<le> length sheet"
      and "getCurrentUserId env req = Some userId"
  shows "\<not> header_differs properties_columns (hd sheet) \<Longrightarrow>
           bulk_upload_properties env import_rows req db = import_rows (tl sheet) userId db"
    and "\<not> header_differs tenants_columns (hd sheet) \<Longrightarrow>
           bulk_upload_tenants env import_rows req db = import_rows (tl sheet) userId db"
    and "\<not> header_differs combined_columns (hd sheet) \<Longrightarrow>
           bulk_upload_combined env import_rows req db = import_rows (tl sheet) userId db"
proof -
  have v: "validate_headers env expected (hd sheet) 0 = None" if "\<not> header_differs expected (hd sheet)" for expected
  proof (rule validate_headers_accepts)
    show "cell_at (hd sheet) j = JStr (expected ! j)" if "0 \<le> j" "j < length expected" for j
      using that \<open>\<not> header_differs expected (hd sheet)\<close> by (simp add: header_differs_def list_ex_iff)
  qed
  show "\<not> header_differs properties_columns (hd sheet) \<Longrightarrow>
           bulk_upload_properties env import_rows req db = import_rows (tl sheet) userId db"
    using assms by (simp add: bulk_upload_properties_def v)
  show "\<not> header_differs tenants_columns (hd sheet) \<Longrightarrow>
           bulk_upload_tenants env import_rows req db = import_rows (tl sheet) userId db"
    using assms by (simp add: bulk_upload_tenants_def v)
  show "\<not> header_differs combined_columns (hd sheet) \<Longrightarrow>
           bulk_upload_combined env import_rows req db = import_rows (tl sheet) userId db"
    using assms by (simp add: bulk_upload_combined_def v)
qed

text \<open>
  Claim C8, as the code has it. Take an import of properties, of tenants or of the combined
  sheet whose file reads as a sheet of at least two rows. If one of the cells of the first row
  under the expected columns differs from the expected name, the import is answered with 400
  and the message that names the first such column \<open>k + 1\<close>, the expected name and the cell
  found there. The answer is the same for every way of importing the data rows, and the store
  is returned as it was: no row is validated or written.
\<close>

theorem differing_header_rejects_import:
  assumes sheet_read: "upload_file req = Some (Sheet sheet)"
      and data: "2 \<le> length sheet"
      and user: "getCurrentUserId env req = Some userId"
  shows "(header_differs properties_columns (hd sheet) \<longrightarrow>
            (\<exists>k. first_mismatch properties_columns (hd sheet) k \<and>
                 bulk_upload_properties env import_rows req db =
                   (json_error 400
                      (invalid_header env k (properties_columns ! k) (cell_at (hd sheet) k)), db))) \<and>
         (header_differs tenants_columns (hd sheet) \<longrightarrow>
            (\<exists>k. first_mismatch tenants_columns (hd sheet) k \<and>
                 bulk_upload_tenants env import_rows req db =
                   (json_error 400
                      (invalid_header env k (tenants_columns ! k) (cell_at (hd sheet) k)), db))) \<and>
         (header_differs combined_columns (hd sheet) \<longrightarrow>
            (\<exists>k. first_mismatch combined_columns (hd sheet) k \<and>
                 bulk_upload_combined env import_rows req db =
                   (json_error 400
                      (invalid_header env k (combined_columns ! k) (cell_at (hd sheet) k)), db)))"
proof (intro conjI impI)
  assume "header_differs properties_columns (hd sheet)"
  then obtain k where k: "first_mismatch properties_columns (hd sheet) k"
    using differing_header_has_first_mismatch by blast
  from sheet_read data user first_mismatch_rejects [OF k, of env]
  have "bulk_upload_properties env import_rows req db =
          (json_error 400 (invalid_header env k (properties_columns ! k) (cell_at (hd sheet) k)), db)"
    by (simp add: bulk_upload_properties_def)
  with k show "\<exists>k. first_mismatch properties_columns (hd sheet) k \<and>
                 bulk_upload_properties env import_rows req db =
                   (json_error 400
                      (invalid_header env k (properties_columns ! k) (cell_at (hd sheet) k)), db)"
    by (intro exI [of _ k] conjI)
next
  assume "header_differs tenants_columns (hd sheet)"
  then obtain k where k: "first_mismatch tenants_columns (hd sheet) k"
    using differing_header_has_first_mismatch by blast
  from sheet_read data user first_mismatch_rejects [OF k, of env]
  have "bulk_upload_tenants env import_rows req db =
          (json_error 400 (invalid_header env k (tenants_columns ! k) (cell_at (hd sheet) k)), db)"
    by (simp add: bulk_upload_tenants_def)
  with k show "\<exists>k. first_mismatch tenants_columns (hd sheet) k \<and>
                 bulk_upload_tenants env import_rows req db =
                   (json_error 400
                      (invalid_header env k (tenants_columns ! k) (cell_at (hd sheet) k)), db)"
    by (intro exI [of _ k] conjI)
next
  assume "header_differs combined_columns (hd sheet)"
  then obtain k where k: "first_mismatch combined_columns (hd sheet) k"
    using differing_header_has_first_mismatch by blast
  from sheet_read data user first_mismatch_rejects [OF k, of env]
  have "bulk_upload_combined env import_rows req db =
          (json_error 400 (invalid_header env k (combined_columns ! k) (cell_at (hd sheet) k)), db)"
    by (simp add: bulk_upload_combined_def)
  with k show "\<exists>k. first_mismatch combined_columns (hd sheet) k \<and>
                 bulk_upload_combined env import_rows req db =
                   (json_error 400
                      (invalid_header env k (combined_columns ! k) (cell_at (hd sheet) k)), db)"
    by (intro exI [of _ k] conjI)
qed

text \<open>The sheet of properties with the third header misnamed and one data row.\<close>

theorem differing_header_rejects_import_witness:
  "header_differs properties_columns misnamed_header \<and>
   bulk_upload_properties example_runtime rows_reached
       (example_upload ''token-of-alice'' [misnamed_header, villa_row]) example_store =
     (json_error 400
        (''Invalid header at column 3. Expected '' @ [CHR 0x22] @ ''Type'' @ [CHR 0x22] @
         '', got '' @ [CHR 0x22] @ ''Kind'' @ [CHR 0x22]), example_store)"
proof -
  let ?req = "example_upload ''token-of-alice'' [misnamed_header, villa_row]"
  have sheet_read: "upload_file ?req = Some (Sheet [misnamed_header, villa_row])"
    by (simp add: example_upload_def)
  have data: "2 \<le> length [misnamed_header, villa_row]" by simp
  have user: "getCurrentUserId example_runtime ?req = Some 1" by (rule example_user)
  have differs: "header_differs properties_columns misnamed_header" by code_simp
  have third: "first_mismatch properties_columns misnamed_header 2" by code_simp
  have msg: "invalid_header example_runtime 2 (properties_columns ! 2) (cell_at misnamed_header 2) =
               ''Invalid header at column 3. Expected '' @ [CHR 0x22] @ ''Type'' @ [CHR 0x22] @
               '', got '' @ [CHR 0x22] @ ''Kind'' @ [CHR 0x22]"
    by code_simp
  from differing_header_rejects_import [OF sheet_read data user, of rows_reached example_store] differs
  obtain k where k: "first_mismatch properties_columns misnamed_header k"
    and res: "bulk_upload_properties example_runtime rows_reached ?req example_store =
                (json_error 400
                   (invalid_header example_runtime k (properties_columns ! k) (cell_at misnamed_header k)),
                 example_store)"
    by auto
  from first_mismatch_unique [OF k third] have "k = 2" .
  with res msg differs show ?thesis by simp
qed

text \<open>
  The same header row in a file without data rows: the answer is 400, but its message is about
  the missing rows and names no column.
\<close>

theorem header_of_file_without_rows_is_not_named:
  "header_differs properties_columns misnamed_header \<and>
   bulk_upload_properties example_runtime rows_reached
       (example_upload ''token-of-alice'' [misnamed_header]) example_store =
     (json_error 400 ''File must contain at least a header row and one data row'', example_store)"
  by code_simp

text \<open>
  The loop stops at the last expected column: a header row with a twelfth cell after the eleven
  expected names passes, and the data rows are imported.
\<close>

lemma extra_header_cell_is_accepted:
  "\<not> header_differs properties_columns (map JStr properties_columns @ [JStr ''Notes'']) \<and>
   bulk_upload_properties example_runtime rows_reached
       (example_upload ''token-of-alice'' [map JStr properties_columns @ [JStr ''Notes''], villa_row])
       example_store =
     (json_message ''rows reached'', example_store)"
  by code_simp

end
